theory Spec2Isabelle
  imports Main "HOL-Library.Char_ord" "HOL-Library.List_Lexorder"
begin

section \<open>The student API: data model\<close>

text \<open>
  The repository is a Django REST framework application. \<^verbatim>\<open>core/models.py\<close> declares the
  tables Student, Tag and Course, each row with a foreign key \<^verbatim>\<open>user\<close> to its owner, and two
  many-to-many relations of Student (\<^verbatim>\<open>tags\<close>, \<^verbatim>\<open>courses\<close>), which Django stores as join
  tables of (student id, label id) rows. \<^verbatim>\<open>student/serializers.py\<close> and
  \<^verbatim>\<open>student/views.py\<close> are the operations on them.

  The database is a record of lists of rows, passed explicitly and returned updated; an
  exception is a value of \<open>error\<close>. A Python string is a list of code points below 256.
\<close>

type_synonym user = nat

record student =
  s_id :: int
  s_user :: user
  s_name :: string
  s_email :: string
  s_address :: string
  s_birthday :: string
  s_link :: string
  s_image :: "string option"

text \<open>Tag and Course have the same columns: id, title, user.\<close>

record label =
  l_id :: int
  l_title :: string
  l_user :: user

record db =
  students :: "student list"
  tags :: "label list"
  courses :: "label list"
  student_tags :: "(int \<times> int) list"
  student_courses :: "(int \<times> int) list"
  student_seq :: int
  tag_seq :: int
  course_seq :: int

text \<open>
  \<open>student_seq\<close>, \<open>tag_seq\<close> and \<open>course_seq\<close> are the auto-increment counters of the
  three primary keys: the last id handed out.
\<close>

definition empty_db :: db where
  "empty_db = \<lparr>students = [], tags = [], courses = [], student_tags = [],
     student_courses = [], student_seq = 0, tag_seq = 0, course_seq = 0\<rparr>"

datatype error =
    NotFound
  | MethodNotAllowed
  | ValidationError "string list"
  | ValueError
  | MultipleObjectsReturned

text \<open>
  The framework's exception handler answers NotFound with 404, MethodNotAllowed with 405
  and ValidationError with 400 and the failing fields; any other exception is not handled
  and leaves the view as a server error.
\<close>

fun exception_handler :: "error \<Rightarrow> nat option" where
  "exception_handler NotFound = Some 404"
| "exception_handler MethodNotAllowed = Some 405"
| "exception_handler (ValidationError fs) = Some 400"
| "exception_handler ValueError = None"
| "exception_handler MultipleObjectsReturned = None"

definition status_code :: "error \<Rightarrow> nat" where
  "status_code e = (case exception_handler e of Some c \<Rightarrow> c | None \<Rightarrow> 500)"

record query_params =
  qp_tags :: "string option"
  qp_courses :: "string option"
  qp_assigned_only :: "string option"

definition no_params :: query_params where
  "no_params = \<lparr>qp_tags = None, qp_courses = None, qp_assigned_only = None\<rparr>"

section \<open>Python's \<^verbatim>\<open>str.strip\<close>, \<^verbatim>\<open>int\<close> and \<^verbatim>\<open>str.split\<close>\<close>

text \<open>
  A character is a code point below 256. \<^verbatim>\<open>str.strip()\<close> removes the characters for which
  \<^verbatim>\<open>str.isspace\<close> holds: among the code points below 256 these are 9 to 13, 28 to 31, 32,
  133 and 160.
\<close>

definition py_isspace :: "char \<Rightarrow> bool" where
  "py_isspace c = ((of_char c :: nat) \<in> {9, 10, 11, 12, 13, 28, 29, 30, 31, 32, 133, 160})"

definition py_strip :: "string \<Rightarrow> string" where
  "py_strip s = rev (dropWhile py_isspace (rev (dropWhile py_isspace s)))"

text \<open>
  \<^verbatim>\<open>int(s)\<close> skips less than \<^verbatim>\<open>str.strip()\<close> removes: a character below 127 is kept as it
  is and the parser then skips the ASCII white space 9 to 13 and 32 only; a character from 127
  on is turned into a blank when it is a Unicode space (133 and 160 below 256). The
  separators 28 to 31 are therefore not skipped: \<^verbatim>\<open>int('\x1c5')\<close> raises \<^verbatim>\<open>ValueError\<close>.
\<close>

definition py_int_isspace :: "char \<Rightarrow> bool" where
  "py_int_isspace c = ((of_char c :: nat) \<in> {9, 10, 11, 12, 13, 32, 133, 160})"

definition py_int_strip :: "string \<Rightarrow> string" where
  "py_int_strip s = rev (dropWhile py_int_isspace (rev (dropWhile py_int_isspace s)))"

definition digit_of :: "char \<Rightarrow> nat option" where
  "digit_of c = (let n = (of_char c :: nat) in if 48 \<le> n \<and> n \<le> 57 then Some (n - 48) else None)"

text \<open>
  Decimal digits, with single underscores allowed between two digits; \<open>prev\<close> says that
  the character before was a digit.
\<close>

fun digits_val :: "string \<Rightarrow> nat \<Rightarrow> bool \<Rightarrow> nat option" where
  "digits_val [] acc prev = (if prev then Some acc else None)"
| "digits_val (c # cs) acc prev =
     (if c = CHR ''_'' then (if prev \<and> cs \<noteq> [] then digits_val cs acc False else None)
      else (case digit_of c of
              None \<Rightarrow> None
            | Some d \<Rightarrow> digits_val cs (10 * acc + d) True))"

text \<open>
  The interpreter refuses to convert a string of more than \<^verbatim>\<open>sys.int_info.default_max_str_digits\<close>
  digits (4300; the underscores are not counted) and raises \<^verbatim>\<open>ValueError\<close>.
\<close>

definition max_str_digits :: nat where
  "max_str_digits = 4300"

definition int_digits :: "string \<Rightarrow> nat option" where
  "int_digits cs =
     (if max_str_digits < length (filter (\<lambda>c. c \<noteq> CHR ''_'') cs) then None
      else digits_val cs 0 False)"

definition py_int :: "string \<Rightarrow> error + int" where
  "py_int s =
     (case py_int_strip s of
        [] \<Rightarrow> Inl ValueError
      | c # cs \<Rightarrow>
          if c = CHR ''-'' then
            (case int_digits cs of None \<Rightarrow> Inl ValueError | Some n \<Rightarrow> Inr (- int n))
          else if c = CHR ''+'' then
            (case int_digits cs of None \<Rightarrow> Inl ValueError | Some n \<Rightarrow> Inr (int n))
          else
            (case int_digits (c # cs) of None \<Rightarrow> Inl ValueError | Some n \<Rightarrow> Inr (int n)))"

fun split_comma :: "string \<Rightarrow> string list" where
  "split_comma [] = [[]]"
| "split_comma (c # cs) =
     (if c = CHR '','' then [] # split_comma cs
      else (case split_comma cs of
              [] \<Rightarrow> [[c]]
            | w # ws \<Rightarrow> (c # w) # ws))"

fun ints_of :: "string list \<Rightarrow> error + int list" where
  "ints_of [] = Inr []"
| "ints_of (x # xs) =
     (case py_int x of
        Inl e \<Rightarrow> Inl e
      | Inr n \<Rightarrow> (case ints_of xs of Inl e \<Rightarrow> Inl e | Inr ns \<Rightarrow> Inr (n # ns)))"

text \<open>\<^verbatim>\<open>StudentViewSet._params_to_ints\<close>: \<^verbatim>\<open>[int(str_id) for str_id in qs.split(',')]\<close>.\<close>

definition params_to_ints :: "string \<Rightarrow> error + int list" where
  "params_to_ints qs = ints_of (split_comma qs)"

section \<open>Querysets\<close>

text \<open>
  A queryset is the list of rows its SQL returns. A filter across a many-to-many relation
  is an inner join with the join table: a row comes once for every join row that matches.
  \<^verbatim>\<open>order_by('-f')\<close> sorts by \<open>f\<close>, descending; \<^verbatim>\<open>distinct()\<close> keeps one copy of equal rows.
  Titles are compared code point by code point.
\<close>

definition filter_m2m_id_in :: "(int \<times> int) list \<Rightarrow> int list \<Rightarrow> student list \<Rightarrow> student list" where
  "filter_m2m_id_in joins ids rows =
     concat (map (\<lambda>s. map (\<lambda>_. s) (filter (\<lambda>(sid, lid). sid = s_id s \<and> lid \<in> set ids) joins)) rows)"

definition filter_student_isnull_False :: "(int \<times> int) list \<Rightarrow> label list \<Rightarrow> label list" where
  "filter_student_isnull_False joins rows =
     concat (map (\<lambda>l. map (\<lambda>_. l) (filter (\<lambda>(sid, lid). lid = l_id l) joins)) rows)"

definition order_by_desc :: "('a \<Rightarrow> 'k::linorder) \<Rightarrow> 'a list \<Rightarrow> 'a list" where
  "order_by_desc f rows = rev (sort_key f rows)"

text \<open>
  \<^verbatim>\<open>StudentViewSet.get_queryset\<close>. \<^verbatim>\<open>if tags:\<close> is false for an absent parameter and for the
  empty string.
\<close>

definition student_get_queryset :: "db \<Rightarrow> user \<Rightarrow> query_params \<Rightarrow> error + student list" where
  "student_get_queryset d u qp =
     (case (case qp_tags qp of
              None \<Rightarrow> Inr (students d)
            | Some ts \<Rightarrow>
                if ts = [] then Inr (students d)
                else (case params_to_ints ts of
                        Inl e \<Rightarrow> Inl e
                      | Inr tag_ids \<Rightarrow> Inr (filter_m2m_id_in (student_tags d) tag_ids (students d)))) of
        Inl e \<Rightarrow> Inl e
      | Inr q1 \<Rightarrow>
          (case (case qp_courses qp of
                   None \<Rightarrow> Inr q1
                 | Some cs \<Rightarrow>
                     if cs = [] then Inr q1
                     else (case params_to_ints cs of
                             Inl e \<Rightarrow> Inl e
                           | Inr course_ids \<Rightarrow> Inr (filter_m2m_id_in (student_courses d) course_ids q1))) of
             Inl e \<Rightarrow> Inl e
           | Inr q2 \<Rightarrow> Inr (remdups (order_by_desc s_id (filter (\<lambda>s. s_user s = u) q2)))))"

text \<open>
  \<^verbatim>\<open>BaseStudentAttrViewSet.get_queryset\<close>, over the viewset's table and the join table of its
  relation to Student: \<^verbatim>\<open>bool(int(query_params.get('assigned_only', 0)))\<close>.
\<close>

definition attr_get_queryset :: "label list \<Rightarrow> (int \<times> int) list \<Rightarrow> user \<Rightarrow> query_params \<Rightarrow> error + label list" where
  "attr_get_queryset rows joins u qp =
     (case (case qp_assigned_only qp of None \<Rightarrow> Inr 0 | Some s \<Rightarrow> py_int s) of
        Inl e \<Rightarrow> Inl e
      | Inr n \<Rightarrow>
          (let assigned_only = (n \<noteq> 0);
               q = (if assigned_only then filter_student_isnull_False joins rows else rows)
           in Inr (remdups (order_by_desc l_title (filter (\<lambda>l. l_user l = u) q)))))"

definition tag_get_queryset :: "db \<Rightarrow> user \<Rightarrow> query_params \<Rightarrow> error + label list" where
  "tag_get_queryset d = attr_get_queryset (tags d) (student_tags d)"

definition course_get_queryset :: "db \<Rightarrow> user \<Rightarrow> query_params \<Rightarrow> error + label list" where
  "course_get_queryset d = attr_get_queryset (courses d) (student_courses d)"

section \<open>Many-to-many relations and get-or-create\<close>

text \<open>
  \<^verbatim>\<open>student.tags.add(obj)\<close> inserts the join row unless it is there; \<^verbatim>\<open>student.tags.clear()\<close>
  deletes the join rows of the student and no label.
\<close>

definition m2m_add :: "int \<Rightarrow> int \<Rightarrow> (int \<times> int) list \<Rightarrow> (int \<times> int) list" where
  "m2m_add sid lid joins = (if (sid, lid) \<in> set joins then joins else joins @ [(sid, lid)])"

definition m2m_clear :: "int \<Rightarrow> (int \<times> int) list \<Rightarrow> (int \<times> int) list" where
  "m2m_clear sid joins = filter (\<lambda>(s, l). s \<noteq> sid) joins"

text \<open>
  \<^verbatim>\<open>Model.objects.get_or_create(user=auth_user, title=t)\<close> on a label table and its id counter:
  \<^verbatim>\<open>get\<close> returns the only matching row, raises DoesNotExist on none (then the row is
  created) and MultipleObjectsReturned on several.
\<close>

definition get_or_create ::
  "user \<Rightarrow> string \<Rightarrow> label list \<Rightarrow> int \<Rightarrow> (error + label \<times> bool) \<times> label list \<times> int" where
  "get_or_create auth_user t rows seq =
     (case filter (\<lambda>l. l_user l = auth_user \<and> l_title l = t) rows of
        [] \<Rightarrow>
          (let obj = \<lparr>l_id = seq + 1, l_title = t, l_user = auth_user\<rparr>
           in (Inr (obj, True), rows @ [obj], seq + 1))
      | [l] \<Rightarrow> (Inr (l, False), rows, seq)
      | _ \<Rightarrow> (Inl MultipleObjectsReturned, rows, seq))"

text \<open>
  \<^verbatim>\<open>StudentSerializer._get_or_create_tags\<close> and \<^verbatim>\<open>_get_or_create_courses\<close>. A validated
  label descriptor is a dict with the one key \<^verbatim>\<open>title\<close>, here the title itself. Every
  statement is committed as it runs, so the labels made before an exception stay.
\<close>

fun get_or_create_tags :: "user \<Rightarrow> string list \<Rightarrow> student \<Rightarrow> db \<Rightarrow> (error + unit) \<times> db" where
  "get_or_create_tags auth_user [] student d = (Inr (), d)"
| "get_or_create_tags auth_user (tag # tags') student d =
     (case get_or_create auth_user tag (tags d) (tag_seq d) of
        (Inl e, rows, seq) \<Rightarrow> (Inl e, d)
      | (Inr (tag_obj, created), rows, seq) \<Rightarrow>
          get_or_create_tags auth_user tags' student
            (d\<lparr>tags := rows, tag_seq := seq,
               student_tags := m2m_add (s_id student) (l_id tag_obj) (student_tags d)\<rparr>))"

fun get_or_create_courses :: "user \<Rightarrow> string list \<Rightarrow> student \<Rightarrow> db \<Rightarrow> (error + unit) \<times> db" where
  "get_or_create_courses auth_user [] student d = (Inr (), d)"
| "get_or_create_courses auth_user (course # courses') student d =
     (case get_or_create auth_user course (courses d) (course_seq d) of
        (Inl e, rows, seq) \<Rightarrow> (Inl e, d)
      | (Inr (course_obj, created), rows, seq) \<Rightarrow>
          get_or_create_courses auth_user courses' student
            (d\<lparr>courses := rows, course_seq := seq,
               student_courses := m2m_add (s_id student) (l_id course_obj) (student_courses d)\<rparr>))"

section \<open>Serializers\<close>

text \<open>
  The body of a request, as parsed: every key may be missing. \<^verbatim>\<open>id\<close> is read-only and
  \<^verbatim>\<open>user\<close> and \<^verbatim>\<open>image\<close> are no fields of \<^verbatim>\<open>StudentSerializer\<close>, so validation drops them.
\<close>

record student_payload =
  p_id :: "int option"
  p_user :: "user option"
  p_image :: "string option"
  p_name :: "string option"
  p_email :: "string option"
  p_address :: "string option"
  p_birthday :: "string option"
  p_link :: "string option"
  p_tags :: "string list option"
  p_courses :: "string list option"

record student_data =
  v_name :: "string option"
  v_email :: "string option"
  v_address :: "string option"
  v_birthday :: "string option"
  v_link :: "string option"
  v_tags :: "string list option"
  v_courses :: "string list option"

datatype 'a field_result = Invalid | Skipped | Valid 'a

text \<open>
  A CharField of the framework: the value is stripped of white space, an empty value
  is an error unless the model field has \<^verbatim>\<open>blank=True\<close>, and the length is at most the
  model's \<^verbatim>\<open>max_length=255\<close>, with no null character.
\<close>

definition char_field :: "bool \<Rightarrow> string \<Rightarrow> string field_result" where
  "char_field allow_blank s =
     (let v = py_strip s
      in if v = [] then (if allow_blank then Valid [] else Invalid)
         else if 255 < length v then Invalid
         else if CHR 0x00 \<in> set v then Invalid
         else Valid v)"

definition run_field :: "bool \<Rightarrow> bool \<Rightarrow> bool \<Rightarrow> string option \<Rightarrow> string field_result" where
  "run_field partial required allow_blank data =
     (case data of
        None \<Rightarrow> if required \<and> \<not> partial then Invalid else Skipped
      | Some s \<Rightarrow> char_field allow_blank s)"

fun titles_field :: "string list \<Rightarrow> string list field_result" where
  "titles_field [] = Valid []"
| "titles_field (t # ts) =
     (case char_field False t of
        Valid v \<Rightarrow> (case titles_field ts of Valid vs \<Rightarrow> Valid (v # vs) | _ \<Rightarrow> Invalid)
      | _ \<Rightarrow> Invalid)"

definition run_titles :: "string list option \<Rightarrow> string list field_result" where
  "run_titles data = (case data of None \<Rightarrow> Skipped | Some ts \<Rightarrow> titles_field ts)"

definition value_of :: "'a field_result \<Rightarrow> 'a option" where
  "value_of r = (case r of Valid v \<Rightarrow> Some v | _ \<Rightarrow> None)"

definition field_errors :: "(string \<times> bool) list \<Rightarrow> string list" where
  "field_errors rs = map fst (filter snd rs)"

definition student_to_internal_value :: "bool \<Rightarrow> student_payload \<Rightarrow> error + student_data" where
  "student_to_internal_value partial p =
     (let rn = run_field partial True False (p_name p);
          re = run_field partial True False (p_email p);
          ra = run_field partial True False (p_address p);
          rb = run_field partial True False (p_birthday p);
          rl = run_field partial False True (p_link p);
          rt = run_titles (p_tags p);
          rc = run_titles (p_courses p);
          errs = field_errors
            [(''name'', rn = Invalid), (''email'', re = Invalid), (''address'', ra = Invalid),
             (''birthday'', rb = Invalid), (''link'', rl = Invalid), (''tags'', rt = Invalid),
             (''courses'', rc = Invalid)]
      in if errs \<noteq> [] then Inl (ValidationError errs)
         else Inr \<lparr>v_name = value_of rn, v_email = value_of re, v_address = value_of ra,
                   v_birthday = value_of rb, v_link = value_of rl, v_tags = value_of rt,
                   v_courses = value_of rc\<rparr>)"

definition default :: "'a \<Rightarrow> 'a option \<Rightarrow> 'a" where
  "default x v = (case v of None \<Rightarrow> x | Some y \<Rightarrow> y)"

text \<open>
  \<^verbatim>\<open>StudentSerializer.create\<close>; the view saves with \<^verbatim>\<open>user=self.request.user\<close>, the user the
  serializer's context holds. A column that is not given takes the field's default, the
  empty string, and the image is null.
\<close>

definition StudentSerializer_create :: "user \<Rightarrow> student_data \<Rightarrow> db \<Rightarrow> (error + student) \<times> db" where
  "StudentSerializer_create auth_user vd d =
     (let student = \<lparr>s_id = student_seq d + 1, s_user = auth_user,
                      s_name = default [] (v_name vd), s_email = default [] (v_email vd),
                      s_address = default [] (v_address vd), s_birthday = default [] (v_birthday vd),
                      s_link = default [] (v_link vd), s_image = None\<rparr>;
          d1 = d\<lparr>students := students d @ [student], student_seq := student_seq d + 1\<rparr>
      in case get_or_create_tags auth_user (default [] (v_tags vd)) student d1 of
           (Inl e, d2) \<Rightarrow> (Inl e, d2)
         | (Inr _, d2) \<Rightarrow>
             (case get_or_create_courses auth_user (default [] (v_courses vd)) student d2 of
                (Inl e, d3) \<Rightarrow> (Inl e, d3)
              | (Inr _, d3) \<Rightarrow> (Inr student, d3)))"

text \<open>\<^verbatim>\<open>instance.save()\<close>: the row with the instance's primary key is rewritten, or inserted.\<close>

definition save_student :: "student \<Rightarrow> db \<Rightarrow> db" where
  "save_student inst d =
     (if s_id inst \<in> set (map s_id (students d))
      then d\<lparr>students := map (\<lambda>r. if s_id r = s_id inst then inst else r) (students d)\<rparr>
      else d\<lparr>students := students d @ [inst]\<rparr>)"

definition save_label :: "label \<Rightarrow> label list \<Rightarrow> label list" where
  "save_label inst rows =
     (if l_id inst \<in> set (map l_id rows)
      then map (\<lambda>r. if l_id r = l_id inst then inst else r) rows
      else rows @ [inst])"

text \<open>The \<^verbatim>\<open>setattr\<close> loop of \<^verbatim>\<open>StudentSerializer.update\<close> over the keys left in the data.\<close>

definition set_attrs :: "student_data \<Rightarrow> student \<Rightarrow> student" where
  "set_attrs vd inst =
     inst\<lparr>s_name := default (s_name inst) (v_name vd),
          s_email := default (s_email inst) (v_email vd),
          s_address := default (s_address inst) (v_address vd),
          s_birthday := default (s_birthday inst) (v_birthday vd),
          s_link := default (s_link inst) (v_link vd)\<rparr>"

definition StudentSerializer_update :: "user \<Rightarrow> student \<Rightarrow> student_data \<Rightarrow> db \<Rightarrow> (error + student) \<times> db" where
  "StudentSerializer_update auth_user instance vd d =
     (case (case v_tags vd of
              None \<Rightarrow> (Inr (), d)
            | Some ts \<Rightarrow>
                get_or_create_tags auth_user ts instance
                  (d\<lparr>student_tags := m2m_clear (s_id instance) (student_tags d)\<rparr>)) of
        (Inl e, d1) \<Rightarrow> (Inl e, d1)
      | (Inr _, d1) \<Rightarrow>
          (case (case v_courses vd of
                   None \<Rightarrow> (Inr (), d1)
                 | Some cs \<Rightarrow>
                     get_or_create_courses auth_user cs instance
                       (d1\<lparr>student_courses := m2m_clear (s_id instance) (student_courses d1)\<rparr>)) of
             (Inl e, d2) \<Rightarrow> (Inl e, d2)
           | (Inr _, d2) \<Rightarrow>
               (let instance' = set_attrs vd instance
                in (Inr instance', save_student instance' d2))))"

text \<open>
  The response bodies. \<^verbatim>\<open>Meta.fields\<close> of each serializer class is copied from the source;
  the serializer holds one field per name, in the order of first mention. An image field is
  rendered as the absolute URL under which the storage serves the stored file; the URL depends
  on the settings and on the host of the request, so \<open>JFileUrl path\<close> stands for the URL of the
  file stored under \<open>path\<close>.
\<close>

datatype json =
  JNull | JInt int | JStr string | JFileUrl string | JList "json list" | JObj "(string \<times> json) list"

datatype serializer_class =
  CourseSerializer | TagSerializer | StudentSerializer | StudentDetailSerializer | StudentImageSerializer

definition StudentSerializer_Meta_fields :: "string list" where
  "StudentSerializer_Meta_fields =
     [''id'', ''name'', ''email'', ''address'', ''birthday'', ''link'', ''tags'', ''courses'']"

fun Meta_fields :: "serializer_class \<Rightarrow> string list" where
  "Meta_fields CourseSerializer = [''id'', ''title'']"
| "Meta_fields TagSerializer = [''id'', ''title'']"
| "Meta_fields StudentSerializer = StudentSerializer_Meta_fields"
| "Meta_fields StudentDetailSerializer = StudentSerializer_Meta_fields @ [''courses'', ''image'']"
| "Meta_fields StudentImageSerializer = [''id'', ''image'']"

fun field_names :: "string list \<Rightarrow> string list" where
  "field_names [] = []"
| "field_names (f # fs) = f # field_names (filter (\<lambda>g. g \<noteq> f) fs)"

definition label_repr :: "label \<Rightarrow> json" where
  "label_repr l = JObj [(''id'', JInt (l_id l)), (''title'', JStr (l_title l))]"

text \<open>\<^verbatim>\<open>student.tags.all()\<close> and \<^verbatim>\<open>student.courses.all()\<close>: the labels joined to the student.\<close>

definition related :: "(int \<times> int) list \<Rightarrow> label list \<Rightarrow> int \<Rightarrow> label list" where
  "related joins rows sid = filter (\<lambda>l. (sid, l_id l) \<in> set joins) rows"

definition student_field :: "db \<Rightarrow> student \<Rightarrow> string \<Rightarrow> json" where
  "student_field d s f =
     (if f = ''id'' then JInt (s_id s)
      else if f = ''name'' then JStr (s_name s)
      else if f = ''email'' then JStr (s_email s)
      else if f = ''address'' then JStr (s_address s)
      else if f = ''birthday'' then JStr (s_birthday s)
      else if f = ''link'' then JStr (s_link s)
      else if f = ''tags'' then JList (map label_repr (related (student_tags d) (tags d) (s_id s)))
      else if f = ''courses'' then JList (map label_repr (related (student_courses d) (courses d) (s_id s)))
      else if f = ''image'' then (case s_image s of None \<Rightarrow> JNull | Some path \<Rightarrow> JFileUrl path)
      else JNull)"

definition to_representation :: "db \<Rightarrow> serializer_class \<Rightarrow> student \<Rightarrow> json" where
  "to_representation d cls s = JObj (map (\<lambda>f. (f, student_field d s f)) (field_names (Meta_fields cls)))"

fun keys_of :: "json \<Rightarrow> string list" where
  "keys_of (JObj kvs) = map fst kvs"
| "keys_of _ = []"

section \<open>Views\<close>

text \<open>
  A view takes the database, the authenticated user of the request, the query
  parameters and what the action needs, and returns the response body or the exception,
  with the database after it. \<^verbatim>\<open>get_object\<close> is the framework's: the row of the view's
  queryset with the primary key of the URL, 404 when there is none.
\<close>

datatype action =
  A_list | A_create | A_retrieve | A_update | A_partial_update | A_destroy | A_upload_image

definition get_object :: "('a \<Rightarrow> int) \<Rightarrow> 'a list \<Rightarrow> int \<Rightarrow> error + 'a" where
  "get_object pk_of queryset pk =
     (case filter (\<lambda>r. pk_of r = pk) queryset of
        [] \<Rightarrow> Inl NotFound
      | [r] \<Rightarrow> Inr r
      | _ \<Rightarrow> Inl MultipleObjectsReturned)"

text \<open>
  \<^verbatim>\<open>StudentViewSet\<close> is a \<^verbatim>\<open>ModelViewSet\<close> with the extra action \<^verbatim>\<open>upload_image\<close>; its class
  attribute \<^verbatim>\<open>serializer_class\<close> is \<^verbatim>\<open>serializers.StudentSerializer\<close>.
\<close>

definition StudentViewSet_serializer_class :: serializer_class where
  "StudentViewSet_serializer_class = StudentSerializer"

definition get_serializer_class :: "action \<Rightarrow> serializer_class" where
  "get_serializer_class a =
     (if a = A_list then StudentSerializer
      else if a = A_upload_image then StudentImageSerializer
      else StudentViewSet_serializer_class)"

definition student_list :: "db \<Rightarrow> user \<Rightarrow> query_params \<Rightarrow> (error + json) \<times> db" where
  "student_list d u qp =
     (case student_get_queryset d u qp of
        Inl e \<Rightarrow> (Inl e, d)
      | Inr queryset \<Rightarrow>
          (Inr (JList (map (to_representation d (get_serializer_class A_list)) queryset)), d))"

definition student_retrieve :: "db \<Rightarrow> user \<Rightarrow> query_params \<Rightarrow> int \<Rightarrow> (error + json) \<times> db" where
  "student_retrieve d u qp pk =
     (case student_get_queryset d u qp of
        Inl e \<Rightarrow> (Inl e, d)
      | Inr queryset \<Rightarrow>
          (case get_object s_id queryset pk of
             Inl e \<Rightarrow> (Inl e, d)
           | Inr instance \<Rightarrow>
               (Inr (to_representation d (get_serializer_class A_retrieve) instance), d)))"

definition student_create :: "db \<Rightarrow> user \<Rightarrow> student_payload \<Rightarrow> (error + json) \<times> db" where
  "student_create d u payload =
     (case student_to_internal_value False payload of
        Inl e \<Rightarrow> (Inl e, d)
      | Inr vd \<Rightarrow>
          (case StudentSerializer_create u vd d of
             (Inl e, d') \<Rightarrow> (Inl e, d')
           | (Inr student, d') \<Rightarrow>
               (Inr (to_representation d' (get_serializer_class A_create) student), d')))"

text \<open>PUT (\<open>partial = False\<close>) and PATCH (\<open>partial = True\<close>) on \<^verbatim>\<open>/students/{pk}\<close>.\<close>

definition student_update ::
  "db \<Rightarrow> user \<Rightarrow> query_params \<Rightarrow> int \<Rightarrow> bool \<Rightarrow> student_payload \<Rightarrow> (error + json) \<times> db" where
  "student_update d u qp pk partial payload =
     (case student_get_queryset d u qp of
        Inl e \<Rightarrow> (Inl e, d)
      | Inr queryset \<Rightarrow>
          (case get_object s_id queryset pk of
             Inl e \<Rightarrow> (Inl e, d)
           | Inr instance \<Rightarrow>
               (case student_to_internal_value partial payload of
                  Inl e \<Rightarrow> (Inl e, d)
                | Inr vd \<Rightarrow>
                    (case StudentSerializer_update u instance vd d of
                       (Inl e, d') \<Rightarrow> (Inl e, d')
                     | (Inr instance', d') \<Rightarrow>
                         (Inr (to_representation d'
                                (get_serializer_class (if partial then A_partial_update else A_update))
                                instance'), d')))))"

text \<open>
  \<^verbatim>\<open>instance.delete()\<close> of a student removes the row and, with it, its rows of the two join
  tables; no label is deleted.
\<close>

definition delete_student :: "int \<Rightarrow> db \<Rightarrow> db" where
  "delete_student sid d =
     d\<lparr>students := filter (\<lambda>r. s_id r \<noteq> sid) (students d),
       student_tags := m2m_clear sid (student_tags d),
       student_courses := m2m_clear sid (student_courses d)\<rparr>"

definition student_destroy :: "db \<Rightarrow> user \<Rightarrow> query_params \<Rightarrow> int \<Rightarrow> (error + json) \<times> db" where
  "student_destroy d u qp pk =
     (case student_get_queryset d u qp of
        Inl e \<Rightarrow> (Inl e, d)
      | Inr queryset \<Rightarrow>
          (case get_object s_id queryset pk of
             Inl e \<Rightarrow> (Inl e, d)
           | Inr instance \<Rightarrow> (Inr JNull, delete_student (s_id instance) d)))"

text \<open>
  \<^verbatim>\<open>student_image_file_path\<close> of \<^verbatim>\<open>core/models.py\<close>: \<^verbatim>\<open>uploads/student/\<close>, a fresh UUID
  (here a parameter) and the extension of the uploaded file's name, as
  \<^verbatim>\<open>os.path.splitext\<close> finds it.
\<close>

definition splitext_ext :: "string \<Rightarrow> string" where
  "splitext_ext p =
     (let base = rev (takeWhile (\<lambda>c. c \<noteq> CHR ''/'') (rev p));
          ext = rev (takeWhile (\<lambda>c. c \<noteq> CHR ''.'') (rev base))
      in if length ext = length base then []
         else if filter (\<lambda>c. c \<noteq> CHR ''.'') (take (length base - length ext - 1) base) = [] then []
         else CHR ''.'' # ext)"

definition student_image_file_path :: "string \<Rightarrow> string \<Rightarrow> string" where
  "student_image_file_path uuid filename = ''uploads/student/'' @ uuid @ splitext_ext filename"

text \<open>
  An uploaded file: its name, and whether the framework's image field accepts the file, that
  is, the file is not empty, the image library verifies its content and the extension of its
  name is one the image library registers. The \<^verbatim>\<open>image\<close> field of \<^verbatim>\<open>StudentImageSerializer\<close> is
  required.
\<close>

record upload =
  up_name :: string
  up_accepted :: bool

definition upload_image ::
  "db \<Rightarrow> user \<Rightarrow> query_params \<Rightarrow> int \<Rightarrow> upload option \<Rightarrow> string \<Rightarrow> (error + json) \<times> db" where
  "upload_image d u qp pk file uuid =
     (case student_get_queryset d u qp of
        Inl e \<Rightarrow> (Inl e, d)
      | Inr queryset \<Rightarrow>
          (case get_object s_id queryset pk of
             Inl e \<Rightarrow> (Inl e, d)
           | Inr student \<Rightarrow>
               (case file of
                  None \<Rightarrow> (Inl (ValidationError [''image'']), d)
                | Some f \<Rightarrow>
                    if \<not> up_accepted f then (Inl (ValidationError [''image'']), d)
                    else
                      (let student' = student\<lparr>s_image := Some (student_image_file_path uuid (up_name f))\<rparr>;
                           d' = save_student student' d
                       in (Inr (to_representation d' (get_serializer_class A_upload_image) student'), d')))))"

text \<open>
  \<^verbatim>\<open>BaseStudentAttrViewSet\<close> is a \<^verbatim>\<open>GenericViewSet\<close> with the destroy, update and list mixins
  only, so the router binds no other action: a request for one is answered 405 before the
  queryset is read. \<^verbatim>\<open>TagViewSet\<close> and \<^verbatim>\<open>CourseViewSet\<close> are this viewset over their table.
\<close>

definition attr_actions :: "action list" where
  "attr_actions = [A_destroy, A_update, A_partial_update, A_list]"

datatype attr = Tag | Course

definition attr_rows :: "attr \<Rightarrow> db \<Rightarrow> label list" where
  "attr_rows k d = (case k of Tag \<Rightarrow> tags d | Course \<Rightarrow> courses d)"

definition attr_joins :: "attr \<Rightarrow> db \<Rightarrow> (int \<times> int) list" where
  "attr_joins k d = (case k of Tag \<Rightarrow> student_tags d | Course \<Rightarrow> student_courses d)"

definition attr_put :: "attr \<Rightarrow> label list \<Rightarrow> (int \<times> int) list \<Rightarrow> db \<Rightarrow> db" where
  "attr_put k rows joins d =
     (case k of
        Tag \<Rightarrow> d\<lparr>tags := rows, student_tags := joins\<rparr>
      | Course \<Rightarrow> d\<lparr>courses := rows, student_courses := joins\<rparr>)"

definition attr_queryset :: "attr \<Rightarrow> db \<Rightarrow> user \<Rightarrow> query_params \<Rightarrow> error + label list" where
  "attr_queryset k d = attr_get_queryset (attr_rows k d) (attr_joins k d)"

definition attr_list :: "attr \<Rightarrow> db \<Rightarrow> user \<Rightarrow> query_params \<Rightarrow> (error + json) \<times> db" where
  "attr_list k d u qp =
     (if A_list \<notin> set attr_actions then (Inl MethodNotAllowed, d)
      else (case attr_queryset k d u qp of
              Inl e \<Rightarrow> (Inl e, d)
            | Inr queryset \<Rightarrow> (Inr (JList (map label_repr queryset)), d)))"

definition attr_retrieve :: "attr \<Rightarrow> db \<Rightarrow> user \<Rightarrow> query_params \<Rightarrow> int \<Rightarrow> (error + json) \<times> db" where
  "attr_retrieve k d u qp pk =
     (if A_retrieve \<notin> set attr_actions then (Inl MethodNotAllowed, d)
      else (case attr_queryset k d u qp of
              Inl e \<Rightarrow> (Inl e, d)
            | Inr queryset \<Rightarrow>
                (case get_object l_id queryset pk of
                   Inl e \<Rightarrow> (Inl e, d)
                 | Inr instance \<Rightarrow> (Inr (label_repr instance), d))))"

text \<open>
  The body of a label request: \<^verbatim>\<open>id\<close> is read-only and dropped, \<^verbatim>\<open>title\<close> is a required
  CharField. PUT and PATCH on \<^verbatim>\<open>/tags/{pk}\<close> and \<^verbatim>\<open>/courses/{pk}\<close>.
\<close>

record label_payload =
  lp_id :: "int option"
  lp_title :: "string option"

definition attr_update ::
  "attr \<Rightarrow> db \<Rightarrow> user \<Rightarrow> query_params \<Rightarrow> int \<Rightarrow> bool \<Rightarrow> label_payload \<Rightarrow> (error + json) \<times> db" where
  "attr_update k d u qp pk partial payload =
     (if (if partial then A_partial_update else A_update) \<notin> set attr_actions
      then (Inl MethodNotAllowed, d)
      else (case attr_queryset k d u qp of
              Inl e \<Rightarrow> (Inl e, d)
            | Inr queryset \<Rightarrow>
                (case get_object l_id queryset pk of
                   Inl e \<Rightarrow> (Inl e, d)
                 | Inr instance \<Rightarrow>
                     (case run_field partial True False (lp_title payload) of
                        Invalid \<Rightarrow> (Inl (ValidationError [''title'']), d)
                      | Skipped \<Rightarrow>
                          (Inr (label_repr instance),
                           attr_put k (save_label instance (attr_rows k d)) (attr_joins k d) d)
                      | Valid t \<Rightarrow>
                          (let instance' = instance\<lparr>l_title := t\<rparr>
                           in (Inr (label_repr instance'),
                               attr_put k (save_label instance' (attr_rows k d)) (attr_joins k d) d))))))"

text \<open>Deleting a label removes its row and its join rows; no student is deleted.\<close>

definition attr_destroy :: "attr \<Rightarrow> db \<Rightarrow> user \<Rightarrow> query_params \<Rightarrow> int \<Rightarrow> (error + json) \<times> db" where
  "attr_destroy k d u qp pk =
     (if A_destroy \<notin> set attr_actions then (Inl MethodNotAllowed, d)
      else (case attr_queryset k d u qp of
              Inl e \<Rightarrow> (Inl e, d)
            | Inr queryset \<Rightarrow>
                (case get_object l_id queryset pk of
                   Inl e \<Rightarrow> (Inl e, d)
                 | Inr instance \<Rightarrow>
                     (Inr JNull,
                      attr_put k (filter (\<lambda>r. l_id r \<noteq> l_id instance) (attr_rows k d))
                        (filter (\<lambda>(sid, lid). lid \<noteq> l_id instance) (attr_joins k d)) d))))"

text \<open>
  The integrity the database keeps by itself: primary keys are unique and were handed out
  by the counters, a join table holds a pair once, and both ends of a join row exist.
\<close>

definition wf_db :: "db \<Rightarrow> bool" where
  "wf_db d =
     (distinct (map s_id (students d)) \<and> distinct (map l_id (tags d)) \<and>
      distinct (map l_id (courses d)) \<and>
      list_all (\<lambda>s. s_id s \<le> student_seq d) (students d) \<and>
      list_all (\<lambda>l. l_id l \<le> tag_seq d) (tags d) \<and>
      list_all (\<lambda>l. l_id l \<le> course_seq d) (courses d) \<and>
      distinct (student_tags d) \<and> distinct (student_courses d) \<and>
      list_all (\<lambda>(sid, lid). sid \<in> set (map s_id (students d)) \<and> lid \<in> set (map l_id (tags d)))
        (student_tags d) \<and>
      list_all (\<lambda>(sid, lid). sid \<in> set (map s_id (students d)) \<and> lid \<in> set (map l_id (courses d)))
        (student_courses d))"

text \<open>
  A filter parameter the view can read: absent, empty, or a comma-separated list of
  integer literals; and the same for \<^verbatim>\<open>assigned_only\<close>.
\<close>

definition filter_ok :: "string option \<Rightarrow> bool" where
  "filter_ok p = (case p of None \<Rightarrow> True | Some s \<Rightarrow> s = [] \<or> \<not> isl (params_to_ints s))"

definition params_ok :: "query_params \<Rightarrow> bool" where
  "params_ok qp = (filter_ok (qp_tags qp) \<and> filter_ok (qp_courses qp))"

definition assigned_only_ok :: "query_params \<Rightarrow> bool" where
  "assigned_only_ok qp = (case qp_assigned_only qp of None \<Rightarrow> True | Some s \<Rightarrow> \<not> isl (py_int s))"

text \<open>The rows of a label table with the given owner and title.\<close>

definition matching :: "user \<Rightarrow> string \<Rightarrow> label list \<Rightarrow> label list" where
  "matching u t rows = filter (\<lambda>l. l_user l = u \<and> l_title l = t) rows"

text \<open>Whether a student passes the filter a parameter asks for.\<close>

definition selected :: "(int \<times> int) list \<Rightarrow> string option \<Rightarrow> student \<Rightarrow> bool" where
  "selected joins p s =
     (case p of
        None \<Rightarrow> True
      | Some str \<Rightarrow>
          str = [] \<or>
          (case params_to_ints str of
             Inl e \<Rightarrow> False
           | Inr ids \<Rightarrow> list_ex (\<lambda>lid. (s_id s, lid) \<in> set joins) ids))"

text \<open>
  A database of two owners for the examples. Owner 1 has students 1 and 2, owner 2 has
  student 3; tag 4 of owner 1 is attached to the student of owner 2 only, and tag 5 to
  nobody.
\<close>

definition ex_student :: "int \<Rightarrow> user \<Rightarrow> string \<Rightarrow> student" where
  "ex_student i u n =
     \<lparr>s_id = i, s_user = u, s_name = n, s_email = ''sample@sample.com'',
      s_address = ''Sample Street'', s_birthday = ''01/01/2001'', s_link = [], s_image = None\<rparr>"

definition ex_db :: db where
  "ex_db =
     \<lparr>students = [ex_student 1 1 ''Student1'', ex_student 2 1 ''Student2'', ex_student 3 2 ''Student3''],
      tags = [\<lparr>l_id = 1, l_title = ''Vegan'', l_user = 1\<rparr>,
              \<lparr>l_id = 2, l_title = ''Dessert'', l_user = 1\<rparr>,
              \<lparr>l_id = 3, l_title = ''Fruity'', l_user = 2\<rparr>,
              \<lparr>l_id = 4, l_title = ''Lunch'', l_user = 1\<rparr>,
              \<lparr>l_id = 5, l_title = ''Breakfast'', l_user = 1\<rparr>],
      courses = [\<lparr>l_id = 1, l_title = ''BIO 101'', l_user = 1\<rparr>,
                 \<lparr>l_id = 2, l_title = ''SCI 101'', l_user = 1\<rparr>,
                 \<lparr>l_id = 3, l_title = ''ENG 101'', l_user = 2\<rparr>],
      student_tags = [(1, 1), (1, 2), (2, 1), (3, 3), (3, 4)],
      student_courses = [(1, 1), (1, 2), (3, 3)],
      student_seq = 3, tag_seq = 5, course_seq = 3\<rparr>"

text \<open>The example database after student 1 was given an image.\<close>

definition ex_db_image :: db where
  "ex_db_image =
     ex_db\<lparr>students :=
       [(ex_student 1 1 ''Student1'')\<lparr>s_image := Some ''uploads/student/0000.jpg''\<rparr>,
        ex_student 2 1 ''Student2'', ex_student 3 2 ''Student3'']\<rparr>"

text \<open>
  The loop that \<^verbatim>\<open>_get_or_create_tags\<close> and \<^verbatim>\<open>_get_or_create_courses\<close> share, on the three
  parts of the database it touches: a label table, its id counter and its join table.
\<close>

fun resolve ::
  "user \<Rightarrow> string list \<Rightarrow> int \<Rightarrow> label list \<times> int \<times> (int \<times> int) list \<Rightarrow>
   (error + unit) \<times> label list \<times> int \<times> (int \<times> int) list" where
  "resolve u [] sid (rows, seq, joins) = (Inr (), rows, seq, joins)"
| "resolve u (t # ts) sid (rows, seq, joins) =
     (case get_or_create u t rows seq of
        (Inl e, rows', seq') \<Rightarrow> (Inl e, rows, seq, joins)
      | (Inr (obj, created), rows', seq') \<Rightarrow>
          resolve u ts sid (rows', seq', m2m_add sid (l_id obj) joins))"

text \<open>The example request bodies.\<close>

definition ex_payload :: "string list option \<Rightarrow> student_payload" where
  "ex_payload ts =
     \<lparr>p_id = None, p_user = None, p_image = None, p_name = Some ''New student name'',
      p_email = Some ''New emails'', p_address = Some ''New addresses'',
      p_birthday = Some ''New birthday'', p_link = None, p_tags = ts, p_courses = None\<rparr>"

text \<open>
  The part of \<open>wf_db\<close> that concerns one label table, given the ids of the students.
\<close>

definition table_ok :: "int list \<Rightarrow> label list \<times> int \<times> (int \<times> int) list \<Rightarrow> bool" where
  "table_ok sids tb =
     (case tb of (rows, seq, joins) \<Rightarrow>
        distinct (map l_id rows) \<and> list_all (\<lambda>l. l_id l \<le> seq) rows \<and> distinct joins \<and>
        list_all (\<lambda>(sid, lid). sid \<in> set sids \<and> lid \<in> set (map l_id rows)) joins)"

text \<open>
  A database the API itself reaches with two tags of one owner and one title: owner 1
  creates a student with the tags Thai and Dinner, then renames tag 2 to Thai.
\<close>

definition dup_db :: db where
  "dup_db =
     snd (attr_update Tag
            (snd (student_create empty_db 1 (ex_payload (Some [''Thai'', ''Dinner'']))))
            1 no_params 2 True \<lparr>lp_id = None, lp_title = Some ''Thai''\<rparr>)"

text \<open>The database in which owner 1 has one student and nobody has a label.\<close>

definition one_student_db :: db where
  "one_student_db = empty_db\<lparr>students := [ex_student 1 1 ''Student1''], student_seq := 1\<rparr>"

text \<open>
  The two halves of \<^verbatim>\<open>StudentSerializer.update\<close> that replace the associations: the
  \<^verbatim>\<open>if tags is not None\<close> block and the \<^verbatim>\<open>if courses is not None\<close> block.
\<close>

definition replace_tags :: "user \<Rightarrow> student \<Rightarrow> student_data \<Rightarrow> db \<Rightarrow> (error + unit) \<times> db" where
  "replace_tags auth_user instance vd d =
     (case v_tags vd of
        None \<Rightarrow> (Inr (), d)
      | Some ts \<Rightarrow>
          get_or_create_tags auth_user ts instance
            (d\<lparr>student_tags := m2m_clear (s_id instance) (student_tags d)\<rparr>))"

definition replace_courses :: "user \<Rightarrow> student \<Rightarrow> student_data \<Rightarrow> db \<Rightarrow> (error + unit) \<times> db" where
  "replace_courses auth_user instance vd d =
     (case v_courses vd of
        None \<Rightarrow> (Inr (), d)
      | Some cs \<Rightarrow>
          get_or_create_courses auth_user cs instance
            (d\<lparr>student_courses := m2m_clear (s_id instance) (student_courses d)\<rparr>))"

text \<open>The three parts of the database that belong to the tags, and to the courses.\<close>

definition tags_part :: "db \<Rightarrow> label list \<times> int \<times> (int \<times> int) list" where
  "tags_part d = (tags d, tag_seq d, student_tags d)"

definition courses_part :: "db \<Rightarrow> label list \<times> int \<times> (int \<times> int) list" where
  "courses_part d = (courses d, course_seq d, student_courses d)"


text \<open>
  \<^verbatim>\<open>student/urls.py\<close> registers the three viewsets with a router; a request of an
  authenticated user is one of the actions they offer. \<open>run\<close> handles a sequence of
  requests, one after the other.
\<close>

datatype request =
    Student_list user query_params
  | Student_retrieve user query_params int
  | Student_create user student_payload
  | Student_update user query_params int bool student_payload
  | Student_destroy user query_params int
  | Student_upload_image user query_params int "upload option" string
  | Attr_list attr user query_params
  | Attr_retrieve attr user query_params int
  | Attr_update attr user query_params int bool label_payload
  | Attr_destroy attr user query_params int

fun handle :: "request \<Rightarrow> db \<Rightarrow> (error + json) \<times> db" where
  "handle (Student_list u qp) d = student_list d u qp"
| "handle (Student_retrieve u qp pk) d = student_retrieve d u qp pk"
| "handle (Student_create u payload) d = student_create d u payload"
| "handle (Student_update u qp pk partial payload) d = student_update d u qp pk partial payload"
| "handle (Student_destroy u qp pk) d = student_destroy d u qp pk"
| "handle (Student_upload_image u qp pk file uuid) d = upload_image d u qp pk file uuid"
| "handle (Attr_list k u qp) d = attr_list k d u qp"
| "handle (Attr_retrieve k u qp pk) d = attr_retrieve k d u qp pk"
| "handle (Attr_update k u qp pk partial payload) d = attr_update k d u qp pk partial payload"
| "handle (Attr_destroy k u qp pk) d = attr_destroy k d u qp pk"

fun run :: "request list \<Rightarrow> db \<Rightarrow> db" where
  "run [] d = d"
| "run (rq # rqs) d = run rqs (snd (handle rq d))"



section \<open>What \<^verbatim>\<open>int\<close> accepts\<close>

text \<open>
  \<^verbatim>\<open>int\<close> does not skip the separators 28 to 31, which \<^verbatim>\<open>str.strip\<close> removes; it skips the
  ASCII white space and the two spaces 133 and 160, takes a sign and single underscores
  between digits, and refuses more than 4300 digits.
\<close>

lemma py_int_examples:
  "py_int [CHR 0x1C, CHR ''5''] = Inl ValueError \<and>
   py_int [CHR ''5'', CHR 0x1F] = Inl ValueError \<and>
   py_int [CHR 0x1D, CHR ''5'', CHR 0x1E] = Inl ValueError \<and>
   py_strip [CHR 0x1C, CHR ''5'', CHR 0x1F] = ''5'' \<and>
   py_int [CHR 0xA0, CHR 0x09, CHR ''5'', CHR 0x85, CHR 0x0A] = Inr 5 \<and>
   py_int '' -1_0 '' = Inr (- 10) \<and>
   py_int ''+07'' = Inr 7 \<and>
   py_int ''1__0'' = Inl ValueError \<and>
   py_int ''- 1'' = Inl ValueError \<and>
   py_int '''' = Inl ValueError"
  by code_simp

lemma int_digits_limit:
  "max_str_digits < length (filter (\<lambda>c. c \<noteq> CHR ''_'') cs) \<Longrightarrow> int_digits cs = None"
  by (simp add: int_digits_def)

section \<open>Properties of the querysets\<close>

lemma set_filter_m2m_id_in:
  "set (filter_m2m_id_in joins ids rows) =
     {s \<in> set rows. \<exists>lid \<in> set ids. (s_id s, lid) \<in> set joins}"
  by (auto simp: filter_m2m_id_in_def)

lemma set_filter_student_isnull_False:
  "set (filter_student_isnull_False joins rows) =
     {l \<in> set rows. \<exists>sid. (sid, l_id l) \<in> set joins}"
  by (auto simp: filter_student_isnull_False_def)

lemma set_order_by_desc [simp]: "set (order_by_desc f rows) = set rows"
  by (simp add: order_by_desc_def)

lemma sorted_order_by_desc: "sorted_wrt (\<lambda>a b. f b \<le> f a) (order_by_desc f rows)"
proof -
  have "sorted (map f (sort_key f rows))" by simp
  then have "sorted_wrt (\<lambda>a b. f a \<le> f b) (sort_key f rows)"
    by (simp add: sorted_map)
  then show ?thesis
    unfolding order_by_desc_def by (simp add: sorted_wrt_rev)
qed

lemma sorted_wrt_remdups: "sorted_wrt P xs \<Longrightarrow> sorted_wrt P (remdups xs)"
  by (induction xs) auto

lemma distinct_pk:
  assumes "distinct rows" and "set rows \<subseteq> set table" and "distinct (map pk table)"
  shows "distinct (map pk rows)"
proof -
  from assms(3) have "inj_on pk (set table)" by (simp add: distinct_map)
  with assms(2) have "inj_on pk (set rows)" by (metis inj_on_subset)
  with assms(1) show ?thesis by (simp add: distinct_map)
qed

lemma py_int_error: "py_int s = Inl e \<Longrightarrow> e = ValueError"
  by (auto simp: py_int_def split: list.splits if_splits option.splits)

lemma ints_of_error: "ints_of xs = Inl e \<Longrightarrow> e = ValueError"
  by (induction xs arbitrary: e) (auto split: sum.splits dest: py_int_error)

lemma params_to_ints_error: "params_to_ints s = Inl e \<Longrightarrow> e = ValueError"
  by (simp add: params_to_ints_def ints_of_error)

lemma isl_ints_of: "isl (ints_of xs) = (\<exists>x \<in> set xs. isl (py_int x))"
  by (induction xs) (auto split: sum.splits)

lemma isl_params_to_ints: "isl (params_to_ints s) = (\<exists>x \<in> set (split_comma s). isl (py_int x))"
  by (simp add: params_to_ints_def isl_ints_of)

lemma student_get_queryset_ok:
  assumes "params_ok qp"
  shows "\<exists>rows. student_get_queryset d u qp = Inr rows \<and>
           set rows = {s \<in> set (students d). s_user s = u \<and>
                         selected (student_tags d) (qp_tags qp) s \<and>
                         selected (student_courses d) (qp_courses qp) s} \<and>
           distinct rows \<and> sorted_wrt (\<lambda>a b. s_id b \<le> s_id a) rows"
  using assms
  by (auto simp: params_ok_def filter_ok_def student_get_queryset_def selected_def
        set_filter_m2m_id_in list_ex_iff sorted_wrt_remdups sorted_order_by_desc
        split: option.splits sum.splits)

lemma student_get_queryset_error:
  assumes "\<not> params_ok qp"
  shows "student_get_queryset d u qp = Inl ValueError"
  using assms
  by (auto simp: params_ok_def filter_ok_def student_get_queryset_def
        split: option.splits sum.splits dest: params_to_ints_error)

lemma student_get_queryset_user:
  "student_get_queryset d u qp = Inr rows \<Longrightarrow> s \<in> set rows \<Longrightarrow> s \<in> set (students d) \<and> s_user s = u"
  by (auto simp: student_get_queryset_def set_filter_m2m_id_in
        split: option.splits sum.splits if_splits)

lemma student_get_queryset_props:
  assumes "student_get_queryset d u qp = Inr rows"
  shows "distinct rows" "sorted_wrt (\<lambda>a b. s_id b \<le> s_id a) rows" "set rows \<subseteq> set (students d)"
  using assms
  by (auto simp: student_get_queryset_def set_filter_m2m_id_in sorted_wrt_remdups sorted_order_by_desc
        split: option.splits sum.splits if_splits)

lemma attr_get_queryset_ok:
  assumes "assigned_only_ok qp"
  shows "\<exists>rows. attr_get_queryset table joins u qp = Inr rows \<and>
           set rows = {l \<in> set table. l_user l = u \<and>
              (qp_assigned_only qp = None \<or> (\<exists>str. qp_assigned_only qp = Some str \<and> py_int str = Inr 0) \<or> (\<exists>sid. (sid, l_id l) \<in> set joins))} \<and>
           distinct rows \<and> sorted_wrt (\<lambda>a b. l_title b \<le> l_title a) rows"
  using assms
  by (auto simp: assigned_only_ok_def attr_get_queryset_def set_filter_student_isnull_False Let_def
         sorted_wrt_remdups sorted_order_by_desc
        split: option.splits sum.splits)

lemma attr_get_queryset_error:
  assumes "\<not> assigned_only_ok qp"
  shows "attr_get_queryset table joins u qp = Inl ValueError"
  using assms
  by (auto simp: assigned_only_ok_def attr_get_queryset_def
        split: option.splits sum.splits dest: py_int_error)

lemma attr_get_queryset_props:
  assumes "attr_get_queryset table joins u qp = Inr rows"
  shows "distinct rows" "sorted_wrt (\<lambda>a b. l_title b \<le> l_title a) rows" "set rows \<subseteq> set table"
    "\<forall>l \<in> set rows. l_user l = u"
  using assms
  by (auto simp: attr_get_queryset_def set_filter_student_isnull_False Let_def sorted_wrt_remdups sorted_order_by_desc
        split: option.splits sum.splits if_splits)

lemma sorted_desc_strict:
  fixes f :: "'a \<Rightarrow> 'k::linorder"
  shows "sorted_wrt (\<lambda>a b. f b \<le> f a) xs \<Longrightarrow> distinct (map f xs) \<Longrightarrow> sorted_wrt (\<lambda>a b. f b < f a) xs"
proof (induction xs)
  case Nil
  then show ?case by simp
next
  case (Cons x xs)
  have "f y < f x" if "y \<in> set xs" for y
  proof -
    from Cons.prems(1) that have "f y \<le> f x" by simp
    moreover from Cons.prems(2) have "f x \<notin> f ` set xs" by simp
    with that have "f y \<noteq> f x" by (metis imageI)
    ultimately show ?thesis by simp
  qed
  with Cons show ?case by simp
qed


lemma student_list_ok:
  assumes "params_ok qp"
  shows "\<exists>rows. student_get_queryset d u qp = Inr rows \<and>
           student_list d u qp = (Inr (JList (map (to_representation d StudentSerializer) rows)), d)"
proof -
  from student_get_queryset_ok[OF assms, of d u] obtain rows
    where "student_get_queryset d u qp = Inr rows" by blast
  then show ?thesis by (simp add: student_list_def get_serializer_class_def)
qed

lemma attr_list_ok:
  assumes "assigned_only_ok qp"
  shows "\<exists>rows. attr_queryset k d u qp = Inr rows \<and>
           attr_list k d u qp = (Inr (JList (map label_repr rows)), d)"
proof -
  from attr_get_queryset_ok[OF assms, of "attr_rows k d" "attr_joins k d" u] obtain rows
    where "attr_queryset k d u qp = Inr rows" by (auto simp: attr_queryset_def)
  then show ?thesis by (simp add: attr_list_def attr_actions_def)
qed

section \<open>List ordering\<close>

text \<open>
  Claim C9. Every Student list result is ordered by descending id (strictly, as primary
  keys are unique), and every Tag or Course list result by descending title. A list
  request either fails on a query parameter that is no integer, or returns the serialised
  rows of such an ordered queryset.
\<close>

theorem C9_list_ordering:
  "(params_ok qp \<longrightarrow>
      (\<exists>rows. student_list d u qp = (Inr (JList (map (to_representation d StudentSerializer) rows)), d) \<and>
         sorted_wrt (\<lambda>a b. s_id a \<ge> s_id b) rows \<and>
         (wf_db d \<longrightarrow> sorted_wrt (\<lambda>a b. s_id a > s_id b) rows))) \<and>
   (\<not> params_ok qp \<longrightarrow> student_list d u qp = (Inl ValueError, d)) \<and>
   (assigned_only_ok qp \<longrightarrow>
      (\<exists>rows. attr_list k d u qp = (Inr (JList (map label_repr rows)), d) \<and>
         sorted_wrt (\<lambda>a b. l_title a \<ge> l_title b) rows)) \<and>
   (\<not> assigned_only_ok qp \<longrightarrow> attr_list k d u qp = (Inl ValueError, d))"
proof (intro conjI impI)
  assume ok: "params_ok qp"
  from student_list_ok[OF ok, of d u] obtain rows
    where r: "student_get_queryset d u qp = Inr rows"
      and l: "student_list d u qp = (Inr (JList (map (to_representation d StudentSerializer) rows)), d)"
    by blast
  note p = student_get_queryset_props[OF r]
  have "wf_db d \<longrightarrow> sorted_wrt (\<lambda>a b. s_id a > s_id b) rows"
  proof
    assume "wf_db d"
    then have "distinct (map s_id rows)"
      using p(1,3) by (auto simp: wf_db_def intro: distinct_pk)
    with p(2) show "sorted_wrt (\<lambda>a b. s_id a > s_id b) rows"
      by (rule sorted_desc_strict)
  qed
  with l p(2)
  show "\<exists>rows. student_list d u qp = (Inr (JList (map (to_representation d StudentSerializer) rows)), d) \<and>
         sorted_wrt (\<lambda>a b. s_id a \<ge> s_id b) rows \<and>
         (wf_db d \<longrightarrow> sorted_wrt (\<lambda>a b. s_id a > s_id b) rows)"
    by blast
next
  assume "\<not> params_ok qp"
  then show "student_list d u qp = (Inl ValueError, d)"
    by (simp add: student_list_def student_get_queryset_error)
next
  assume ok: "assigned_only_ok qp"
  from attr_list_ok[OF ok, of k d u] obtain rows
    where r: "attr_queryset k d u qp = Inr rows"
      and l: "attr_list k d u qp = (Inr (JList (map label_repr rows)), d)"
    by blast
  from r have "sorted_wrt (\<lambda>a b. l_title a \<ge> l_title b) rows"
    unfolding attr_queryset_def by (rule attr_get_queryset_props(2))
  with l show "\<exists>rows. attr_list k d u qp = (Inr (JList (map label_repr rows)), d) \<and>
         sorted_wrt (\<lambda>a b. l_title a \<ge> l_title b) rows"
    by blast
next
  assume "\<not> assigned_only_ok qp"
  then show "attr_list k d u qp = (Inl ValueError, d)"
    by (simp add: attr_list_def attr_actions_def attr_queryset_def attr_get_queryset_error)
qed

lemma wf_ex_db: "wf_db ex_db"
  by (simp add: wf_db_def ex_db_def ex_student_def)

text \<open>The list requests without parameters of owner 1 on the example database.\<close>

theorem C9_list_ordering_witness:
  "(\<exists>rows. student_list ex_db 1 no_params =
             (Inr (JList (map (to_representation ex_db StudentSerializer) rows)), ex_db) \<and>
          sorted_wrt (\<lambda>a b. s_id a > s_id b) rows) \<and>
   (\<exists>rows. attr_list Tag ex_db 1 no_params = (Inr (JList (map label_repr rows)), ex_db) \<and>
          sorted_wrt (\<lambda>a b. l_title a \<ge> l_title b) rows)"
proof -
  have p: "params_ok no_params" by (simp add: params_ok_def filter_ok_def no_params_def)
  have a: "assigned_only_ok no_params" by (simp add: assigned_only_ok_def no_params_def)
  show ?thesis
    using C9_list_ordering[of no_params ex_db 1 Tag] p a wf_ex_db by blast
qed

lemma student_get_queryset_unfiltered:
  assumes "qp_tags qp = None \<or> qp_tags qp = Some []"
    and "qp_courses qp = None \<or> qp_courses qp = Some []"
  shows "student_get_queryset d u qp =
           Inr (remdups (order_by_desc s_id (filter (\<lambda>s. s_user s = u) (students d))))"
  using assms unfolding student_get_queryset_def by fastforce

lemma student_get_queryset_courses_empty:
  "student_get_queryset d u (qp\<lparr>qp_courses := Some []\<rparr>) =
   student_get_queryset d u (qp\<lparr>qp_courses := None\<rparr>)"
proof (cases "qp_tags qp")
  case None
  then show ?thesis by (simp add: student_get_queryset_def)
next
  case (Some ts)
  show ?thesis
  proof (cases "ts = []")
    case True
    with Some show ?thesis by (simp add: student_get_queryset_def)
  next
    case False
    with Some show ?thesis
      by (cases "params_to_ints ts") (simp_all add: student_get_queryset_def)
  qed
qed

section \<open>Empty filter parameters\<close>

text \<open>
  Claim C10. A Student list request whose \<^verbatim>\<open>tags\<close> or \<^verbatim>\<open>courses\<close> parameter is present
  but empty is answered exactly like the request without that parameter; with both
  parameters absent or empty no label filter applies, and the answer is the owner's
  students, each once.
\<close>

theorem C10_empty_filter_parameter:
  "student_list d u (qp\<lparr>qp_tags := Some []\<rparr>) = student_list d u (qp\<lparr>qp_tags := None\<rparr>) \<and>
   student_list d u (qp\<lparr>qp_courses := Some []\<rparr>) = student_list d u (qp\<lparr>qp_courses := None\<rparr>) \<and>
   ((qp_tags qp = None \<or> qp_tags qp = Some []) \<and> (qp_courses qp = None \<or> qp_courses qp = Some []) \<longrightarrow>
      (\<exists>rows. student_list d u qp =
                 (Inr (JList (map (to_representation d StudentSerializer) rows)), d) \<and>
              set rows = {s \<in> set (students d). s_user s = u} \<and> distinct rows))"
proof (intro conjI impI)
  show "student_list d u (qp\<lparr>qp_tags := Some []\<rparr>) = student_list d u (qp\<lparr>qp_tags := None\<rparr>)"
    by (simp add: student_list_def student_get_queryset_def)
  show "student_list d u (qp\<lparr>qp_courses := Some []\<rparr>) = student_list d u (qp\<lparr>qp_courses := None\<rparr>)"
    by (simp only: student_list_def student_get_queryset_courses_empty)
next
  let ?rows = "remdups (order_by_desc s_id (filter (\<lambda>s. s_user s = u) (students d)))"
  assume "(qp_tags qp = None \<or> qp_tags qp = Some []) \<and> (qp_courses qp = None \<or> qp_courses qp = Some [])"
  then have r: "student_get_queryset d u qp = Inr ?rows"
    by (simp add: student_get_queryset_unfiltered)
  have l: "student_list d u qp = (Inr (JList (map (to_representation d StudentSerializer) ?rows)), d)"
    by (simp add: student_list_def r get_serializer_class_def)
  have s: "set ?rows = {s \<in> set (students d). s_user s = u}"
    by simp
  have "distinct ?rows" by simp
  with l s show "\<exists>rows. student_list d u qp =
                 (Inr (JList (map (to_representation d StudentSerializer) rows)), d) \<and>
              set rows = {s \<in> set (students d). s_user s = u} \<and> distinct rows"
    by (intro exI conjI)
qed

text \<open>Owner 1 lists the example database with an empty \<^verbatim>\<open>tags\<close> parameter.\<close>

theorem C10_empty_filter_parameter_witness:
  "\<exists>rows. student_list ex_db 1 \<lparr>qp_tags = Some [], qp_courses = None, qp_assigned_only = None\<rparr> =
            (Inr (JList (map (to_representation ex_db StudentSerializer) rows)), ex_db) \<and>
          set rows = {s \<in> set (students ex_db). s_user s = 1} \<and> distinct rows"
proof -
  let ?qp = "\<lparr>qp_tags = Some [], qp_courses = None, qp_assigned_only = None\<rparr>"
  have h: "(qp_tags ?qp = None \<or> qp_tags ?qp = Some []) \<and> (qp_courses ?qp = None \<or> qp_courses ?qp = Some [])"
    by simp
  from C10_empty_filter_parameter[of ex_db 1 ?qp] have
    "(qp_tags ?qp = None \<or> qp_tags ?qp = Some []) \<and> (qp_courses ?qp = None \<or> qp_courses ?qp = Some []) \<longrightarrow>
      (\<exists>rows. student_list ex_db 1 ?qp =
                 (Inr (JList (map (to_representation ex_db StudentSerializer) rows)), ex_db) \<and>
              set rows = {s \<in> set (students ex_db). s_user s = 1} \<and> distinct rows)"
    by (rule conjunct2 [THEN conjunct2])
  then show ?thesis using h by (rule mp)
qed

lemma student_list_selected:
  assumes "params_ok qp"
  shows "\<exists>rows. student_list d u qp =
                  (Inr (JList (map (to_representation d StudentSerializer) rows)), d) \<and>
           set rows = {s \<in> set (students d). s_user s = u \<and>
                         selected (student_tags d) (qp_tags qp) s \<and>
                         selected (student_courses d) (qp_courses qp) s} \<and>
           distinct rows \<and> (wf_db d \<longrightarrow> distinct (map s_id rows))"
proof -
  from student_get_queryset_ok[OF assms, of d u] obtain rows
    where r: "student_get_queryset d u qp = Inr rows"
      and s: "set rows = {s \<in> set (students d). s_user s = u \<and>
                         selected (student_tags d) (qp_tags qp) s \<and>
                         selected (student_courses d) (qp_courses qp) s}"
      and dr: "distinct rows"
    by blast
  have l: "student_list d u qp = (Inr (JList (map (to_representation d StudentSerializer) rows)), d)"
    by (simp add: student_list_def r get_serializer_class_def)
  have "wf_db d \<longrightarrow> distinct (map s_id rows)"
  proof
    assume "wf_db d"
    then have "distinct (map s_id (students d))" by (simp add: wf_db_def)
    moreover from s have "set rows \<subseteq> set (students d)" by blast
    ultimately show "distinct (map s_id rows)" using dr by (metis distinct_pk)
  qed
  with l s dr show ?thesis by blast
qed

lemma selected_None [simp]: "selected joins None s"
  by (simp add: selected_def)

lemma selected_empty [simp]: "selected joins (Some []) s"
  by (simp add: selected_def)

lemma selected_ids:
  "params_to_ints str = Inr ids \<Longrightarrow> str \<noteq> [] \<Longrightarrow>
   selected joins (Some str) s = (\<exists>i \<in> set ids. (s_id s, i) \<in> set joins)"
  by (simp add: selected_def list_ex_iff)

lemma filter_ok_ids: "params_to_ints str = Inr ids \<Longrightarrow> filter_ok (Some str)"
  by (simp add: filter_ok_def)

lemma filter_ok_absent [simp]: "filter_ok None" "filter_ok (Some [])"
  by (simp_all add: filter_ok_def)

section \<open>Filtering students by label ids\<close>

text \<open>
  Claim C4. A Student list request with a \<^verbatim>\<open>tags\<close> (or \<^verbatim>\<open>courses\<close>) parameter that names
  the ids \<open>ids\<close> returns exactly the owner's students joined to at least one of these
  tags (courses), every student once; with both parameters a student has to pass both
  filters. Rows are distinct, and so are their ids, the primary keys being unique.
\<close>

theorem C4_filter_by_label_ids:
  assumes "params_to_ints str = Inr ids" and "str \<noteq> []"
  shows
    "(qp_tags qp = Some str \<and> (qp_courses qp = None \<or> qp_courses qp = Some []) \<longrightarrow>
        (\<exists>rows. student_list d u qp =
                   (Inr (JList (map (to_representation d StudentSerializer) rows)), d) \<and>
           set rows = {s \<in> set (students d). s_user s = u \<and>
                         (\<exists>i \<in> set ids. (s_id s, i) \<in> set (student_tags d))} \<and>
           distinct rows \<and> (wf_db d \<longrightarrow> distinct (map s_id rows)))) \<and>
     (qp_courses qp = Some str \<and> (qp_tags qp = None \<or> qp_tags qp = Some []) \<longrightarrow>
        (\<exists>rows. student_list d u qp =
                   (Inr (JList (map (to_representation d StudentSerializer) rows)), d) \<and>
           set rows = {s \<in> set (students d). s_user s = u \<and>
                         (\<exists>i \<in> set ids. (s_id s, i) \<in> set (student_courses d))} \<and>
           distinct rows \<and> (wf_db d \<longrightarrow> distinct (map s_id rows)))) \<and>
     (qp_tags qp = Some str \<and> qp_courses qp = Some str' \<and> str' \<noteq> [] \<and>
      params_to_ints str' = Inr ids' \<longrightarrow>
        (\<exists>rows. student_list d u qp =
                   (Inr (JList (map (to_representation d StudentSerializer) rows)), d) \<and>
           set rows = {s \<in> set (students d). s_user s = u \<and>
                         (\<exists>i \<in> set ids. (s_id s, i) \<in> set (student_tags d)) \<and>
                         (\<exists>i \<in> set ids'. (s_id s, i) \<in> set (student_courses d))} \<and>
           distinct rows \<and> (wf_db d \<longrightarrow> distinct (map s_id rows))))"
proof (intro conjI impI)
  assume h: "qp_tags qp = Some str \<and> (qp_courses qp = None \<or> qp_courses qp = Some [])"
  with assms have ok: "params_ok qp"
    by (auto simp: params_ok_def filter_ok_ids)
  from h assms have sel: "\<And>s. selected (student_tags d) (qp_tags qp) s =
                              (\<exists>i \<in> set ids. (s_id s, i) \<in> set (student_tags d))"
      "\<And>s. selected (student_courses d) (qp_courses qp) s"
    by (auto simp: selected_ids)
  from student_list_selected[OF ok, of d u]
  show "\<exists>rows. student_list d u qp =
                   (Inr (JList (map (to_representation d StudentSerializer) rows)), d) \<and>
           set rows = {s \<in> set (students d). s_user s = u \<and>
                         (\<exists>i \<in> set ids. (s_id s, i) \<in> set (student_tags d))} \<and>
           distinct rows \<and> (wf_db d \<longrightarrow> distinct (map s_id rows))"
    by (simp only: sel simp_thms)
next
  assume h: "qp_courses qp = Some str \<and> (qp_tags qp = None \<or> qp_tags qp = Some [])"
  with assms have ok: "params_ok qp"
    by (auto simp: params_ok_def filter_ok_ids)
  from h assms have sel: "\<And>s. selected (student_courses d) (qp_courses qp) s =
                              (\<exists>i \<in> set ids. (s_id s, i) \<in> set (student_courses d))"
      "\<And>s. selected (student_tags d) (qp_tags qp) s"
    by (auto simp: selected_ids)
  from student_list_selected[OF ok, of d u]
  show "\<exists>rows. student_list d u qp =
                   (Inr (JList (map (to_representation d StudentSerializer) rows)), d) \<and>
           set rows = {s \<in> set (students d). s_user s = u \<and>
                         (\<exists>i \<in> set ids. (s_id s, i) \<in> set (student_courses d))} \<and>
           distinct rows \<and> (wf_db d \<longrightarrow> distinct (map s_id rows))"
    by (simp only: sel simp_thms)
next
  assume h: "qp_tags qp = Some str \<and> qp_courses qp = Some str' \<and> str' \<noteq> [] \<and>
      params_to_ints str' = Inr ids'"
  with assms have ok: "params_ok qp"
    by (auto simp: params_ok_def filter_ok_ids)
  from h assms have sel: "\<And>s. selected (student_tags d) (qp_tags qp) s =
                              (\<exists>i \<in> set ids. (s_id s, i) \<in> set (student_tags d))"
      "\<And>s. selected (student_courses d) (qp_courses qp) s =
                              (\<exists>i \<in> set ids'. (s_id s, i) \<in> set (student_courses d))"
    by (auto simp: selected_ids)
  from student_list_selected[OF ok, of d u]
  show "\<exists>rows. student_list d u qp =
                   (Inr (JList (map (to_representation d StudentSerializer) rows)), d) \<and>
           set rows = {s \<in> set (students d). s_user s = u \<and>
                         (\<exists>i \<in> set ids. (s_id s, i) \<in> set (student_tags d)) \<and>
                         (\<exists>i \<in> set ids'. (s_id s, i) \<in> set (student_courses d))} \<and>
           distinct rows \<and> (wf_db d \<longrightarrow> distinct (map s_id rows))"
    by (simp only: sel simp_thms)
qed

text \<open>
  Owner 1 filters the example database by the tags 1 and 2 (student 1 has both), by the
  courses 1 and 2, and by both parameters.
\<close>

theorem C4_filter_by_label_ids_witness:
  "(\<exists>rows. student_list ex_db 1 \<lparr>qp_tags = Some ''1,2'', qp_courses = None, qp_assigned_only = None\<rparr> =
             (Inr (JList (map (to_representation ex_db StudentSerializer) rows)), ex_db) \<and>
      set rows = {s \<in> set (students ex_db). s_user s = 1 \<and>
                    (\<exists>i \<in> set [1, 2]. (s_id s, i) \<in> set (student_tags ex_db))} \<and>
      distinct rows \<and> distinct (map s_id rows)) \<and>
   (\<exists>rows. student_list ex_db 1 \<lparr>qp_tags = Some [], qp_courses = Some ''1,2'', qp_assigned_only = None\<rparr> =
             (Inr (JList (map (to_representation ex_db StudentSerializer) rows)), ex_db) \<and>
      set rows = {s \<in> set (students ex_db). s_user s = 1 \<and>
                    (\<exists>i \<in> set [1, 2]. (s_id s, i) \<in> set (student_courses ex_db))} \<and>
      distinct rows \<and> distinct (map s_id rows)) \<and>
   (\<exists>rows. student_list ex_db 1 \<lparr>qp_tags = Some ''1,2'', qp_courses = Some ''2'', qp_assigned_only = None\<rparr> =
             (Inr (JList (map (to_representation ex_db StudentSerializer) rows)), ex_db) \<and>
      set rows = {s \<in> set (students ex_db). s_user s = 1 \<and>
                    (\<exists>i \<in> set [1, 2]. (s_id s, i) \<in> set (student_tags ex_db)) \<and>
                    (\<exists>i \<in> set [2]. (s_id s, i) \<in> set (student_courses ex_db))} \<and>
      distinct rows \<and> distinct (map s_id rows))"
proof -
  have p: "params_to_ints ''1,2'' = Inr [1, 2]" by code_simp
  have p': "params_to_ints ''2'' = Inr [2]" by code_simp
  have n: "''1,2'' \<noteq> []" by simp
  let ?q1 = "\<lparr>qp_tags = Some ''1,2'', qp_courses = None, qp_assigned_only = None\<rparr>"
  let ?q2 = "\<lparr>qp_tags = Some [], qp_courses = Some ''1,2'', qp_assigned_only = None\<rparr>"
  let ?q3 = "\<lparr>qp_tags = Some ''1,2'', qp_courses = Some ''2'', qp_assigned_only = None\<rparr>"
  have h1: "qp_tags ?q1 = Some ''1,2'' \<and> (qp_courses ?q1 = None \<or> qp_courses ?q1 = Some [])" by simp
  have h2: "qp_courses ?q2 = Some ''1,2'' \<and> (qp_tags ?q2 = None \<or> qp_tags ?q2 = Some [])" by simp
  have h3: "qp_tags ?q3 = Some ''1,2'' \<and> qp_courses ?q3 = Some ''2'' \<and> ''2'' \<noteq> [] \<and>
      params_to_ints ''2'' = Inr [2]" using p' by simp
  note t1 = C4_filter_by_label_ids[OF p n, of ?q1 ex_db 1, THEN conjunct1, rule_format, OF h1]
  note t2 = C4_filter_by_label_ids[OF p n, of ?q2 ex_db 1, THEN conjunct2, THEN conjunct1, rule_format, OF h2]
  note t3 = C4_filter_by_label_ids[OF p n, of ?q3 ex_db 1 "''2''" "[2]", THEN conjunct2, THEN conjunct2, rule_format, OF h3]
  from t1 t2 t3 wf_ex_db show ?thesis by simp
qed

lemma attr_list_rows:
  assumes "assigned_only_ok qp"
  shows "\<exists>rows. attr_list k d u qp = (Inr (JList (map label_repr rows)), d) \<and>
           set rows = {l \<in> set (attr_rows k d). l_user l = u \<and>
              (qp_assigned_only qp = None \<or>
               (\<exists>str. qp_assigned_only qp = Some str \<and> py_int str = Inr 0) \<or>
               (\<exists>sid. (sid, l_id l) \<in> set (attr_joins k d)))} \<and>
           distinct rows \<and> (wf_db d \<longrightarrow> distinct (map l_id rows))"
proof -
  from attr_get_queryset_ok[OF assms, of "attr_rows k d" "attr_joins k d" u] obtain rows
    where r: "attr_queryset k d u qp = Inr rows"
      and s: "set rows = {l \<in> set (attr_rows k d). l_user l = u \<and>
              (qp_assigned_only qp = None \<or>
               (\<exists>str. qp_assigned_only qp = Some str \<and> py_int str = Inr 0) \<or>
               (\<exists>sid. (sid, l_id l) \<in> set (attr_joins k d)))}"
      and dr: "distinct rows"
    unfolding attr_queryset_def by blast
  have l: "attr_list k d u qp = (Inr (JList (map label_repr rows)), d)"
    by (simp add: attr_list_def attr_actions_def r)
  have "wf_db d \<longrightarrow> distinct (map l_id rows)"
  proof
    assume "wf_db d"
    then have "distinct (map l_id (attr_rows k d))"
      by (cases k) (simp_all add: wf_db_def attr_rows_def)
    moreover from s have "set rows \<subseteq> set (attr_rows k d)" by blast
    ultimately show "distinct (map l_id rows)" using dr by (metis distinct_pk)
  qed
  with l s dr show ?thesis by blast
qed

lemma wf_join_student:
  assumes "wf_db d"
  shows "(\<exists>sid. (sid, lid) \<in> set (attr_joins k d)) =
         (\<exists>s \<in> set (students d). (s_id s, lid) \<in> set (attr_joins k d))"
proof
  assume "\<exists>sid. (sid, lid) \<in> set (attr_joins k d)"
  then obtain sid where j: "(sid, lid) \<in> set (attr_joins k d)" ..
  with assms have "sid \<in> set (map s_id (students d))"
    by (cases k) (auto simp: wf_db_def attr_joins_def list_all_iff)
  with j show "\<exists>s \<in> set (students d). (s_id s, lid) \<in> set (attr_joins k d)" by auto
next
  assume "\<exists>s \<in> set (students d). (s_id s, lid) \<in> set (attr_joins k d)"
  then show "\<exists>sid. (sid, lid) \<in> set (attr_joins k d)" by blast
qed

section \<open>Listing the assigned labels\<close>

text \<open>
  Claim C5. A Tag or Course list request whose \<^verbatim>\<open>assigned_only\<close> parameter is a non-zero
  integer (such as 1) returns exactly the owner's labels that are attached to at least one
  student, whoever owns that student, each label once; with the parameter absent or zero
  it returns all labels of the owner, each once.
\<close>

theorem C5_assigned_only:
  "(wf_db d \<and> qp_assigned_only qp = Some str \<and> py_int str = Inr n \<and> n \<noteq> 0 \<longrightarrow>
      (\<exists>rows. attr_list k d u qp = (Inr (JList (map label_repr rows)), d) \<and>
         set rows = {l \<in> set (attr_rows k d). l_user l = u \<and>
                       (\<exists>s \<in> set (students d). (s_id s, l_id l) \<in> set (attr_joins k d))} \<and>
         distinct rows \<and> distinct (map l_id rows))) \<and>
   (qp_assigned_only qp = None \<or> (qp_assigned_only qp = Some str \<and> py_int str = Inr 0) \<longrightarrow>
      (\<exists>rows. attr_list k d u qp = (Inr (JList (map label_repr rows)), d) \<and>
         set rows = {l \<in> set (attr_rows k d). l_user l = u} \<and>
         distinct rows \<and> (wf_db d \<longrightarrow> distinct (map l_id rows))))"
proof (intro conjI impI)
  assume h: "wf_db d \<and> qp_assigned_only qp = Some str \<and> py_int str = Inr n \<and> n \<noteq> 0"
  then have ok: "assigned_only_ok qp" by (simp add: assigned_only_ok_def)
  from h have c: "\<And>l. (qp_assigned_only qp = None \<or>
               (\<exists>str. qp_assigned_only qp = Some str \<and> py_int str = Inr 0) \<or>
               (\<exists>sid. (sid, l_id l) \<in> set (attr_joins k d))) =
            (\<exists>s \<in> set (students d). (s_id s, l_id l) \<in> set (attr_joins k d))"
    by (simp add: wf_join_student)
  from h have wf: "wf_db d" by simp
  from attr_list_rows[OF ok, of k d u] wf
  show "\<exists>rows. attr_list k d u qp = (Inr (JList (map label_repr rows)), d) \<and>
         set rows = {l \<in> set (attr_rows k d). l_user l = u \<and>
                       (\<exists>s \<in> set (students d). (s_id s, l_id l) \<in> set (attr_joins k d))} \<and>
         distinct rows \<and> distinct (map l_id rows)"
    by (simp only: c simp_thms)
next
  assume h: "qp_assigned_only qp = None \<or> (qp_assigned_only qp = Some str \<and> py_int str = Inr 0)"
  then have ok: "assigned_only_ok qp" by (auto simp: assigned_only_ok_def)
  from h have c: "\<And>l. (qp_assigned_only qp = None \<or>
               (\<exists>str. qp_assigned_only qp = Some str \<and> py_int str = Inr 0) \<or>
               (\<exists>sid. (sid, l_id l) \<in> set (attr_joins k d))) = True"
    by auto
  from attr_list_rows[OF ok, of k d u]
  show "\<exists>rows. attr_list k d u qp = (Inr (JList (map label_repr rows)), d) \<and>
         set rows = {l \<in> set (attr_rows k d). l_user l = u} \<and>
         distinct rows \<and> (wf_db d \<longrightarrow> distinct (map l_id rows))"
    by (simp only: c simp_thms)
qed

text \<open>
  Owner 1 lists the tags of the example database with \<^verbatim>\<open>assigned_only=1\<close> (tag 4 is
  attached to a student of owner 2 only and is listed, tag 5 is attached to nobody), with
  \<^verbatim>\<open>assigned_only=0\<close> and without the parameter.
\<close>

theorem C5_assigned_only_witness:
  "(\<exists>rows. attr_list Tag ex_db 1 \<lparr>qp_tags = None, qp_courses = None, qp_assigned_only = Some ''1''\<rparr> =
             (Inr (JList (map label_repr rows)), ex_db) \<and>
      set rows = {l \<in> set (attr_rows Tag ex_db). l_user l = 1 \<and>
                    (\<exists>s \<in> set (students ex_db). (s_id s, l_id l) \<in> set (attr_joins Tag ex_db))} \<and>
      distinct rows \<and> distinct (map l_id rows)) \<and>
   (\<exists>rows. attr_list Tag ex_db 1 \<lparr>qp_tags = None, qp_courses = None, qp_assigned_only = Some ''0''\<rparr> =
             (Inr (JList (map label_repr rows)), ex_db) \<and>
      set rows = {l \<in> set (attr_rows Tag ex_db). l_user l = 1} \<and>
      distinct rows \<and> distinct (map l_id rows)) \<and>
   (\<exists>rows. attr_list Course ex_db 1 no_params = (Inr (JList (map label_repr rows)), ex_db) \<and>
      set rows = {l \<in> set (attr_rows Course ex_db). l_user l = 1} \<and>
      distinct rows \<and> distinct (map l_id rows))"
proof -
  have p1: "py_int ''1'' = Inr 1" by code_simp
  have p0: "py_int ''0'' = Inr 0" by code_simp
  let ?q1 = "\<lparr>qp_tags = None, qp_courses = None, qp_assigned_only = Some ''1''\<rparr>"
  let ?q0 = "\<lparr>qp_tags = None, qp_courses = None, qp_assigned_only = Some ''0''\<rparr>"
  have h1: "wf_db ex_db \<and> qp_assigned_only ?q1 = Some ''1'' \<and> py_int ''1'' = Inr 1 \<and> (1::int) \<noteq> 0"
    using p1 wf_ex_db by simp
  have h0: "qp_assigned_only ?q0 = None \<or> (qp_assigned_only ?q0 = Some ''0'' \<and> py_int ''0'' = Inr 0)"
    using p0 by simp
  have hn: "qp_assigned_only no_params = None \<or>
            (qp_assigned_only no_params = Some ''0'' \<and> py_int ''0'' = Inr 0)"
    by (simp add: no_params_def)
  note t1 = C5_assigned_only[of ex_db ?q1 "''1''" 1 Tag 1, THEN conjunct1, rule_format, OF h1]
  note t0 = C5_assigned_only[of ex_db ?q0 "''0''" 1 Tag 1, THEN conjunct2, rule_format, OF h0]
  note tn = C5_assigned_only[of ex_db no_params "''0''" 1 Course 1, THEN conjunct2, rule_format, OF hn]
  from t1 t0 tn wf_ex_db show ?thesis by simp
qed

lemma assigned_only_example:
  "attr_list Tag ex_db 1 \<lparr>qp_tags = None, qp_courses = None, qp_assigned_only = Some ''1''\<rparr> =
     (Inr (JList [JObj [(''id'', JInt 1), (''title'', JStr ''Vegan'')],
                  JObj [(''id'', JInt 4), (''title'', JStr ''Lunch'')],
                  JObj [(''id'', JInt 2), (''title'', JStr ''Dessert'')]]), ex_db)"
  by code_simp

lemma not_filter_ok:
  assumes "str \<noteq> []" and "x \<in> set (split_comma str)" and "py_int x = Inl e"
  shows "\<not> filter_ok (Some str)"
proof -
  from assms(3) have "isl (py_int x)" by simp
  with assms(2) have "isl (params_to_ints str)"
    unfolding isl_params_to_ints by (rule bexI[rotated])
  with assms(1) show ?thesis by (simp add: filter_ok_def)
qed

section \<open>Malformed filter parameters\<close>

text \<open>
  Claim C6, as stated, fails: \<^verbatim>\<open>_params_to_ints\<close> calls \<^verbatim>\<open>int\<close> with nothing around it, so
  an id that is no integer raises ValueError, which the exception handler of the framework
  does not turn into a response: the request ends as a server error, not as a validation
  error with the failing field.
\<close>

theorem C6_counterexample:
  "student_list ex_db 1 \<lparr>qp_tags = Some ''1,abc'', qp_courses = None, qp_assigned_only = None\<rparr> =
     (Inl ValueError, ex_db) \<and>
   exception_handler ValueError = None \<and> status_code ValueError = 500"
  by (simp add: status_code_def) code_simp

text \<open>
  Claim C6, amended. A list request whose non-empty \<^verbatim>\<open>tags\<close> or \<^verbatim>\<open>courses\<close> parameter has
  an item that is no integer fails with ValueError and leaves the database as it was; the
  exception is not handled, so the answer is a server error that names no field.
\<close>

theorem C6_malformed_filter_id:
  assumes "qp_tags qp = Some str \<or> qp_courses qp = Some str"
    and "str \<noteq> []" and "x \<in> set (split_comma str)" and "py_int x = Inl e"
  shows "student_list d u qp = (Inl ValueError, d) \<and>
         exception_handler ValueError = None \<and> status_code ValueError = 500"
proof -
  from assms(2-4) have "\<not> filter_ok (Some str)" by (rule not_filter_ok)
  with assms(1) have "\<not> params_ok qp" by (auto simp: params_ok_def)
  then have "student_get_queryset d u qp = Inl ValueError"
    by (rule student_get_queryset_error)
  then show ?thesis by (simp add: student_list_def status_code_def)
qed

text \<open>The courses parameter \<^verbatim>\<open>2,x\<close> on the example database.\<close>

theorem C6_malformed_filter_id_witness:
  "student_list ex_db 1 \<lparr>qp_tags = Some ''1'', qp_courses = Some ''2,x'', qp_assigned_only = None\<rparr> =
     (Inl ValueError, ex_db) \<and>
   exception_handler ValueError = None \<and> status_code ValueError = 500"
proof -
  let ?qp = "\<lparr>qp_tags = Some ''1'', qp_courses = Some ''2,x'', qp_assigned_only = None\<rparr>"
  have a: "qp_tags ?qp = Some ''2,x'' \<or> qp_courses ?qp = Some ''2,x''" by simp
  have b: "''2,x'' \<noteq> []" by simp
  have c: "''x'' \<in> set (split_comma ''2,x'')" by simp
  have e: "py_int ''x'' = Inl ValueError" by code_simp
  show ?thesis by (rule C6_malformed_filter_id[OF a b c e])
qed

lemma filter_pk_single:
  "distinct (map pk rows) \<Longrightarrow> r \<in> set rows \<Longrightarrow> filter (\<lambda>x. pk x = pk r) rows = [r]"
proof (induction rows)
  case Nil
  then show ?case by simp
next
  case (Cons a rows)
  show ?case
  proof (cases "a = r")
    case True
    from Cons.prems(1) have "pk a \<notin> pk ` set rows" by simp
    then have "\<forall>x \<in> set rows. pk x \<noteq> pk a" by (metis imageI)
    then have "filter (\<lambda>x. pk x = pk a) rows = []"
      by (simp add: filter_empty_conv)
    with True show ?thesis by simp
  next
    case False
    with Cons.prems have r: "r \<in> set rows" by simp
    from Cons.prems(1) have "pk a \<notin> pk ` set rows" by simp
    with r have "pk a \<noteq> pk r" by (metis imageI)
    with Cons r show ?thesis by simp
  qed
qed

lemma get_object_found:
  "distinct (map pk rows) \<Longrightarrow> r \<in> set rows \<Longrightarrow> get_object pk rows (pk r) = Inr r"
  by (simp add: get_object_def filter_pk_single)

lemma get_object_NotFound:
  "\<forall>r \<in> set rows. pk r \<noteq> k \<Longrightarrow> get_object pk rows k = Inl NotFound"
proof -
  assume "\<forall>r \<in> set rows. pk r \<noteq> k"
  then have "filter (\<lambda>r. pk r = k) rows = []" by (simp add: filter_empty_conv)
  then show ?thesis by (simp add: get_object_def)
qed

lemma get_object_Inr:
  assumes "get_object pk rows k = Inr r"
  shows "r \<in> set rows \<and> pk r = k"
proof -
  from assms have "filter (\<lambda>r. pk r = k) rows = [r]"
    by (auto simp: get_object_def split: list.splits)
  then have "r \<in> set (filter (\<lambda>r. pk r = k) rows)" by simp
  then show ?thesis by simp
qed

text \<open>A request by \<open>u\<close> for a primary key that no student of \<open>u\<close> has.\<close>

lemma student_get_object_NotFound:
  assumes "student_get_queryset d u qp = Inr rows"
    and "\<not> (\<exists>s \<in> set (students d). s_id s = pk \<and> s_user s = u)"
  shows "get_object s_id rows pk = Inl NotFound"
proof (rule get_object_NotFound, rule ballI)
  fix r assume "r \<in> set rows"
  with assms(1) have "r \<in> set (students d) \<and> s_user r = u"
    by (rule student_get_queryset_user)
  with assms(2) show "s_id r \<noteq> pk" by blast
qed

lemma student_get_object_owned:
  assumes "wf_db d" and "s \<in> set (students d)" and "s_user s = u"
    and "qp_tags qp = None \<or> qp_tags qp = Some []"
    and "qp_courses qp = None \<or> qp_courses qp = Some []"
  shows "\<exists>rows. student_get_queryset d u qp = Inr rows \<and> get_object s_id rows (s_id s) = Inr s"
proof -
  let ?rows = "remdups (order_by_desc s_id (filter (\<lambda>s. s_user s = u) (students d)))"
  from assms(4,5) have r: "student_get_queryset d u qp = Inr ?rows"
    by (rule student_get_queryset_unfiltered)
  from assms(1) have "distinct (map s_id (students d))" by (simp add: wf_db_def)
  moreover have "set ?rows \<subseteq> set (students d)" by auto
  moreover have "distinct ?rows" by simp
  ultimately have "distinct (map s_id ?rows)" by (metis distinct_pk)
  moreover from assms(2,3) have "s \<in> set ?rows" by simp
  ultimately have "get_object s_id ?rows (s_id s) = Inr s" by (rule get_object_found)
  with r show ?thesis by blast
qed

lemma keys_of_to_representation [simp]:
  "keys_of (to_representation d cls s) = field_names (Meta_fields cls)"
  by (simp add: to_representation_def comp_def)

lemma compact_fields:
  "field_names StudentSerializer_Meta_fields =
     [''id'', ''name'', ''email'', ''address'', ''birthday'', ''link'', ''tags'', ''courses'']"
  by (simp add: StudentSerializer_Meta_fields_def)

lemma detail_fields:
  "field_names (Meta_fields StudentDetailSerializer) =
     [''id'', ''name'', ''email'', ''address'', ''birthday'', ''link'', ''tags'', ''courses'', ''image'']"
  by (simp add: StudentSerializer_Meta_fields_def)

section \<open>The projections of a student\<close>

text \<open>
  Claim C7, as stated, fails. \<^verbatim>\<open>get_serializer_class\<close> returns the class attribute
  \<^verbatim>\<open>serializer_class\<close> for a detail read, and that is \<^verbatim>\<open>StudentSerializer\<close>: the detail
  read of a student with an image has no \<^verbatim>\<open>image\<close> field. And \<^verbatim>\<open>StudentSerializer\<close>, the
  compact projection of list and create, declares \<^verbatim>\<open>courses\<close>.
\<close>

theorem C7_counterexample:
  "map s_image (students ex_db_image) = [Some ''uploads/student/0000.jpg'', None, None] \<and>
   student_retrieve ex_db_image 1 no_params 1 =
     (Inr (JObj [(''id'', JInt 1), (''name'', JStr ''Student1''),
                 (''email'', JStr ''sample@sample.com''), (''address'', JStr ''Sample Street''),
                 (''birthday'', JStr ''01/01/2001''), (''link'', JStr []),
                 (''tags'', JList [JObj [(''id'', JInt 1), (''title'', JStr ''Vegan'')],
                                   JObj [(''id'', JInt 2), (''title'', JStr ''Dessert'')]]),
                 (''courses'', JList [JObj [(''id'', JInt 1), (''title'', JStr ''BIO 101'')],
                                      JObj [(''id'', JInt 2), (''title'', JStr ''SCI 101'')]])]),
      ex_db_image) \<and>
   field_names (Meta_fields (get_serializer_class A_list)) =
     [''id'', ''name'', ''email'', ''address'', ''birthday'', ''link'', ''tags'', ''courses'']"
  by code_simp

text \<open>
  Claim C7, amended. The detail read of a student the requester owns (no filter
  parameters) returns the student's projection, which has the fields \<^verbatim>\<open>tags\<close> and
  \<^verbatim>\<open>courses\<close>; the compact projection of list and create has \<^verbatim>\<open>courses\<close> too and has no
  \<^verbatim>\<open>image\<close>; and a detail read of a primary key that no student of the requester has is
  answered 404. (Whether the detail read shows the image is left open: the serializer
  written for the detail view, \<^verbatim>\<open>StudentDetailSerializer\<close>, is not the one the view uses.)
\<close>

theorem C7_projections:
  "(wf_db d \<and> s \<in> set (students d) \<and> s_user s = u \<and>
    (qp_tags qp = None \<or> qp_tags qp = Some []) \<and> (qp_courses qp = None \<or> qp_courses qp = Some []) \<longrightarrow>
      (\<exists>body. student_retrieve d u qp (s_id s) = (Inr body, d) \<and>
         body = to_representation d (get_serializer_class A_retrieve) s \<and>
         ''tags'' \<in> set (keys_of body) \<and> ''courses'' \<in> set (keys_of body))) \<and>
   (''courses'' \<in> set (keys_of (to_representation d (get_serializer_class A_list) s)) \<and>
    ''image'' \<notin> set (keys_of (to_representation d (get_serializer_class A_list) s)) \<and>
    ''courses'' \<in> set (keys_of (to_representation d (get_serializer_class A_create) s)) \<and>
    ''image'' \<notin> set (keys_of (to_representation d (get_serializer_class A_create) s))) \<and>
   (params_ok qp \<and> \<not> (\<exists>s \<in> set (students d). s_id s = pk \<and> s_user s = u) \<longrightarrow>
      student_retrieve d u qp pk = (Inl NotFound, d) \<and> status_code NotFound = 404)"
proof (intro conjI impI)
  assume h: "wf_db d \<and> s \<in> set (students d) \<and> s_user s = u \<and>
    (qp_tags qp = None \<or> qp_tags qp = Some []) \<and> (qp_courses qp = None \<or> qp_courses qp = Some [])"
  then obtain rows where r: "student_get_queryset d u qp = Inr rows"
    and g: "get_object s_id rows (s_id s) = Inr s"
    using student_get_object_owned[of d s u qp] by blast
  let ?body = "to_representation d (get_serializer_class A_retrieve) s"
  have "student_retrieve d u qp (s_id s) = (Inr ?body, d)"
    by (simp add: student_retrieve_def r g)
  moreover have "''tags'' \<in> set (keys_of ?body)" "''courses'' \<in> set (keys_of ?body)"
    by (simp_all add: get_serializer_class_def StudentViewSet_serializer_class_def compact_fields)
  ultimately show "\<exists>body. student_retrieve d u qp (s_id s) = (Inr body, d) \<and>
         body = to_representation d (get_serializer_class A_retrieve) s \<and>
         ''tags'' \<in> set (keys_of body) \<and> ''courses'' \<in> set (keys_of body)"
    by blast
next
  show "''courses'' \<in> set (keys_of (to_representation d (get_serializer_class A_list) s))"
    by (simp add: get_serializer_class_def compact_fields)
  show "''image'' \<notin> set (keys_of (to_representation d (get_serializer_class A_list) s))"
    by (simp add: get_serializer_class_def compact_fields)
  show "''courses'' \<in> set (keys_of (to_representation d (get_serializer_class A_create) s))"
    by (simp add: get_serializer_class_def StudentViewSet_serializer_class_def compact_fields)
  show "''image'' \<notin> set (keys_of (to_representation d (get_serializer_class A_create) s))"
    by (simp add: get_serializer_class_def StudentViewSet_serializer_class_def compact_fields)
next
  assume h: "params_ok qp \<and> \<not> (\<exists>s \<in> set (students d). s_id s = pk \<and> s_user s = u)"
  then obtain rows where r: "student_get_queryset d u qp = Inr rows"
    using student_get_queryset_ok[of qp d u] by blast
  with h have "get_object s_id rows pk = Inl NotFound"
    using student_get_object_NotFound by blast
  with r show "student_retrieve d u qp pk = (Inl NotFound, d)"
    by (simp add: student_retrieve_def)
next
  show "status_code NotFound = 404" by (simp add: status_code_def)
qed

text \<open>
  Owner 1 reads student 2 of the example database, and student 3, which is owner 2's, and
  student 9, which does not exist.
\<close>

theorem C7_projections_witness:
  "(\<exists>body. student_retrieve ex_db 1 no_params (s_id (ex_student 2 1 ''Student2'')) = (Inr body, ex_db) \<and>
         body = to_representation ex_db (get_serializer_class A_retrieve) (ex_student 2 1 ''Student2'') \<and>
         ''tags'' \<in> set (keys_of body) \<and> ''courses'' \<in> set (keys_of body)) \<and>
   student_retrieve ex_db 1 no_params 3 = (Inl NotFound, ex_db) \<and>
   student_retrieve ex_db 1 no_params 9 = (Inl NotFound, ex_db)"
proof -
  have h1: "wf_db ex_db \<and> ex_student 2 1 ''Student2'' \<in> set (students ex_db) \<and>
      s_user (ex_student 2 1 ''Student2'') = 1 \<and>
      (qp_tags no_params = None \<or> qp_tags no_params = Some []) \<and>
      (qp_courses no_params = None \<or> qp_courses no_params = Some [])"
    using wf_ex_db by (simp add: ex_db_def no_params_def ex_student_def)
  have h3: "params_ok no_params \<and> \<not> (\<exists>s \<in> set (students ex_db). s_id s = 3 \<and> s_user s = 1)"
    by (simp add: params_ok_def no_params_def ex_db_def ex_student_def)
  have h9: "params_ok no_params \<and> \<not> (\<exists>s \<in> set (students ex_db). s_id s = 9 \<and> s_user s = 1)"
    by (simp add: params_ok_def no_params_def ex_db_def ex_student_def)
  note t1 = C7_projections[of ex_db "ex_student 2 1 ''Student2''" 1 no_params,
      THEN conjunct1, rule_format, OF h1]
  note t3 = C7_projections[of ex_db _ 1 no_params 3,
      THEN conjunct2, THEN conjunct2, rule_format, OF h3, THEN conjunct1]
  note t9 = C7_projections[of ex_db _ 1 no_params 9,
      THEN conjunct2, THEN conjunct2, rule_format, OF h9, THEN conjunct1]
  from t1 t3 t9 show ?thesis by (intro conjI)
qed

lemma wf_student_pk:
  assumes "wf_db d" and "s \<in> set (students d)" and "s' \<in> set (students d)" and "s_id s' = s_id s"
  shows "s' = s"
proof -
  from assms(1) have "inj_on s_id (set (students d))"
    by (simp add: wf_db_def distinct_map)
  with assms(2-4) show ?thesis by (metis inj_onD)
qed

lemma wf_label_pk:
  assumes "wf_db d" and "l \<in> set (attr_rows k d)" and "l' \<in> set (attr_rows k d)" and "l_id l' = l_id l"
  shows "l' = l"
proof -
  from assms(1) have "inj_on l_id (set (attr_rows k d))"
    by (cases k) (simp_all add: wf_db_def distinct_map attr_rows_def)
  with assms(2-4) show ?thesis by (metis inj_onD)
qed

lemma not_owned_student:
  assumes "wf_db d" and "s \<in> set (students d)" and "s_user s = b" and "a \<noteq> b"
  shows "\<not> (\<exists>s' \<in> set (students d). s_id s' = s_id s \<and> s_user s' = a)"
proof
  assume "\<exists>s' \<in> set (students d). s_id s' = s_id s \<and> s_user s' = a"
  then obtain s' where "s' \<in> set (students d)" "s_id s' = s_id s" "s_user s' = a" by blast
  with assms(1,2) have "s' = s" using wf_student_pk by blast
  with \<open>s_user s' = a\<close> assms(3,4) show False by simp
qed

text \<open>The object lookup of the four detail actions on students, failing.\<close>

lemma student_lookup_fails:
  assumes "\<not> (\<exists>s \<in> set (students d). s_id s = pk \<and> s_user s = u)"
  shows "(case student_get_queryset d u qp of
            Inl e \<Rightarrow> Inl e
          | Inr rows \<Rightarrow> get_object s_id rows pk) =
         Inl (if params_ok qp then NotFound else ValueError)"
proof (cases "params_ok qp")
  case True
  then obtain rows where r: "student_get_queryset d u qp = Inr rows"
    using student_get_queryset_ok[of qp d u] by blast
  with assms have "get_object s_id rows pk = Inl NotFound"
    using student_get_object_NotFound by blast
  with r True show ?thesis by simp
next
  case False
  then show ?thesis by (simp add: student_get_queryset_error)
qed

lemma student_detail_not_owned:
  assumes "\<not> (\<exists>s \<in> set (students d). s_id s = pk \<and> s_user s = u)"
  shows "student_retrieve d u qp pk = (Inl (if params_ok qp then NotFound else ValueError), d)"
    and "student_update d u qp pk partial payload = (Inl (if params_ok qp then NotFound else ValueError), d)"
    and "student_destroy d u qp pk = (Inl (if params_ok qp then NotFound else ValueError), d)"
    and "upload_image d u qp pk file uuid = (Inl (if params_ok qp then NotFound else ValueError), d)"
  using student_lookup_fails[OF assms, of qp]
  by (auto simp: student_retrieve_def student_update_def student_destroy_def upload_image_def
        split: sum.splits)

lemma attr_lookup_fails:
  assumes "\<not> (\<exists>l \<in> set (attr_rows k d). l_id l = pk \<and> l_user l = u)"
  shows "(case attr_queryset k d u qp of
            Inl e \<Rightarrow> Inl e
          | Inr rows \<Rightarrow> get_object l_id rows pk) =
         Inl (if assigned_only_ok qp then NotFound else ValueError)"
proof (cases "assigned_only_ok qp")
  case True
  then obtain rows where r: "attr_queryset k d u qp = Inr rows"
    using attr_list_ok[of qp k d u] by blast
  have "get_object l_id rows pk = Inl NotFound"
  proof (rule get_object_NotFound, rule ballI)
    fix l assume "l \<in> set rows"
    with r have "l \<in> set (attr_rows k d) \<and> l_user l = u"
      unfolding attr_queryset_def using attr_get_queryset_props(3,4) by blast
    with assms show "l_id l \<noteq> pk" by blast
  qed
  with r True show ?thesis by simp
next
  case False
  then show ?thesis by (simp add: attr_queryset_def attr_get_queryset_error)
qed

lemma attr_detail_not_owned:
  assumes "\<not> (\<exists>l \<in> set (attr_rows k d). l_id l = pk \<and> l_user l = u)"
  shows "attr_update k d u qp pk partial payload =
           (Inl (if assigned_only_ok qp then NotFound else ValueError), d)"
    and "attr_destroy k d u qp pk = (Inl (if assigned_only_ok qp then NotFound else ValueError), d)"
  using attr_lookup_fails[OF assms, of qp]
  by (auto simp: attr_update_def attr_destroy_def attr_actions_def split: sum.splits)

lemma attr_retrieve_not_allowed: "attr_retrieve k d u qp pk = (Inl MethodNotAllowed, d)"
  by (simp add: attr_retrieve_def attr_actions_def)

lemma not_owned_label:
  assumes "wf_db d" and "l \<in> set (attr_rows k d)" and "l_user l = b" and "a \<noteq> b"
  shows "\<not> (\<exists>l' \<in> set (attr_rows k d). l_id l' = l_id l \<and> l_user l' = a)"
proof
  assume "\<exists>l' \<in> set (attr_rows k d). l_id l' = l_id l \<and> l_user l' = a"
  then obtain l' where "l' \<in> set (attr_rows k d)" "l_id l' = l_id l" "l_user l' = a" by blast
  with assms(1,2) have "l' = l" using wf_label_pk by blast
  with \<open>l_user l' = a\<close> assms(3,4) show False by simp
qed

lemma student_retrieve_Inr:
  assumes "student_retrieve d u qp pk = (Inr body, d')"
  shows "\<exists>s \<in> set (students d). s_id s = pk \<and> s_user s = u \<and>
           body = to_representation d StudentSerializer s"
proof -
  from assms obtain rows s where r: "student_get_queryset d u qp = Inr rows"
    and g: "get_object s_id rows pk = Inr s"
    and b: "body = to_representation d (get_serializer_class A_retrieve) s"
    by (auto simp: student_retrieve_def split: sum.splits)
  from g have "s \<in> set rows \<and> s_id s = pk" by (rule get_object_Inr)
  moreover with r have "s \<in> set (students d) \<and> s_user s = u"
    using student_get_queryset_user by blast
  ultimately show ?thesis
    using b by (auto simp: get_serializer_class_def StudentViewSet_serializer_class_def)
qed

section \<open>Isolation of owners\<close>

text \<open>
  Claim C1, as stated, fails in two places. The label viewsets have no detail read: a
  GET of \<^verbatim>\<open>/tags/{id}\<close> is answered 405 whatever the id (here owner 1 asks for tag 3 of
  owner 2), not 404. And every detail action reads the query parameters first: with a
  \<^verbatim>\<open>tags\<close> parameter that is no integer, the request for another owner's student raises
  ValueError.
\<close>

theorem C1_counterexample:
  "attr_retrieve Tag ex_db 1 no_params 3 = (Inl MethodNotAllowed, ex_db) \<and>
   student_retrieve ex_db 1 \<lparr>qp_tags = Some ''x'', qp_courses = None, qp_assigned_only = None\<rparr> 3 =
     (Inl ValueError, ex_db)"
  by code_simp

text \<open>
  Claim C1, amended. For two distinct owners \<open>a\<close> and \<open>b\<close>: the Student, Tag and Course
  lists of \<open>a\<close> hold rows of \<open>a\<close> only, and a Student detail read by \<open>a\<close> that succeeds
  returns a student of \<open>a\<close>. An attempt of \<open>a\<close> to read, update, delete or give an image to
  a student of \<open>b\<close>, or to update or delete a label of \<open>b\<close>, fails and leaves the whole
  database as it was: as NotFound (404) when the query parameters of the request parse, as
  ValueError when they do not. A detail read of a label is answered 405.
\<close>

theorem C1_owner_isolation:
  assumes "wf_db d" and "a \<noteq> b"
  shows
    "(params_ok qp \<longrightarrow>
        (\<exists>rows. student_list d a qp =
                   (Inr (JList (map (to_representation d StudentSerializer) rows)), d) \<and>
                 (\<forall>s \<in> set rows. s \<in> set (students d) \<and> s_user s = a \<and> s_user s \<noteq> b))) \<and>
     (assigned_only_ok qp \<longrightarrow>
        (\<exists>rows. attr_list k d a qp = (Inr (JList (map label_repr rows)), d) \<and>
                 (\<forall>l \<in> set rows. l \<in> set (attr_rows k d) \<and> l_user l = a \<and> l_user l \<noteq> b))) \<and>
     (student_retrieve d a qp pk = (Inr body, d') \<longrightarrow>
        (\<exists>s \<in> set (students d). s_id s = pk \<and> s_user s = a \<and> s_user s \<noteq> b \<and>
           body = to_representation d StudentSerializer s)) \<and>
     (s \<in> set (students d) \<and> s_user s = b \<longrightarrow>
        student_retrieve d a qp (s_id s) = (Inl (if params_ok qp then NotFound else ValueError), d) \<and>
        student_update d a qp (s_id s) partial payload =
          (Inl (if params_ok qp then NotFound else ValueError), d) \<and>
        student_destroy d a qp (s_id s) = (Inl (if params_ok qp then NotFound else ValueError), d) \<and>
        upload_image d a qp (s_id s) file uuid =
          (Inl (if params_ok qp then NotFound else ValueError), d)) \<and>
     (l \<in> set (attr_rows k d) \<and> l_user l = b \<longrightarrow>
        attr_update k d a qp (l_id l) partial lpayload =
          (Inl (if assigned_only_ok qp then NotFound else ValueError), d) \<and>
        attr_destroy k d a qp (l_id l) =
          (Inl (if assigned_only_ok qp then NotFound else ValueError), d) \<and>
        attr_retrieve k d a qp (l_id l) = (Inl MethodNotAllowed, d)) \<and>
     status_code NotFound = 404"
proof (intro conjI impI)
  assume ok: "params_ok qp"
  from student_list_ok[OF ok, of d a] obtain rows
    where r: "student_get_queryset d a qp = Inr rows"
      and l: "student_list d a qp = (Inr (JList (map (to_representation d StudentSerializer) rows)), d)"
    by blast
  from r have "\<forall>s \<in> set rows. s \<in> set (students d) \<and> s_user s = a"
    using student_get_queryset_user by blast
  with assms(2) have "\<forall>s \<in> set rows. s \<in> set (students d) \<and> s_user s = a \<and> s_user s \<noteq> b"
    by simp
  with l show "\<exists>rows. student_list d a qp =
                   (Inr (JList (map (to_representation d StudentSerializer) rows)), d) \<and>
                 (\<forall>s \<in> set rows. s \<in> set (students d) \<and> s_user s = a \<and> s_user s \<noteq> b)"
    by blast
next
  assume ok: "assigned_only_ok qp"
  from attr_list_ok[OF ok, of k d a] obtain rows
    where r: "attr_queryset k d a qp = Inr rows"
      and l: "attr_list k d a qp = (Inr (JList (map label_repr rows)), d)"
    by blast
  from r have "\<forall>l \<in> set rows. l \<in> set (attr_rows k d) \<and> l_user l = a"
    unfolding attr_queryset_def using attr_get_queryset_props(3,4) by blast
  with assms(2) have "\<forall>l \<in> set rows. l \<in> set (attr_rows k d) \<and> l_user l = a \<and> l_user l \<noteq> b"
    by simp
  with l show "\<exists>rows. attr_list k d a qp = (Inr (JList (map label_repr rows)), d) \<and>
                 (\<forall>l \<in> set rows. l \<in> set (attr_rows k d) \<and> l_user l = a \<and> l_user l \<noteq> b)"
    by blast
next
  assume "student_retrieve d a qp pk = (Inr body, d')"
  then have "\<exists>s \<in> set (students d). s_id s = pk \<and> s_user s = a \<and>
           body = to_representation d StudentSerializer s"
    by (rule student_retrieve_Inr)
  with assms(2) show "\<exists>s \<in> set (students d). s_id s = pk \<and> s_user s = a \<and> s_user s \<noteq> b \<and>
           body = to_representation d StudentSerializer s"
    by auto
next
  assume "s \<in> set (students d) \<and> s_user s = b"
  with assms have n: "\<not> (\<exists>s' \<in> set (students d). s_id s' = s_id s \<and> s_user s' = a)"
    using not_owned_student by blast
  show "student_retrieve d a qp (s_id s) = (Inl (if params_ok qp then NotFound else ValueError), d)"
    by (rule student_detail_not_owned(1)[OF n])
  show "student_update d a qp (s_id s) partial payload =
          (Inl (if params_ok qp then NotFound else ValueError), d)"
    by (rule student_detail_not_owned(2)[OF n])
  show "student_destroy d a qp (s_id s) = (Inl (if params_ok qp then NotFound else ValueError), d)"
    by (rule student_detail_not_owned(3)[OF n])
  show "upload_image d a qp (s_id s) file uuid =
          (Inl (if params_ok qp then NotFound else ValueError), d)"
    by (rule student_detail_not_owned(4)[OF n])
next
  assume "l \<in> set (attr_rows k d) \<and> l_user l = b"
  with assms have n: "\<not> (\<exists>l' \<in> set (attr_rows k d). l_id l' = l_id l \<and> l_user l' = a)"
    using not_owned_label by blast
  show "attr_update k d a qp (l_id l) partial lpayload =
          (Inl (if assigned_only_ok qp then NotFound else ValueError), d)"
    by (rule attr_detail_not_owned(1)[OF n])
  show "attr_destroy k d a qp (l_id l) =
          (Inl (if assigned_only_ok qp then NotFound else ValueError), d)"
    by (rule attr_detail_not_owned(2)[OF n])
  show "attr_retrieve k d a qp (l_id l) = (Inl MethodNotAllowed, d)"
    by (rule attr_retrieve_not_allowed)
next
  show "status_code NotFound = 404" by (simp add: status_code_def)
qed

text \<open>
  Owner 1 against student 3 and tag 3 of owner 2 on the example database, with the partial
  update \<open>upd\<close> that tries to take the student over.
\<close>

theorem C1_owner_isolation_witness:
  "(\<exists>rows. student_list ex_db 1 no_params =
             (Inr (JList (map (to_representation ex_db StudentSerializer) rows)), ex_db) \<and>
           list_all (\<lambda>s. s \<in> set (students ex_db) \<and> s_user s = 1 \<and> s_user s \<noteq> 2) rows) \<and>
   (\<exists>rows. attr_list Tag ex_db 1 no_params = (Inr (JList (map label_repr rows)), ex_db) \<and>
           list_all (\<lambda>l. l \<in> set (attr_rows Tag ex_db) \<and> l_user l = 1 \<and> l_user l \<noteq> 2) rows) \<and>
   student_retrieve ex_db 1 no_params 3 = (Inl NotFound, ex_db) \<and>
   student_update ex_db 1 no_params 3 True
     \<lparr>p_id = None, p_user = Some 1, p_image = None, p_name = Some ''Mine'', p_email = None,
      p_address = None, p_birthday = None, p_link = None, p_tags = Some [], p_courses = None\<rparr> =
     (Inl NotFound, ex_db) \<and>
   student_destroy ex_db 1 no_params 3 = (Inl NotFound, ex_db) \<and>
   upload_image ex_db 1 no_params 3 (Some \<lparr>up_name = ''a.jpg'', up_accepted = True\<rparr>) ''0000'' =
     (Inl NotFound, ex_db) \<and>
   attr_update Tag ex_db 1 no_params 3 True \<lparr>lp_id = None, lp_title = Some ''Mine''\<rparr> =
     (Inl NotFound, ex_db) \<and>
   attr_destroy Tag ex_db 1 no_params 3 = (Inl NotFound, ex_db) \<and>
   attr_retrieve Tag ex_db 1 no_params 3 = (Inl MethodNotAllowed, ex_db)"
proof -
  let ?s = "ex_student 3 2 ''Student3''"
  let ?l = "\<lparr>l_id = 3, l_title = ''Fruity'', l_user = 2\<rparr>"
  have ne: "(1::nat) \<noteq> 2" by simp
  have p: "params_ok no_params" by (simp add: params_ok_def no_params_def)
  have ao: "assigned_only_ok no_params" by (simp add: assigned_only_ok_def no_params_def)
  have hs: "?s \<in> set (students ex_db) \<and> s_user ?s = 2"
    by (simp add: ex_db_def ex_student_def)
  have hl: "?l \<in> set (attr_rows Tag ex_db) \<and> l_user ?l = 2"
    by (simp add: ex_db_def attr_rows_def)
  note t = C1_owner_isolation[OF wf_ex_db ne, of no_params Tag _ _ _ ?s _ _ _ _ ?l]
  note t1 = t[THEN conjunct1, rule_format, OF p]
  note t2 = t[THEN conjunct2, THEN conjunct1, rule_format, OF ao]
  note t4 = t[THEN conjunct2, THEN conjunct2, THEN conjunct2, THEN conjunct1, rule_format, OF hs]
  note t5 = t[THEN conjunct2, THEN conjunct2, THEN conjunct2, THEN conjunct2, THEN conjunct1,
      rule_format, OF hl]
  have i: "s_id ?s = 3" "l_id ?l = 3" by (simp_all add: ex_student_def)
  from t1 t2 t4 t5 show ?thesis
    unfolding i by (simp add: p ao list_all_iff)
qed

section \<open>Label resolution\<close>

lemma matching_append [simp]: "matching u t (xs @ ys) = matching u t xs @ matching u t ys"
  by (simp add: matching_def)

lemma matching_single [simp]:
  "matching u t [l] = (if l_user l = u \<and> l_title l = t then [l] else [])"
  by (simp add: matching_def)

lemma matching_Nil [simp]: "matching u t [] = []"
  by (simp add: matching_def)

lemma set_matching: "set (matching u t rows) = {l \<in> set rows. l_user l = u \<and> l_title l = t}"
  by (auto simp: matching_def)

lemma get_or_create_none:
  "matching u t rows = [] \<Longrightarrow>
   get_or_create u t rows seq =
     (Inr (\<lparr>l_id = seq + 1, l_title = t, l_user = u\<rparr>, True),
      rows @ [\<lparr>l_id = seq + 1, l_title = t, l_user = u\<rparr>], seq + 1)"
  by (simp add: get_or_create_def matching_def Let_def)

lemma get_or_create_one:
  "matching u t rows = [l] \<Longrightarrow> get_or_create u t rows seq = (Inr (l, False), rows, seq)"
  by (simp add: get_or_create_def matching_def)

lemma get_or_create_many:
  "matching u t rows = l # l' # ls \<Longrightarrow>
   get_or_create u t rows seq = (Inl MultipleObjectsReturned, rows, seq)"
  by (simp add: get_or_create_def matching_def)

lemma resolve_none:
  "matching u t rows = [] \<Longrightarrow>
   resolve u (t # ts) sid (rows, seq, joins) =
     resolve u ts sid (rows @ [\<lparr>l_id = seq + 1, l_title = t, l_user = u\<rparr>], seq + 1,
                       m2m_add sid (seq + 1) joins)"
  by (simp add: get_or_create_none)

lemma resolve_one:
  "matching u t rows = [l] \<Longrightarrow>
   resolve u (t # ts) sid (rows, seq, joins) = resolve u ts sid (rows, seq, m2m_add sid (l_id l) joins)"
  by (simp add: get_or_create_one)

lemma resolve_many:
  "matching u t rows = l # l' # ls \<Longrightarrow>
   resolve u (t # ts) sid (rows, seq, joins) = (Inl MultipleObjectsReturned, rows, seq, joins)"
  by (simp add: get_or_create_many)

lemma get_or_create_tags_resolve:
  "get_or_create_tags u ts st d =
     (case resolve u ts (s_id st) (tags d, tag_seq d, student_tags d) of
        (r, rows, seq, joins) \<Rightarrow> (r, d\<lparr>tags := rows, tag_seq := seq, student_tags := joins\<rparr>))"
proof (induction ts arbitrary: d)
  case Nil
  then show ?case by simp
next
  case (Cons t ts)
  show ?case
  proof (cases "get_or_create u t (tags d) (tag_seq d)")
    case (fields r rows seq)
    show ?thesis
    proof (cases r)
      case (Inl e)
      with fields show ?thesis by simp
    next
      case (Inr oc)
      obtain obj created where "oc = (obj, created)" by (cases oc)
      with Inr fields Cons.IH show ?thesis by simp
    qed
  qed
qed

lemma get_or_create_courses_resolve:
  "get_or_create_courses u ts st d =
     (case resolve u ts (s_id st) (courses d, course_seq d, student_courses d) of
        (r, rows, seq, joins) \<Rightarrow> (r, d\<lparr>courses := rows, course_seq := seq, student_courses := joins\<rparr>))"
proof (induction ts arbitrary: d)
  case Nil
  then show ?case by simp
next
  case (Cons t ts)
  show ?case
  proof (cases "get_or_create u t (courses d) (course_seq d)")
    case (fields r rows seq)
    show ?thesis
    proof (cases r)
      case (Inl e)
      with fields show ?thesis by simp
    next
      case (Inr oc)
      obtain obj created where "oc = (obj, created)" by (cases oc)
      with Inr fields Cons.IH show ?thesis by simp
    qed
  qed
qed

lemma matching_cases:
  obtains "matching u t rows = []"
  | l where "matching u t rows = [l]"
  | l l' ls where "matching u t rows = l # l' # ls"
  by (cases "matching u t rows" rule: list.exhaust[case_names Nil Cons])
     (auto, metis list.exhaust)

lemma resolve_induct [case_names Nil none one many]:
  assumes "\<And>rows seq joins. P [] rows seq joins"
    and "\<And>t ts rows seq joins. matching u t rows = [] \<Longrightarrow>
           P ts (rows @ [\<lparr>l_id = seq + 1, l_title = t, l_user = u\<rparr>]) (seq + 1)
             (m2m_add sid (seq + 1) joins) \<Longrightarrow>
           P (t # ts) rows seq joins"
    and "\<And>t ts rows seq joins l. matching u t rows = [l] \<Longrightarrow>
           P ts rows seq (m2m_add sid (l_id l) joins) \<Longrightarrow> P (t # ts) rows seq joins"
    and "\<And>t ts rows seq joins l l' ls. matching u t rows = l # l' # ls \<Longrightarrow>
           P (t # ts) rows seq joins"
  shows "P ts rows seq joins"
proof (induction ts arbitrary: rows seq joins)
  case Nil
  show ?case by (rule assms(1))
next
  case (Cons t ts)
  show ?case
  proof (cases rule: matching_cases[of u t rows])
    case 1
    then show ?thesis by (rule assms(2)) (rule Cons.IH)
  next
    case (2 l)
    then show ?thesis by (rule assms(3)) (rule Cons.IH)
  next
    case (3 l l' ls)
    then show ?thesis by (rule assms(4))
  qed
qed

lemma resolve_ok_iff:
  "(fst (resolve u ts sid (rows, seq, joins)) = Inr ()) =
   (\<forall>t \<in> set ts. length (matching u t rows) \<le> 1)"
proof (induction ts rows seq joins rule: resolve_induct[where u = u and sid = sid])
  case (Nil rows seq joins)
  show ?case by simp
next
  case (none t ts rows seq joins)
  let ?n = "\<lparr>l_id = seq + 1, l_title = t, l_user = u\<rparr>"
  have r: "resolve u (t # ts) sid (rows, seq, joins) =
           resolve u ts sid (rows @ [?n], seq + 1, m2m_add sid (seq + 1) joins)"
    using none(1) by (rule resolve_none)
  have e: "(length (matching u t' (rows @ [?n])) \<le> 1) = (length (matching u t' rows) \<le> 1)" for t'
  proof (cases "t' = t")
    case True
    with none(1) show ?thesis by simp
  next
    case False
    then show ?thesis by simp
  qed
  have "length (matching u t rows) \<le> 1" using none(1) by simp
  then show ?case unfolding r none(2) e by simp
next
  case (one t ts rows seq joins l)
  have r: "resolve u (t # ts) sid (rows, seq, joins) =
           resolve u ts sid (rows, seq, m2m_add sid (l_id l) joins)"
    using one(1) by (rule resolve_one)
  have "length (matching u t rows) \<le> 1" using one(1) by simp
  then show ?case unfolding r one(2) by simp
next
  case (many t ts rows seq joins l l' ls)
  have r: "resolve u (t # ts) sid (rows, seq, joins) = (Inl MultipleObjectsReturned, rows, seq, joins)"
    using many(1) by (rule resolve_many)
  have "\<not> length (matching u t rows) \<le> 1" using many(1) by simp
  then show ?case unfolding r by simp
qed

lemma resolve_error:
  "fst (resolve u ts sid (rows, seq, joins)) = Inl e \<Longrightarrow> e = MultipleObjectsReturned"
proof (induction ts rows seq joins rule: resolve_induct[where u = u and sid = sid])
  case (Nil rows seq joins)
  then show ?case by simp
next
  case (none t ts rows seq joins)
  from none(3) have "fst (resolve u ts sid (rows @ [\<lparr>l_id = seq + 1, l_title = t, l_user = u\<rparr>],
      seq + 1, m2m_add sid (seq + 1) joins)) = Inl e"
    unfolding resolve_none[OF none(1)] .
  then show ?case by (rule none(2))
next
  case (one t ts rows seq joins l)
  from one(3) have "fst (resolve u ts sid (rows, seq, m2m_add sid (l_id l) joins)) = Inl e"
    unfolding resolve_one[OF one(1)] .
  then show ?case by (rule one(2))
next
  case (many t ts rows seq joins l l' ls)
  from many(2) show ?case unfolding resolve_many[OF many(1)] by simp
qed

lemma resolve_keeps_matching:
  "matching u t' rows \<noteq> [] \<Longrightarrow>
   matching u t' (fst (snd (resolve u ts sid (rows, seq, joins)))) = matching u t' rows"
proof (induction ts rows seq joins rule: resolve_induct[where u = u and sid = sid])
  case (Nil rows seq joins)
  show ?case by simp
next
  case (none t ts rows seq joins)
  let ?n = "\<lparr>l_id = seq + 1, l_title = t, l_user = u\<rparr>"
  from none(1,3) have "t' \<noteq> t" by auto
  then have m: "matching u t' (rows @ [?n]) = matching u t' rows" by simp
  with none(3) have "matching u t' (rows @ [?n]) \<noteq> []" by simp
  then have "matching u t' (fst (snd (resolve u ts sid (rows @ [?n], seq + 1, m2m_add sid (seq + 1) joins)))) =
             matching u t' (rows @ [?n])"
    by (rule none(2))
  then show ?case unfolding resolve_none[OF none(1)] m .
next
  case (one t ts rows seq joins l)
  from one(3) have "matching u t' (fst (snd (resolve u ts sid (rows, seq, m2m_add sid (l_id l) joins)))) =
             matching u t' rows"
    by (rule one(2))
  then show ?case unfolding resolve_one[OF one(1)] .
next
  case (many t ts rows seq joins l l' ls)
  show ?case unfolding resolve_many[OF many(1)] by simp
qed


lemma resolve_rows_ok:
  "fst (resolve u ts sid (rows, seq, joins)) = Inr () \<Longrightarrow>
   \<exists>new. fst (snd (resolve u ts sid (rows, seq, joins))) = rows @ new \<and>
         distinct (map l_title new) \<and>
         set (map l_title new) = {t \<in> set ts. matching u t rows = []} \<and>
         (\<forall>l \<in> set new. l_user l = u)"
proof (induction ts rows seq joins rule: resolve_induct[where u = u and sid = sid])
  case (Nil rows seq joins)
  show ?case by simp
next
  case (none t ts rows seq joins)
  let ?n = "\<lparr>l_id = seq + 1, l_title = t, l_user = u\<rparr>"
  let ?R = "resolve u ts sid (rows @ [?n], seq + 1, m2m_add sid (seq + 1) joins)"
  from none(3) have "fst ?R = Inr ()" unfolding resolve_none[OF none(1)] .
  from none(2)[OF this] obtain new where
    n: "fst (snd ?R) = (rows @ [?n]) @ new"
    and dn: "distinct (map l_title new)"
    and sn: "set (map l_title new) = {t' \<in> set ts. matching u t' (rows @ [?n]) = []}"
    and un: "\<forall>l \<in> set new. l_user l = u"
    by blast
  have m: "(matching u t' (rows @ [?n]) = []) = (matching u t' rows = [] \<and> t' \<noteq> t)" for t'
    by simp
  have a: "fst (snd (resolve u (t # ts) sid (rows, seq, joins))) = rows @ (?n # new)"
    unfolding resolve_none[OF none(1)] n by simp
  from sn have tn: "t \<notin> set (map l_title new)" unfolding m by simp
  with dn have b: "distinct (map l_title (?n # new))" by simp
  from sn none(1) have c: "set (map l_title (?n # new)) = {t' \<in> set (t # ts). matching u t' rows = []}"
    unfolding m by auto
  from un have "\<forall>l \<in> set (?n # new). l_user l = u" by simp
  with a b c show ?case by blast
next
  case (one t ts rows seq joins l)
  let ?R = "resolve u ts sid (rows, seq, m2m_add sid (l_id l) joins)"
  from one(3) have "fst ?R = Inr ()" unfolding resolve_one[OF one(1)] .
  from one(2)[OF this] obtain new where
    n: "fst (snd ?R) = rows @ new"
    and dn: "distinct (map l_title new)"
    and sn: "set (map l_title new) = {t' \<in> set ts. matching u t' rows = []}"
    and un: "\<forall>l \<in> set new. l_user l = u"
    by blast
  have a: "fst (snd (resolve u (t # ts) sid (rows, seq, joins))) = rows @ new"
    unfolding resolve_one[OF one(1)] n by simp
  from one(1) have "{t' \<in> set (t # ts). matching u t' rows = []} = {t' \<in> set ts. matching u t' rows = []}"
    by auto
  with sn have "set (map l_title new) = {t' \<in> set (t # ts). matching u t' rows = []}" by simp
  with a dn un show ?case by blast
next
  case (many t ts rows seq joins l l' ls)
  from many(2) show ?case unfolding resolve_many[OF many(1)] by simp
qed

lemma set_m2m_add [simp]: "set (m2m_add sid lid joins) = insert (sid, lid) (set joins)"
  by (auto simp: m2m_add_def)

lemma distinct_m2m_add [simp]: "distinct (m2m_add sid lid joins) = distinct joins"
  by (simp add: m2m_add_def)

lemma set_m2m_clear [simp]: "set (m2m_clear sid joins) = {(s, l). (s, l) \<in> set joins \<and> s \<noteq> sid}"
  by (auto simp: m2m_clear_def)

lemma distinct_m2m_clear [simp]: "distinct joins \<Longrightarrow> distinct (m2m_clear sid joins)"
  by (simp add: m2m_clear_def)

text \<open>The join rows after a resolution that succeeded.\<close>

lemma resolve_joins_ok:
  "fst (resolve u ts sid (rows, seq, joins)) = Inr () \<Longrightarrow>
   set (snd (snd (snd (resolve u ts sid (rows, seq, joins))))) =
     set joins \<union>
     (\<lambda>l. (sid, l_id l)) ` {l \<in> set (fst (snd (resolve u ts sid (rows, seq, joins)))).
                              l_user l = u \<and> l_title l \<in> set ts}"
proof (induction ts rows seq joins rule: resolve_induct[where u = u and sid = sid])
  case (Nil rows seq joins)
  show ?case by simp
next
  case (none t ts rows seq joins)
  let ?n = "\<lparr>l_id = seq + 1, l_title = t, l_user = u\<rparr>"
  let ?R = "resolve u ts sid (rows @ [?n], seq + 1, m2m_add sid (seq + 1) joins)"
  let ?S = "set (fst (snd ?R))"
  from none(3) have ok: "fst ?R = Inr ()" unfolding resolve_none[OF none(1)] .
  from none(1) have m: "matching u t (rows @ [?n]) = [?n]" by simp
  then have "matching u t (rows @ [?n]) \<noteq> []" by simp
  then have "matching u t (fst (snd ?R)) = matching u t (rows @ [?n])"
    by (rule resolve_keeps_matching)
  with m have "set (matching u t (fst (snd ?R))) = {?n}" by simp
  then have k: "{l \<in> ?S. l_user l = u \<and> l_title l = t} = {?n}"
    by (simp only: set_matching)
  have sp: "{l \<in> ?S. l_user l = u \<and> l_title l \<in> set (t # ts)} =
        {l \<in> ?S. l_user l = u \<and> l_title l = t} \<union> {l \<in> ?S. l_user l = u \<and> l_title l \<in> set ts}"
    by auto
  have "set (snd (snd (snd ?R))) =
        insert (sid, seq + 1) (set joins) \<union> (\<lambda>l. (sid, l_id l)) ` {l \<in> ?S. l_user l = u \<and> l_title l \<in> set ts}"
    using none(2)[OF ok] by simp
  also have "\<dots> = set joins \<union> (\<lambda>l. (sid, l_id l)) ` {l \<in> ?S. l_user l = u \<and> l_title l \<in> set (t # ts)}"
    unfolding sp k image_Un by simp
  finally show ?case unfolding resolve_none[OF none(1)] .
next
  case (one t ts rows seq joins l)
  let ?R = "resolve u ts sid (rows, seq, m2m_add sid (l_id l) joins)"
  let ?S = "set (fst (snd ?R))"
  from one(3) have ok: "fst ?R = Inr ()" unfolding resolve_one[OF one(1)] .
  from one(1) have "matching u t rows \<noteq> []" by simp
  then have "matching u t (fst (snd ?R)) = matching u t rows"
    by (rule resolve_keeps_matching)
  with one(1) have "set (matching u t (fst (snd ?R))) = {l}" by simp
  then have k: "{l' \<in> ?S. l_user l' = u \<and> l_title l' = t} = {l}"
    by (simp only: set_matching)
  have sp: "{l \<in> ?S. l_user l = u \<and> l_title l \<in> set (t # ts)} =
        {l \<in> ?S. l_user l = u \<and> l_title l = t} \<union> {l \<in> ?S. l_user l = u \<and> l_title l \<in> set ts}"
    by auto
  have "set (snd (snd (snd ?R))) =
        insert (sid, l_id l) (set joins) \<union> (\<lambda>l. (sid, l_id l)) ` {l \<in> ?S. l_user l = u \<and> l_title l \<in> set ts}"
    using one(2)[OF ok] by simp
  also have "\<dots> = set joins \<union> (\<lambda>l. (sid, l_id l)) ` {l \<in> ?S. l_user l = u \<and> l_title l \<in> set (t # ts)}"
    unfolding sp k image_Un by simp
  finally show ?case unfolding resolve_one[OF one(1)] .
next
  case (many t ts rows seq joins l l' ls)
  from many(2) show ?case unfolding resolve_many[OF many(1)] by simp
qed


lemma wf_db_tables:
  "wf_db d =
     (distinct (map s_id (students d)) \<and> list_all (\<lambda>s. s_id s \<le> student_seq d) (students d) \<and>
      table_ok (map s_id (students d)) (tags d, tag_seq d, student_tags d) \<and>
      table_ok (map s_id (students d)) (courses d, course_seq d, student_courses d))"
  unfolding wf_db_def table_ok_def by (simp only: prod.case) blast

lemma table_ok_create:
  assumes "table_ok sids (rows, seq, joins)" and "sid \<in> set sids"
  shows "table_ok sids (rows @ [\<lparr>l_id = seq + 1, l_title = t, l_user = u\<rparr>], seq + 1,
                        m2m_add sid (seq + 1) joins)"
proof -
  from assms(1) have d: "distinct (map l_id rows)" and b: "\<forall>l \<in> set rows. l_id l \<le> seq"
    and dj: "distinct joins"
    and fk: "\<forall>(s, i) \<in> set joins. s \<in> set sids \<and> i \<in> l_id ` set rows"
    by (simp_all add: table_ok_def list_all_iff)
  from b have "seq + 1 \<notin> l_id ` set rows" by force
  with d have 1: "distinct (map l_id (rows @ [\<lparr>l_id = seq + 1, l_title = t, l_user = u\<rparr>]))" by simp
  from b have 2: "\<forall>l \<in> set (rows @ [\<lparr>l_id = seq + 1, l_title = t, l_user = u\<rparr>]). l_id l \<le> seq + 1"
    by force
  from dj have 3: "distinct (m2m_add sid (seq + 1) joins)" by simp
  from fk assms(2) have 4: "\<forall>(s, i) \<in> set (m2m_add sid (seq + 1) joins).
      s \<in> set sids \<and> i \<in> l_id ` set (rows @ [\<lparr>l_id = seq + 1, l_title = t, l_user = u\<rparr>])"
    by auto
  from 1 2 3 4 show ?thesis by (simp add: table_ok_def list_all_iff)
qed

lemma table_ok_attach:
  assumes "table_ok sids (rows, seq, joins)" and "sid \<in> set sids" and "l \<in> set rows"
  shows "table_ok sids (rows, seq, m2m_add sid (l_id l) joins)"
  using assms by (auto simp: table_ok_def list_all_iff)

lemma resolve_table_ok:
  "table_ok sids (rows, seq, joins) \<Longrightarrow> sid \<in> set sids \<Longrightarrow>
   table_ok sids (snd (resolve u ts sid (rows, seq, joins)))"
proof (induction ts rows seq joins rule: resolve_induct[where u = u and sid = sid])
  case (Nil rows seq joins)
  then show ?case by simp
next
  case (none t ts rows seq joins)
  from none(3,4) have "table_ok sids (rows @ [\<lparr>l_id = seq + 1, l_title = t, l_user = u\<rparr>], seq + 1,
                        m2m_add sid (seq + 1) joins)"
    by (rule table_ok_create)
  from none(2)[OF this none(4)] show ?case unfolding resolve_none[OF none(1)] .
next
  case (one t ts rows seq joins l)
  from one(1) have "l \<in> set (matching u t rows)" by simp
  then have "l \<in> set rows" by (simp add: set_matching)
  with one(3,4) have "table_ok sids (rows, seq, m2m_add sid (l_id l) joins)"
    by (rule table_ok_attach)
  from one(2)[OF this one(4)] show ?case unfolding resolve_one[OF one(1)] .
next
  case (many t ts rows seq joins l l' ls)
  then show ?case unfolding resolve_many[OF many(1)] by simp
qed

lemma matching_unique_title:
  "distinct (map l_title new) \<Longrightarrow> \<forall>l \<in> set new. l_user l = u \<Longrightarrow> t \<in> set (map l_title new) \<Longrightarrow>
   \<exists>l. matching u t new = [l]"
proof (induction new)
  case Nil
  then show ?case by simp
next
  case (Cons a new)
  show ?case
  proof (cases "l_title a = t")
    case True
    with Cons.prems(1) have "t \<notin> l_title ` set new" by auto
    then have "\<forall>l \<in> set new. l_title l \<noteq> t" by (metis imageI)
    then have "matching u t new = []" by (simp add: matching_def filter_empty_conv)
    with True Cons.prems(2) have "matching u t (a # new) = [a]" by (simp add: matching_def)
    then show ?thesis by blast
  next
    case False
    with Cons.prems have "\<exists>l. matching u t new = [l]" by (intro Cons.IH) auto
    with False show ?thesis by (simp add: matching_def)
  qed
qed

text \<open>Every title is resolved to the one label of the owner that has it.\<close>

lemma resolve_each_ok:
  assumes ok: "fst (resolve u ts sid (rows, seq, joins)) = Inr ()" and t: "t \<in> set ts"
  shows "\<exists>l. matching u t (fst (snd (resolve u ts sid (rows, seq, joins)))) = [l] \<and>
             (sid, l_id l) \<in> set (snd (snd (snd (resolve u ts sid (rows, seq, joins))))) \<and>
             (matching u t rows \<noteq> [] \<longrightarrow> matching u t rows = [l])"
proof -
  let ?R = "resolve u ts sid (rows, seq, joins)"
  from resolve_rows_ok[OF ok] obtain new where
    n: "fst (snd ?R) = rows @ new" and dn: "distinct (map l_title new)"
    and sn: "set (map l_title new) = {t \<in> set ts. matching u t rows = []}"
    and un: "\<forall>l \<in> set new. l_user l = u"
    by blast
  have "\<exists>l. matching u t (fst (snd ?R)) = [l] \<and> (matching u t rows \<noteq> [] \<longrightarrow> matching u t rows = [l])"
  proof (cases "matching u t rows = []")
    case True
    with t sn have "t \<in> set (map l_title new)" by simp
    with dn un have "\<exists>l. matching u t new = [l]" by (intro matching_unique_title)
    with True n show ?thesis by simp
  next
    case False
    then have k: "matching u t (fst (snd ?R)) = matching u t rows" by (rule resolve_keeps_matching)
    from ok t have "length (matching u t rows) \<le> 1" by (simp add: resolve_ok_iff)
    with False obtain l where "matching u t rows = [l]"
      by (cases "matching u t rows" rule: list.exhaust) (auto simp: Suc_le_eq)
    with k show ?thesis by simp
  qed
  then obtain l where m: "matching u t (fst (snd ?R)) = [l]"
    and e: "matching u t rows \<noteq> [] \<longrightarrow> matching u t rows = [l]" by blast
  from m have "l \<in> set (matching u t (fst (snd ?R)))" by simp
  then have "l \<in> set (fst (snd ?R)) \<and> l_user l = u \<and> l_title l = t" by (simp add: set_matching)
  with t have "l \<in> {l \<in> set (fst (snd ?R)). l_user l = u \<and> l_title l \<in> set ts}" by simp
  then have "(sid, l_id l) \<in> set (snd (snd (snd ?R)))"
    unfolding resolve_joins_ok[OF ok] by blast
  with m e show ?thesis by blast
qed

text \<open>The two loops of the serializer in terms of \<open>resolve\<close>.\<close>

lemma get_or_create_tags_fields:
  assumes "get_or_create_tags u ts st d = (r, d')"
  shows "r = fst (resolve u ts (s_id st) (tags d, tag_seq d, student_tags d))"
    and "tags d' = fst (snd (resolve u ts (s_id st) (tags d, tag_seq d, student_tags d)))"
    and "student_tags d' = snd (snd (snd (resolve u ts (s_id st) (tags d, tag_seq d, student_tags d))))"
    and "(tags d', tag_seq d', student_tags d') = snd (resolve u ts (s_id st) (tags d, tag_seq d, student_tags d))"
    and "students d' = students d" and "student_seq d' = student_seq d"
    and "courses d' = courses d" and "course_seq d' = course_seq d"
    and "student_courses d' = student_courses d"
  using assms unfolding get_or_create_tags_resolve
  by (auto split: prod.splits)

lemma get_or_create_courses_fields:
  assumes "get_or_create_courses u ts st d = (r, d')"
  shows "r = fst (resolve u ts (s_id st) (courses d, course_seq d, student_courses d))"
    and "courses d' = fst (snd (resolve u ts (s_id st) (courses d, course_seq d, student_courses d)))"
    and "student_courses d' =
           snd (snd (snd (resolve u ts (s_id st) (courses d, course_seq d, student_courses d))))"
    and "(courses d', course_seq d', student_courses d') =
           snd (resolve u ts (s_id st) (courses d, course_seq d, student_courses d))"
    and "students d' = students d" and "student_seq d' = student_seq d"
    and "tags d' = tags d" and "tag_seq d' = tag_seq d"
    and "student_tags d' = student_tags d"
  using assms unfolding get_or_create_courses_resolve
  by (auto split: prod.splits)

lemma resolve_spec:
  fixes u ts sid rows seq joins
  defines "R \<equiv> resolve u ts sid (rows, seq, joins)"
  shows "((fst R = Inr ()) = (\<forall>t \<in> set ts. length (matching u t rows) \<le> 1)) \<and>
     (fst R \<noteq> Inr () \<longrightarrow> fst R = Inl MultipleObjectsReturned) \<and>
     (fst R = Inr () \<longrightarrow>
        (\<exists>new. fst (snd R) = rows @ new \<and> distinct (map l_title new) \<and>
               set (map l_title new) = {t \<in> set ts. matching u t rows = []} \<and>
               (\<forall>l \<in> set new. l_user l = u)) \<and>
        (\<forall>t \<in> set ts. \<exists>l. matching u t (fst (snd R)) = [l] \<and>
               (sid, l_id l) \<in> set (snd (snd (snd R))) \<and>
               (matching u t rows \<noteq> [] \<longrightarrow> matching u t rows = [l])) \<and>
        set (snd (snd (snd R))) =
          set joins \<union> (\<lambda>l. (sid, l_id l)) ` {l \<in> set (fst (snd R)). l_user l = u \<and> l_title l \<in> set ts})"
proof (intro conjI impI ballI)
  show "(fst R = Inr ()) = (\<forall>t \<in> set ts. length (matching u t rows) \<le> 1)"
    unfolding R_def by (rule resolve_ok_iff)
next
  assume "fst R \<noteq> Inr ()"
  then obtain e where "fst R = Inl e" by (cases "fst R") auto
  moreover from this have "e = MultipleObjectsReturned" unfolding R_def by (rule resolve_error)
  ultimately show "fst R = Inl MultipleObjectsReturned" by simp
next
  assume "fst R = Inr ()"
  then show "\<exists>new. fst (snd R) = rows @ new \<and> distinct (map l_title new) \<and>
               set (map l_title new) = {t \<in> set ts. matching u t rows = []} \<and>
               (\<forall>l \<in> set new. l_user l = u)"
    unfolding R_def by (rule resolve_rows_ok)
next
  fix t assume "fst R = Inr ()" "t \<in> set ts"
  then show "\<exists>l. matching u t (fst (snd R)) = [l] \<and>
               (sid, l_id l) \<in> set (snd (snd (snd R))) \<and>
               (matching u t rows \<noteq> [] \<longrightarrow> matching u t rows = [l])"
    unfolding R_def by (rule resolve_each_ok)
next
  assume "fst R = Inr ()"
  then show "set (snd (snd (snd R))) =
          set joins \<union> (\<lambda>l. (sid, l_id l)) ` {l \<in> set (fst (snd R)). l_user l = u \<and> l_title l \<in> set ts}"
    unfolding R_def by (rule resolve_joins_ok)
qed

lemma no_labels_matching:
  "filter (\<lambda>l. l_user l = u) rows = [] \<Longrightarrow> matching u t rows = []"
  by (auto simp: matching_def filter_empty_conv)

lemma resolve_thai_dinner:
  assumes "filter (\<lambda>l. l_user l = u) rows = []"
  shows "resolve u [''Thai'', ''Dinner''] sid (rows, seq, joins) =
           (Inr (), rows @ [\<lparr>l_id = seq + 1, l_title = ''Thai'', l_user = u\<rparr>,
                            \<lparr>l_id = seq + 2, l_title = ''Dinner'', l_user = u\<rparr>], seq + 2,
            m2m_add sid (seq + 2) (m2m_add sid (seq + 1) joins))"
proof -
  let ?l1 = "\<lparr>l_id = seq + 1, l_title = ''Thai'', l_user = u\<rparr>"
  from assms have a: "matching u ''Thai'' rows = []" by (rule no_labels_matching)
  from assms have "matching u ''Dinner'' rows = []" by (rule no_labels_matching)
  then have b: "matching u ''Dinner'' (rows @ [?l1]) = []" by simp
  have c: "seq + 1 + 1 = seq + 2" by simp
  show ?thesis
    unfolding resolve_none[OF a] resolve_none[OF b] c by simp
qed

lemma resolve_thai_again:
  assumes "filter (\<lambda>l. l_user l = u) rows = []"
  shows "resolve u [''Thai''] sid'
           (rows @ [\<lparr>l_id = i, l_title = ''Thai'', l_user = u\<rparr>,
                    \<lparr>l_id = j, l_title = ''Dinner'', l_user = u\<rparr>], seq', joins') =
           (Inr (), rows @ [\<lparr>l_id = i, l_title = ''Thai'', l_user = u\<rparr>,
                            \<lparr>l_id = j, l_title = ''Dinner'', l_user = u\<rparr>], seq',
            m2m_add sid' i joins')"
proof -
  from assms have "matching u ''Thai'' rows = []" by (rule no_labels_matching)
  then have a: "matching u ''Thai'' (rows @ [\<lparr>l_id = i, l_title = ''Thai'', l_user = u\<rparr>,
                    \<lparr>l_id = j, l_title = ''Dinner'', l_user = u\<rparr>]) =
                [\<lparr>l_id = i, l_title = ''Thai'', l_user = u\<rparr>]"
    by (simp add: matching_def)
  show ?thesis unfolding resolve_one[OF a] by simp
qed

section \<open>Get-or-create of labels\<close>

text \<open>
  Claim C2, as stated, fails: \<^verbatim>\<open>get_or_create\<close> raises MultipleObjectsReturned when the
  owner has two labels of the title asked for, and nothing keeps titles unique. Here the
  API itself made the two tags titled Thai of owner 1 (a student created with the tags
  Thai and Dinner, the second tag then renamed); resolving Thai now reuses neither, and
  creating a student with that tag fails.
\<close>

theorem C2_counterexample:
  "tags dup_db = [\<lparr>l_id = 1, l_title = ''Thai'', l_user = 1\<rparr>,
                  \<lparr>l_id = 2, l_title = ''Thai'', l_user = 1\<rparr>] \<and>
   get_or_create_tags 1 [''Thai''] (ex_student 1 1 ''New student name'') dup_db =
     (Inl MultipleObjectsReturned, dup_db) \<and>
   fst (student_create dup_db 1 (ex_payload (Some [''Thai'']))) = Inl MultipleObjectsReturned"
  by code_simp

text \<open>
  Claim C2, amended. Label resolution is get-or-create per owner and title, for tags and
  for courses alike. It succeeds exactly when no title of the list matches more than one
  existing label of the owner, and otherwise fails with MultipleObjectsReturned. When it
  succeeds: the table grows by exactly one new label, owned by the owner, for each distinct
  title that matched no label; every title of the list then has exactly one label of the
  owner, which is attached to the student and is the existing label whenever one
  matched; and the student's join rows grow by exactly the labels of the listed titles.
  In particular, for an owner without tags, resolving Thai and Dinner creates exactly two
  tags and attaches both, and resolving Thai again attaches the first and creates none.
\<close>

theorem C2_get_or_create_labels:
  "(get_or_create_tags u ts st d = (r, d') \<longrightarrow>
      ((r = Inr ()) = (\<forall>t \<in> set ts. length (matching u t (tags d)) \<le> 1)) \<and>
      (r \<noteq> Inr () \<longrightarrow> r = Inl MultipleObjectsReturned) \<and>
      (r = Inr () \<longrightarrow>
         (\<exists>new. tags d' = tags d @ new \<and> distinct (map l_title new) \<and>
                set (map l_title new) = {t \<in> set ts. matching u t (tags d) = []} \<and>
                (\<forall>l \<in> set new. l_user l = u)) \<and>
         (\<forall>t \<in> set ts. \<exists>l. matching u t (tags d') = [l] \<and>
                (s_id st, l_id l) \<in> set (student_tags d') \<and>
                (matching u t (tags d) \<noteq> [] \<longrightarrow> matching u t (tags d) = [l])) \<and>
         set (student_tags d') =
           set (student_tags d) \<union>
           (\<lambda>l. (s_id st, l_id l)) ` {l \<in> set (tags d'). l_user l = u \<and> l_title l \<in> set ts})) \<and>
   (get_or_create_courses u ts st d = (r, d') \<longrightarrow>
      ((r = Inr ()) = (\<forall>t \<in> set ts. length (matching u t (courses d)) \<le> 1)) \<and>
      (r \<noteq> Inr () \<longrightarrow> r = Inl MultipleObjectsReturned) \<and>
      (r = Inr () \<longrightarrow>
         (\<exists>new. courses d' = courses d @ new \<and> distinct (map l_title new) \<and>
                set (map l_title new) = {t \<in> set ts. matching u t (courses d) = []} \<and>
                (\<forall>l \<in> set new. l_user l = u)) \<and>
         (\<forall>t \<in> set ts. \<exists>l. matching u t (courses d') = [l] \<and>
                (s_id st, l_id l) \<in> set (student_courses d') \<and>
                (matching u t (courses d) \<noteq> [] \<longrightarrow> matching u t (courses d) = [l])) \<and>
         set (student_courses d') =
           set (student_courses d) \<union>
           (\<lambda>l. (s_id st, l_id l)) ` {l \<in> set (courses d'). l_user l = u \<and> l_title l \<in> set ts})) \<and>
   (filter (\<lambda>l. l_user l = u) (tags d) = [] \<longrightarrow>
      (\<exists>d1 l1 l2.
         get_or_create_tags u [''Thai'', ''Dinner''] st d = (Inr (), d1) \<and>
         tags d1 = tags d @ [l1, l2] \<and>
         l1 = \<lparr>l_id = tag_seq d + 1, l_title = ''Thai'', l_user = u\<rparr> \<and>
         l2 = \<lparr>l_id = tag_seq d + 2, l_title = ''Dinner'', l_user = u\<rparr> \<and>
         (s_id st, l_id l1) \<in> set (student_tags d1) \<and>
         (s_id st, l_id l2) \<in> set (student_tags d1) \<and>
         (\<exists>d2. get_or_create_tags u [''Thai''] st' d1 = (Inr (), d2) \<and>
               tags d2 = tags d1 \<and> (s_id st', l_id l1) \<in> set (student_tags d2))))"
proof (intro conjI)
  show "get_or_create_tags u ts st d = (r, d') \<longrightarrow>
      ((r = Inr ()) = (\<forall>t \<in> set ts. length (matching u t (tags d)) \<le> 1)) \<and>
      (r \<noteq> Inr () \<longrightarrow> r = Inl MultipleObjectsReturned) \<and>
      (r = Inr () \<longrightarrow>
         (\<exists>new. tags d' = tags d @ new \<and> distinct (map l_title new) \<and>
                set (map l_title new) = {t \<in> set ts. matching u t (tags d) = []} \<and>
                (\<forall>l \<in> set new. l_user l = u)) \<and>
         (\<forall>t \<in> set ts. \<exists>l. matching u t (tags d') = [l] \<and>
                (s_id st, l_id l) \<in> set (student_tags d') \<and>
                (matching u t (tags d) \<noteq> [] \<longrightarrow> matching u t (tags d) = [l])) \<and>
         set (student_tags d') =
           set (student_tags d) \<union>
           (\<lambda>l. (s_id st, l_id l)) ` {l \<in> set (tags d'). l_user l = u \<and> l_title l \<in> set ts})"
  proof
    assume a: "get_or_create_tags u ts st d = (r, d')"
    note f = get_or_create_tags_fields(1-3)[OF a]
    show "((r = Inr ()) = (\<forall>t \<in> set ts. length (matching u t (tags d)) \<le> 1)) \<and>
      (r \<noteq> Inr () \<longrightarrow> r = Inl MultipleObjectsReturned) \<and>
      (r = Inr () \<longrightarrow>
         (\<exists>new. tags d' = tags d @ new \<and> distinct (map l_title new) \<and>
                set (map l_title new) = {t \<in> set ts. matching u t (tags d) = []} \<and>
                (\<forall>l \<in> set new. l_user l = u)) \<and>
         (\<forall>t \<in> set ts. \<exists>l. matching u t (tags d') = [l] \<and>
                (s_id st, l_id l) \<in> set (student_tags d') \<and>
                (matching u t (tags d) \<noteq> [] \<longrightarrow> matching u t (tags d) = [l])) \<and>
         set (student_tags d') =
           set (student_tags d) \<union>
           (\<lambda>l. (s_id st, l_id l)) ` {l \<in> set (tags d'). l_user l = u \<and> l_title l \<in> set ts})"
      unfolding f by (rule resolve_spec)
  qed
next
  show "get_or_create_courses u ts st d = (r, d') \<longrightarrow>
      ((r = Inr ()) = (\<forall>t \<in> set ts. length (matching u t (courses d)) \<le> 1)) \<and>
      (r \<noteq> Inr () \<longrightarrow> r = Inl MultipleObjectsReturned) \<and>
      (r = Inr () \<longrightarrow>
         (\<exists>new. courses d' = courses d @ new \<and> distinct (map l_title new) \<and>
                set (map l_title new) = {t \<in> set ts. matching u t (courses d) = []} \<and>
                (\<forall>l \<in> set new. l_user l = u)) \<and>
         (\<forall>t \<in> set ts. \<exists>l. matching u t (courses d') = [l] \<and>
                (s_id st, l_id l) \<in> set (student_courses d') \<and>
                (matching u t (courses d) \<noteq> [] \<longrightarrow> matching u t (courses d) = [l])) \<and>
         set (student_courses d') =
           set (student_courses d) \<union>
           (\<lambda>l. (s_id st, l_id l)) ` {l \<in> set (courses d'). l_user l = u \<and> l_title l \<in> set ts})"
  proof
    assume a: "get_or_create_courses u ts st d = (r, d')"
    note f = get_or_create_courses_fields(1-3)[OF a]
    show "((r = Inr ()) = (\<forall>t \<in> set ts. length (matching u t (courses d)) \<le> 1)) \<and>
      (r \<noteq> Inr () \<longrightarrow> r = Inl MultipleObjectsReturned) \<and>
      (r = Inr () \<longrightarrow>
         (\<exists>new. courses d' = courses d @ new \<and> distinct (map l_title new) \<and>
                set (map l_title new) = {t \<in> set ts. matching u t (courses d) = []} \<and>
                (\<forall>l \<in> set new. l_user l = u)) \<and>
         (\<forall>t \<in> set ts. \<exists>l. matching u t (courses d') = [l] \<and>
                (s_id st, l_id l) \<in> set (student_courses d') \<and>
                (matching u t (courses d) \<noteq> [] \<longrightarrow> matching u t (courses d) = [l])) \<and>
         set (student_courses d') =
           set (student_courses d) \<union>
           (\<lambda>l. (s_id st, l_id l)) ` {l \<in> set (courses d'). l_user l = u \<and> l_title l \<in> set ts})"
      unfolding f by (rule resolve_spec)
  qed
next
  show "filter (\<lambda>l. l_user l = u) (tags d) = [] \<longrightarrow>
      (\<exists>d1 l1 l2.
         get_or_create_tags u [''Thai'', ''Dinner''] st d = (Inr (), d1) \<and>
         tags d1 = tags d @ [l1, l2] \<and>
         l1 = \<lparr>l_id = tag_seq d + 1, l_title = ''Thai'', l_user = u\<rparr> \<and>
         l2 = \<lparr>l_id = tag_seq d + 2, l_title = ''Dinner'', l_user = u\<rparr> \<and>
         (s_id st, l_id l1) \<in> set (student_tags d1) \<and>
         (s_id st, l_id l2) \<in> set (student_tags d1) \<and>
         (\<exists>d2. get_or_create_tags u [''Thai''] st' d1 = (Inr (), d2) \<and>
               tags d2 = tags d1 \<and> (s_id st', l_id l1) \<in> set (student_tags d2)))"
  proof
    assume n: "filter (\<lambda>l. l_user l = u) (tags d) = []"
    let ?l1 = "\<lparr>l_id = tag_seq d + 1, l_title = ''Thai'', l_user = u\<rparr>"
    let ?l2 = "\<lparr>l_id = tag_seq d + 2, l_title = ''Dinner'', l_user = u\<rparr>"
    let ?j1 = "m2m_add (s_id st) (tag_seq d + 2) (m2m_add (s_id st) (tag_seq d + 1) (student_tags d))"
    let ?d1 = "d\<lparr>tags := tags d @ [?l1, ?l2], tag_seq := tag_seq d + 2, student_tags := ?j1\<rparr>"
    let ?d2 = "?d1\<lparr>student_tags := m2m_add (s_id st') (tag_seq d + 1) ?j1\<rparr>"
    have 1: "get_or_create_tags u [''Thai'', ''Dinner''] st d = (Inr (), ?d1)"
      unfolding get_or_create_tags_resolve resolve_thai_dinner[OF n] by simp
    have 2: "get_or_create_tags u [''Thai''] st' ?d1 = (Inr (), ?d2)"
      unfolding get_or_create_tags_resolve using resolve_thai_again[OF n] by simp
    have 3: "tags ?d1 = tags d @ [?l1, ?l2]" by simp
    have 4: "(s_id st, l_id ?l1) \<in> set (student_tags ?d1)" "(s_id st, l_id ?l2) \<in> set (student_tags ?d1)"
      by simp_all
    have 5: "tags ?d2 = tags ?d1" "(s_id st', l_id ?l1) \<in> set (student_tags ?d2)"
      by simp_all
    from 2 5 have 6: "\<exists>d2. get_or_create_tags u [''Thai''] st' ?d1 = (Inr (), d2) \<and>
               tags d2 = tags ?d1 \<and> (s_id st', l_id ?l1) \<in> set (student_tags d2)"
      by blast
    from 1 3 4 6 show "\<exists>d1 l1 l2.
         get_or_create_tags u [''Thai'', ''Dinner''] st d = (Inr (), d1) \<and>
         tags d1 = tags d @ [l1, l2] \<and>
         l1 = \<lparr>l_id = tag_seq d + 1, l_title = ''Thai'', l_user = u\<rparr> \<and>
         l2 = \<lparr>l_id = tag_seq d + 2, l_title = ''Dinner'', l_user = u\<rparr> \<and>
         (s_id st, l_id l1) \<in> set (student_tags d1) \<and>
         (s_id st, l_id l2) \<in> set (student_tags d1) \<and>
         (\<exists>d2. get_or_create_tags u [''Thai''] st' d1 = (Inr (), d2) \<and>
               tags d2 = tags d1 \<and> (s_id st', l_id l1) \<in> set (student_tags d2))"
      by blast
  qed
qed

text \<open>
  On the example database owner 1 resolves the tags Vegan (which exists) and Thai (which
  does not) for student 2, and the courses SCI 101 and ENG 101 (which only owner 2 has);
  and in a database without labels owner 1 resolves Thai and Dinner, and Thai again.
\<close>

theorem C2_get_or_create_labels_witness:
  "(\<exists>d' new. get_or_create_tags 1 [''Vegan'', ''Thai''] (ex_student 2 1 ''Student2'') ex_db = (Inr (), d') \<and>
      tags d' = tags ex_db @ new \<and> distinct (map l_title new) \<and>
      set (map l_title new) = {t \<in> set [''Vegan'', ''Thai'']. matching 1 t (tags ex_db) = []} \<and>
      list_all (\<lambda>l. l_user l = 1) new \<and>
      set (student_tags d') =
        set (student_tags ex_db) \<union>
        (\<lambda>l. (s_id (ex_student 2 1 ''Student2''), l_id l)) `
          {l \<in> set (tags d'). l_user l = 1 \<and> l_title l \<in> set [''Vegan'', ''Thai'']}) \<and>
   (\<exists>d' new. get_or_create_courses 1 [''SCI 101'', ''ENG 101''] (ex_student 2 1 ''Student2'') ex_db =
        (Inr (), d') \<and>
      courses d' = courses ex_db @ new \<and> distinct (map l_title new) \<and>
      set (map l_title new) = {t \<in> set [''SCI 101'', ''ENG 101'']. matching 1 t (courses ex_db) = []} \<and>
      list_all (\<lambda>l. l_user l = 1) new) \<and>
   (\<exists>d1 l1 l2.
      get_or_create_tags 1 [''Thai'', ''Dinner''] (ex_student 1 1 ''Student1'') one_student_db = (Inr (), d1) \<and>
      tags d1 = tags one_student_db @ [l1, l2] \<and>
      l1 = \<lparr>l_id = tag_seq one_student_db + 1, l_title = ''Thai'', l_user = 1\<rparr> \<and>
      l2 = \<lparr>l_id = tag_seq one_student_db + 2, l_title = ''Dinner'', l_user = 1\<rparr> \<and>
      (s_id (ex_student 1 1 ''Student1''), l_id l1) \<in> set (student_tags d1) \<and>
      (s_id (ex_student 1 1 ''Student1''), l_id l2) \<in> set (student_tags d1) \<and>
      (\<exists>d2. get_or_create_tags 1 [''Thai''] (ex_student 1 1 ''Student1'') d1 = (Inr (), d2) \<and>
            tags d2 = tags d1 \<and> (s_id (ex_student 1 1 ''Student1''), l_id l1) \<in> set (student_tags d2)))"
proof -
  let ?st = "ex_student 2 1 ''Student2''"
  obtain dt where et: "get_or_create_tags 1 [''Vegan'', ''Thai''] ?st ex_db = (Inr (), dt)"
  proof -
    have "fst (get_or_create_tags 1 [''Vegan'', ''Thai''] ?st ex_db) = Inr ()" by code_simp
    then show ?thesis using that by (metis prod.collapse)
  qed
  obtain dc where ec: "get_or_create_courses 1 [''SCI 101'', ''ENG 101''] ?st ex_db = (Inr (), dc)"
  proof -
    have "fst (get_or_create_courses 1 [''SCI 101'', ''ENG 101''] ?st ex_db) = Inr ()" by code_simp
    then show ?thesis using that by (metis prod.collapse)
  qed
  have n: "filter (\<lambda>l. l_user l = 1) (tags one_student_db) = []"
    by (simp add: one_student_db_def empty_db_def)
  note t1 = C2_get_or_create_labels[of 1 "[''Vegan'', ''Thai'']" ?st ex_db "Inr ()" dt,
      THEN conjunct1, rule_format, OF et, THEN conjunct2, THEN conjunct2, rule_format, OF refl]
  note t2 = C2_get_or_create_labels[of 1 "[''SCI 101'', ''ENG 101'']" ?st ex_db "Inr ()" dc,
      THEN conjunct2, THEN conjunct1, rule_format, OF ec, THEN conjunct2, THEN conjunct2,
      rule_format, OF refl]
  note t3 = C2_get_or_create_labels[of 1 _ "ex_student 1 1 ''Student1''" one_student_db _ _
      "ex_student 1 1 ''Student1''", THEN conjunct2, THEN conjunct2, rule_format, OF n]
  from t1 et have a: "\<exists>d' new. get_or_create_tags 1 [''Vegan'', ''Thai''] ?st ex_db = (Inr (), d') \<and>
      tags d' = tags ex_db @ new \<and> distinct (map l_title new) \<and>
      set (map l_title new) = {t \<in> set [''Vegan'', ''Thai'']. matching 1 t (tags ex_db) = []} \<and>
      list_all (\<lambda>l. l_user l = 1) new \<and>
      set (student_tags d') =
        set (student_tags ex_db) \<union>
        (\<lambda>l. (s_id ?st, l_id l)) ` {l \<in> set (tags d'). l_user l = 1 \<and> l_title l \<in> set [''Vegan'', ''Thai'']}"
    unfolding list_all_iff by blast
  from t2 ec have b: "\<exists>d' new. get_or_create_courses 1 [''SCI 101'', ''ENG 101''] ?st ex_db =
        (Inr (), d') \<and>
      courses d' = courses ex_db @ new \<and> distinct (map l_title new) \<and>
      set (map l_title new) = {t \<in> set [''SCI 101'', ''ENG 101'']. matching 1 t (courses ex_db) = []} \<and>
      list_all (\<lambda>l. l_user l = 1) new"
    unfolding list_all_iff by blast
  from a b t3 show ?thesis by (intro conjI)
qed

section \<open>Updating a student\<close>

lemma StudentSerializer_update_alt:
  "StudentSerializer_update u inst vd d =
     (case replace_tags u inst vd d of
        (Inl e, d1) \<Rightarrow> (Inl e, d1)
      | (Inr _, d1) \<Rightarrow>
          (case replace_courses u inst vd d1 of
             (Inl e, d2) \<Rightarrow> (Inl e, d2)
           | (Inr _, d2) \<Rightarrow> (Inr (set_attrs vd inst), save_student (set_attrs vd inst) d2)))"
  unfolding StudentSerializer_update_def replace_tags_def replace_courses_def Let_def
  by (rule refl)

lemma StudentSerializer_update_cases [consumes 1, case_names tags_fail courses_fail ok]:
  assumes "StudentSerializer_update u inst vd d = (r, d')"
  obtains e where "replace_tags u inst vd d = (Inl e, d')" "r = Inl e"
  | d1 e where "replace_tags u inst vd d = (Inr (), d1)" "replace_courses u inst vd d1 = (Inl e, d')"
      "r = Inl e"
  | d1 d2 where "replace_tags u inst vd d = (Inr (), d1)" "replace_courses u inst vd d1 = (Inr (), d2)"
      "r = Inr (set_attrs vd inst)" "d' = save_student (set_attrs vd inst) d2"
proof (cases "replace_tags u inst vd d")
  case (Pair rt d1)
  show ?thesis
  proof (cases rt)
    case (Inl e)
    with Pair assms that(1) show ?thesis by (simp add: StudentSerializer_update_alt)
  next
    case (Inr x)
    with Pair have t: "replace_tags u inst vd d = (Inr (), d1)" by simp
    show ?thesis
    proof (cases "replace_courses u inst vd d1")
      case (Pair rc d2)
      show ?thesis
      proof (cases rc)
        case (Inl e)
        with Pair t assms that(2) show ?thesis by (simp add: StudentSerializer_update_alt)
      next
        case (Inr y)
        with Pair have c: "replace_courses u inst vd d1 = (Inr (), d2)" by simp
        with t assms that(3) show ?thesis by (simp add: StudentSerializer_update_alt)
      qed
    qed
  qed
qed

text \<open>What \<open>replace_tags\<close> and \<open>replace_courses\<close> do, in terms of \<open>resolve\<close>.\<close>

lemma replace_tags_None:
  "v_tags vd = None \<Longrightarrow> replace_tags u inst vd d = (Inr (), d)"
  by (simp add: replace_tags_def)

lemma replace_courses_None:
  "v_courses vd = None \<Longrightarrow> replace_courses u inst vd d = (Inr (), d)"
  by (simp add: replace_courses_def)

lemma replace_tags_Some:
  assumes "v_tags vd = Some ts" and "replace_tags u inst vd d = (r, d')"
  shows "r = fst (resolve u ts (s_id inst) (tags d, tag_seq d, m2m_clear (s_id inst) (student_tags d)))"
    and "(tags d', tag_seq d', student_tags d') =
           snd (resolve u ts (s_id inst) (tags d, tag_seq d, m2m_clear (s_id inst) (student_tags d)))"
proof -
  from assms have g: "get_or_create_tags u ts inst (d\<lparr>student_tags := m2m_clear (s_id inst) (student_tags d)\<rparr>) = (r, d')"
    by (simp add: replace_tags_def)
  from get_or_create_tags_fields(1)[OF g]
  show "r = fst (resolve u ts (s_id inst) (tags d, tag_seq d, m2m_clear (s_id inst) (student_tags d)))"
    by simp
  from get_or_create_tags_fields(4)[OF g]
  show "(tags d', tag_seq d', student_tags d') =
           snd (resolve u ts (s_id inst) (tags d, tag_seq d, m2m_clear (s_id inst) (student_tags d)))"
    by simp
qed

lemma replace_courses_Some:
  assumes "v_courses vd = Some ts" and "replace_courses u inst vd d = (r, d')"
  shows "r = fst (resolve u ts (s_id inst) (courses d, course_seq d, m2m_clear (s_id inst) (student_courses d)))"
    and "(courses d', course_seq d', student_courses d') =
           snd (resolve u ts (s_id inst) (courses d, course_seq d, m2m_clear (s_id inst) (student_courses d)))"
proof -
  from assms have g: "get_or_create_courses u ts inst (d\<lparr>student_courses := m2m_clear (s_id inst) (student_courses d)\<rparr>) = (r, d')"
    by (simp add: replace_courses_def)
  from get_or_create_courses_fields(1)[OF g]
  show "r = fst (resolve u ts (s_id inst) (courses d, course_seq d, m2m_clear (s_id inst) (student_courses d)))"
    by simp
  from get_or_create_courses_fields(4)[OF g]
  show "(courses d', course_seq d', student_courses d') =
           snd (resolve u ts (s_id inst) (courses d, course_seq d, m2m_clear (s_id inst) (student_courses d)))"
    by simp
qed

lemma replace_tags_frame:
  assumes "replace_tags u inst vd d = (r, d')"
  shows "students d' = students d \<and> student_seq d' = student_seq d \<and> courses d' = courses d \<and>
    course_seq d' = course_seq d \<and> student_courses d' = student_courses d"
proof (cases "v_tags vd")
  case None
  with assms show "students d' = students d \<and> student_seq d' = student_seq d \<and> courses d' = courses d \<and>
    course_seq d' = course_seq d \<and> student_courses d' = student_courses d"
    by (simp add: replace_tags_def)
next
  case (Some ts)
  with assms have g: "get_or_create_tags u ts inst (d\<lparr>student_tags := m2m_clear (s_id inst) (student_tags d)\<rparr>) = (r, d')"
    by (simp add: replace_tags_def)
  from get_or_create_tags_fields(5-9)[OF g]
  show "students d' = students d \<and> student_seq d' = student_seq d \<and> courses d' = courses d \<and>
    course_seq d' = course_seq d \<and> student_courses d' = student_courses d"
    by simp
qed

lemma replace_courses_frame:
  assumes "replace_courses u inst vd d = (r, d')"
  shows "students d' = students d \<and> student_seq d' = student_seq d \<and> tags d' = tags d \<and>
    tag_seq d' = tag_seq d \<and> student_tags d' = student_tags d"
proof (cases "v_courses vd")
  case None
  with assms show "students d' = students d \<and> student_seq d' = student_seq d \<and> tags d' = tags d \<and>
    tag_seq d' = tag_seq d \<and> student_tags d' = student_tags d"
    by (simp add: replace_courses_def)
next
  case (Some ts)
  with assms have g: "get_or_create_courses u ts inst (d\<lparr>student_courses := m2m_clear (s_id inst) (student_courses d)\<rparr>) = (r, d')"
    by (simp add: replace_courses_def)
  from get_or_create_courses_fields(5-9)[OF g]
  show "students d' = students d \<and> student_seq d' = student_seq d \<and> tags d' = tags d \<and>
    tag_seq d' = tag_seq d \<and> student_tags d' = student_tags d"
    by simp
qed

lemma save_student_frame [simp]:
  "tags (save_student i d) = tags d" "tag_seq (save_student i d) = tag_seq d"
  "student_tags (save_student i d) = student_tags d" "courses (save_student i d) = courses d"
  "course_seq (save_student i d) = course_seq d" "student_courses (save_student i d) = student_courses d"
  "student_seq (save_student i d) = student_seq d"
  by (simp_all add: save_student_def)

text \<open>The tag table, its counter and its join table after an update, whatever its result.\<close>

lemma update_tags_part:
  assumes "StudentSerializer_update u inst vd d = (r, d')"
  shows "tags_part d' =
           (case v_tags vd of
              None \<Rightarrow> tags_part d
            | Some ts \<Rightarrow>
                snd (resolve u ts (s_id inst) (tags d, tag_seq d, m2m_clear (s_id inst) (student_tags d))))"
proof -
  have k: "tags_part d1 =
           (case v_tags vd of
              None \<Rightarrow> tags_part d
            | Some ts \<Rightarrow>
                snd (resolve u ts (s_id inst) (tags d, tag_seq d, m2m_clear (s_id inst) (student_tags d))))"
    if "replace_tags u inst vd d = (rt, d1)" for rt d1
  proof (cases "v_tags vd")
    case None
    with that show ?thesis by (simp add: replace_tags_None)
  next
    case (Some ts)
    from replace_tags_Some(2)[OF Some that] Some show ?thesis by (simp add: tags_part_def)
  qed
  from assms show ?thesis
  proof (cases rule: StudentSerializer_update_cases)
    case (tags_fail e)
    then show ?thesis using k by blast
  next
    case (courses_fail d1 e)
    from replace_courses_frame[OF courses_fail(2)] have "tags_part d' = tags_part d1"
      by (simp add: tags_part_def)
    with k[OF courses_fail(1)] show ?thesis by simp
  next
    case (ok d1 d2)
    from replace_courses_frame[OF ok(2)] ok(4) have "tags_part d' = tags_part d1"
      by (simp add: tags_part_def)
    with k[OF ok(1)] show ?thesis by simp
  qed
qed

lemma update_courses_part:
  assumes "StudentSerializer_update u inst vd d = (r, d')"
  shows "courses_part d' = courses_part d \<or>
         courses_part d' =
           (case v_courses vd of
              None \<Rightarrow> courses_part d
            | Some cs \<Rightarrow>
                snd (resolve u cs (s_id inst)
                       (courses d, course_seq d, m2m_clear (s_id inst) (student_courses d))))"
    and "r = Inr i \<Longrightarrow> courses_part d' =
           (case v_courses vd of
              None \<Rightarrow> courses_part d
            | Some cs \<Rightarrow>
                snd (resolve u cs (s_id inst)
                       (courses d, course_seq d, m2m_clear (s_id inst) (student_courses d))))"
proof -
  have k: "courses_part d2 =
           (case v_courses vd of
              None \<Rightarrow> courses_part d
            | Some cs \<Rightarrow>
                snd (resolve u cs (s_id inst)
                       (courses d, course_seq d, m2m_clear (s_id inst) (student_courses d))))"
    if t: "replace_tags u inst vd d = (rt, d1)" and c: "replace_courses u inst vd d1 = (rc, d2)"
    for rt d1 rc d2
  proof (cases "v_courses vd")
    case None
    with c have "d2 = d1" by (simp add: replace_courses_None)
    with replace_tags_frame[OF t] None show ?thesis by (simp add: courses_part_def)
  next
    case (Some cs)
    from replace_courses_Some(2)[OF Some c] replace_tags_frame[OF t] Some
    show ?thesis by (simp add: courses_part_def)
  qed
  from assms have "(courses_part d' = courses_part d \<and> (\<forall>i. r \<noteq> Inr i)) \<or>
         courses_part d' =
           (case v_courses vd of
              None \<Rightarrow> courses_part d
            | Some cs \<Rightarrow>
                snd (resolve u cs (s_id inst)
                       (courses d, course_seq d, m2m_clear (s_id inst) (student_courses d))))"
  proof (cases rule: StudentSerializer_update_cases)
    case (tags_fail e)
    from replace_tags_frame[OF tags_fail(1)] tags_fail(2) show ?thesis
      by (simp add: courses_part_def)
  next
    case (courses_fail d1 e)
    from k[OF courses_fail(1,2)] show ?thesis by simp
  next
    case (ok d1 d2)
    from k[OF ok(1,2)] ok(4) show ?thesis by (simp add: courses_part_def)
  qed
  then show "courses_part d' = courses_part d \<or>
         courses_part d' =
           (case v_courses vd of
              None \<Rightarrow> courses_part d
            | Some cs \<Rightarrow>
                snd (resolve u cs (s_id inst)
                       (courses d, course_seq d, m2m_clear (s_id inst) (student_courses d))))"
    and "r = Inr i \<Longrightarrow> courses_part d' =
           (case v_courses vd of
              None \<Rightarrow> courses_part d
            | Some cs \<Rightarrow>
                snd (resolve u cs (s_id inst)
                       (courses d, course_seq d, m2m_clear (s_id inst) (student_courses d))))"
    by blast+
qed



lemma m2m_clear_idem [simp]: "m2m_clear sid (m2m_clear sid joins) = m2m_clear sid joins"
  by (simp add: m2m_clear_def)



lemma tags_part_eq:
  "tags_part d' = (rows, seq, joins) \<Longrightarrow> tags d' = rows \<and> tag_seq d' = seq \<and> student_tags d' = joins"
  by (simp add: tags_part_def)

lemma courses_part_eq:
  "courses_part d' = (rows, seq, joins) \<Longrightarrow>
   courses d' = rows \<and> course_seq d' = seq \<and> student_courses d' = joins"
  by (simp add: courses_part_def)

text \<open>One label table after the update, for the three shapes of its field in the data.\<close>

lemma part_absent:
  assumes "(rows', seq', joins') = (rows, seq, joins)"
  shows "joins' = joins \<and> rows' = rows"
  using assms by simp




section \<open>Replacing the associations of a student\<close>




section \<open>The frame of an update\<close>

lemma run_field_None: "value_of (run_field partial required allow_blank None) = None"
  by (simp add: run_field_def value_of_def)

lemma run_titles_None: "value_of (run_titles None) = None"
  by (simp add: run_titles_def value_of_def)

lemma to_internal_value_absent:
  assumes "student_to_internal_value partial p = Inr vd"
  shows "(p_name p = None \<longrightarrow> v_name vd = None) \<and> (p_email p = None \<longrightarrow> v_email vd = None) \<and>
         (p_address p = None \<longrightarrow> v_address vd = None) \<and>
         (p_birthday p = None \<longrightarrow> v_birthday vd = None) \<and>
         (p_link p = None \<longrightarrow> v_link vd = None) \<and> (p_tags p = None \<longrightarrow> v_tags vd = None) \<and>
         (p_courses p = None \<longrightarrow> v_courses vd = None)"
proof -
  from assms have "vd =
      \<lparr>v_name = value_of (run_field partial True False (p_name p)),
       v_email = value_of (run_field partial True False (p_email p)),
       v_address = value_of (run_field partial True False (p_address p)),
       v_birthday = value_of (run_field partial True False (p_birthday p)),
       v_link = value_of (run_field partial False True (p_link p)),
       v_tags = value_of (run_titles (p_tags p)),
       v_courses = value_of (run_titles (p_courses p))\<rparr>"
    by (simp add: student_to_internal_value_def Let_def split: if_splits)
  then show ?thesis by (simp add: run_field_None run_titles_None)
qed

lemma to_internal_value_ignores:
  "student_to_internal_value partial (p\<lparr>p_id := x, p_user := y, p_image := z\<rparr>) =
   student_to_internal_value partial p"
  by (simp add: student_to_internal_value_def)

lemma list_all2_map_same:
  "(\<And>x. x \<in> set xs \<Longrightarrow> P x (f x)) \<Longrightarrow> list_all2 P xs (map f xs)"
  by (simp add: list_all2_map2 list_all2_same)

lemma save_student_existing:
  "s_id i \<in> set (map s_id (students d)) \<Longrightarrow>
   students (save_student i d) = map (\<lambda>r. if s_id r = s_id i then i else r) (students d)"
  by (simp add: save_student_def)

lemma update_students:
  assumes "StudentSerializer_update u inst vd d = (r, d')"
  shows "students d' =
           (if \<exists>i. r = Inr i then students (save_student (set_attrs vd inst) d) else students d) \<and>
         student_seq d' = student_seq d"
  using assms
proof (cases rule: StudentSerializer_update_cases)
  case (tags_fail e)
  with replace_tags_frame[OF tags_fail(1)] show ?thesis by simp
next
  case (courses_fail d1 e)
  with replace_tags_frame[OF courses_fail(1)] replace_courses_frame[OF courses_fail(2)]
  show ?thesis by simp
next
  case (ok d1 d2)
  from replace_tags_frame[OF ok(1)] replace_courses_frame[OF ok(2)]
  have "students d2 = students d" "student_seq d2 = student_seq d" by simp_all
  with ok(3,4) show ?thesis by (simp add: save_student_def)
qed

lemma student_update_cases [consumes 1, case_names early reached]:
  assumes "student_update d u qp pk partial payload = (r, d')"
  obtains e where "r = Inl e" "d' = d"
  | rows inst vd r' where "student_get_queryset d u qp = Inr rows"
      "get_object s_id rows pk = Inr inst"
      "student_to_internal_value partial payload = Inr vd"
      "StudentSerializer_update u inst vd d = (r', d')"
      "(\<exists>i. r' = Inr i) = (\<exists>b. r = Inr b)"
proof (cases "student_get_queryset d u qp")
  case (Inl e)
  with assms have "r = Inl e" "d' = d" by (simp_all add: student_update_def)
  then show ?thesis by (rule that(1))
next
  case (Inr rows)
  note q = this
  show ?thesis
  proof (cases "get_object s_id rows pk")
    case (Inl e)
    with q assms have "r = Inl e" "d' = d" by (simp_all add: student_update_def)
    then show ?thesis by (rule that(1))
  next
    case (Inr inst)
    note g = this
    show ?thesis
    proof (cases "student_to_internal_value partial payload")
      case (Inl e)
      with q g assms have "r = Inl e" "d' = d" by (simp_all add: student_update_def)
      then show ?thesis by (rule that(1))
    next
      case (Inr vd)
      note v = this
      obtain r' d1 where up: "StudentSerializer_update u inst vd d = (r', d1)"
        by (cases "StudentSerializer_update u inst vd d")
      show ?thesis
      proof (cases r')
        case (Inl e)
        with q g v up assms have "r = Inl e" "d' = d1" by (simp_all add: student_update_def)
        with Inl up show ?thesis by (intro that(2)[OF q g v]) auto
      next
        case (Inr i)
        with q g v up assms have "\<exists>b. r = Inr b" "d' = d1"
          by (auto simp: student_update_def)
        with Inr up show ?thesis by (intro that(2)[OF q g v]) auto
      qed
    qed
  qed
qed

lemma set_attrs_frame [simp]:
  "s_id (set_attrs vd s) = s_id s" "s_user (set_attrs vd s) = s_user s"
  "s_image (set_attrs vd s) = s_image s"
  by (simp_all add: set_attrs_def)

lemma set_attrs_absent:
  "v_name vd = None \<Longrightarrow> s_name (set_attrs vd s) = s_name s"
  "v_email vd = None \<Longrightarrow> s_email (set_attrs vd s) = s_email s"
  "v_address vd = None \<Longrightarrow> s_address (set_attrs vd s) = s_address s"
  "v_birthday vd = None \<Longrightarrow> s_birthday (set_attrs vd s) = s_birthday s"
  "v_link vd = None \<Longrightarrow> s_link (set_attrs vd s) = s_link s"
  by (simp_all add: set_attrs_def default_def)

text \<open>
  Claim C8. Whatever a PUT or PATCH of a student carries and however it ends, every row
  of the student table keeps its id, its owner and its image; the rows other than the one
  addressed are unchanged, and in the addressed row every field that the body does not
  carry is unchanged; absent \<^verbatim>\<open>tags\<close> and \<^verbatim>\<open>courses\<close> leave the associations and the label
  tables unchanged. An \<^verbatim>\<open>id\<close>, \<^verbatim>\<open>user\<close> or \<^verbatim>\<open>image\<close> in the body is ignored: the request
  behaves as the one without them.
\<close>

theorem C8_update_frame:
  assumes "wf_db d" and "student_update d u qp pk partial payload = (r, d')"
  shows
    "list_all2
       (\<lambda>s s'. s_id s' = s_id s \<and> s_user s' = s_user s \<and> s_image s' = s_image s \<and>
                (s_id s \<noteq> pk \<longrightarrow> s' = s) \<and>
                (p_name payload = None \<longrightarrow> s_name s' = s_name s) \<and>
                (p_email payload = None \<longrightarrow> s_email s' = s_email s) \<and>
                (p_address payload = None \<longrightarrow> s_address s' = s_address s) \<and>
                (p_birthday payload = None \<longrightarrow> s_birthday s' = s_birthday s) \<and>
                (p_link payload = None \<longrightarrow> s_link s' = s_link s))
       (students d) (students d') \<and>
     (p_tags payload = None \<longrightarrow> student_tags d' = student_tags d \<and> tags d' = tags d) \<and>
     (p_courses payload = None \<longrightarrow> student_courses d' = student_courses d \<and> courses d' = courses d) \<and>
     student_update d u qp pk partial (payload\<lparr>p_id := x, p_user := y, p_image := z\<rparr>) =
       student_update d u qp pk partial payload"
proof -
  let ?P = "\<lambda>s s'. s_id s' = s_id s \<and> s_user s' = s_user s \<and> s_image s' = s_image s \<and>
                (s_id s \<noteq> pk \<longrightarrow> s' = s) \<and>
                (p_name payload = None \<longrightarrow> s_name s' = s_name s) \<and>
                (p_email payload = None \<longrightarrow> s_email s' = s_email s) \<and>
                (p_address payload = None \<longrightarrow> s_address s' = s_address s) \<and>
                (p_birthday payload = None \<longrightarrow> s_birthday s' = s_birthday s) \<and>
                (p_link payload = None \<longrightarrow> s_link s' = s_link s)"
  have same: "list_all2 ?P (students d) (students d)"
    by (simp add: list_all2_same)
  have 4: "student_update d u qp pk partial (payload\<lparr>p_id := x, p_user := y, p_image := z\<rparr>) =
       student_update d u qp pk partial payload"
    unfolding student_update_def to_internal_value_ignores by (rule refl)
  from assms(2) have "list_all2 ?P (students d) (students d') \<and>
     (p_tags payload = None \<longrightarrow> student_tags d' = student_tags d \<and> tags d' = tags d) \<and>
     (p_courses payload = None \<longrightarrow> student_courses d' = student_courses d \<and> courses d' = courses d)"
  proof (cases rule: student_update_cases)
    case (early e)
    with same show ?thesis by simp
  next
    case (reached rows inst vd r')
    note abs = to_internal_value_absent[OF reached(3)]
    from get_object_Inr[OF reached(2)] have i: "inst \<in> set rows" "s_id inst = pk"
      by simp_all
    with reached(1) have m: "inst \<in> set (students d)"
      using student_get_queryset_user by blast
    have rows: "list_all2 ?P (students d) (students d')"
    proof (cases "\<exists>i. r' = Inr i")
      case False
      with update_students[OF reached(4)] same show ?thesis by simp
    next
      case True
      from m have "s_id (set_attrs vd inst) \<in> set (map s_id (students d))" by simp
      then have "students (save_student (set_attrs vd inst) d) =
          map (\<lambda>r. if s_id r = s_id (set_attrs vd inst) then set_attrs vd inst else r) (students d)"
        by (rule save_student_existing)
      with True update_students[OF reached(4)] i(2)
      have e: "students d' = map (\<lambda>r. if s_id r = pk then set_attrs vd inst else r) (students d)"
        by simp
      have "?P s (if s_id s = pk then set_attrs vd inst else s)" if "s \<in> set (students d)" for s
      proof (cases "s_id s = pk")
        case f: False
        then show ?thesis by simp
      next
        case t: True
        with i(2) that m assms(1) have "s = inst" using wf_student_pk by metis
        with t abs show ?thesis by (simp add: set_attrs_absent)
      qed
      then show ?thesis unfolding e by (rule list_all2_map_same)
    qed
    have t: "p_tags payload = None \<longrightarrow> student_tags d' = student_tags d \<and> tags d' = tags d"
    proof
      assume "p_tags payload = None"
      with abs have "v_tags vd = None" by simp
      with update_tags_part[OF reached(4)] have "tags_part d' = tags_part d" by simp
      then show "student_tags d' = student_tags d \<and> tags d' = tags d" by (simp add: tags_part_def)
    qed
    have c: "p_courses payload = None \<longrightarrow> student_courses d' = student_courses d \<and> courses d' = courses d"
    proof
      assume "p_courses payload = None"
      with abs have "v_courses vd = None" by simp
      with update_courses_part(1)[OF reached(4)] have "courses_part d' = courses_part d" by auto
      then show "student_courses d' = student_courses d \<and> courses d' = courses d"
        by (simp add: courses_part_def)
    qed
    from rows t c show ?thesis by (intro conjI)
  qed
  then have a: "list_all2 ?P (students d) (students d')"
    and b: "p_tags payload = None \<longrightarrow> student_tags d' = student_tags d \<and> tags d' = tags d"
    and c: "p_courses payload = None \<longrightarrow> student_courses d' = student_courses d \<and> courses d' = courses d"
    by (rule conjunct1, rule conjunct2[THEN conjunct1], rule conjunct2[THEN conjunct2])
  from a b c 4 show ?thesis by (intro conjI)
qed

lemma wf_ex_db_image: "wf_db ex_db_image"
  by (simp add: wf_db_def ex_db_image_def ex_db_def ex_student_def)

text \<open>
  Owner 1 patches student 1 of the example database, which has an image, with a new name
  and with another owner and another image in the body.
\<close>

theorem C8_update_frame_witness:
  "\<exists>body d'.
     student_update ex_db_image 1 no_params 1 True
       \<lparr>p_id = Some 7, p_user = Some 2, p_image = Some ''other.png'', p_name = Some ''New name'',
        p_email = None, p_address = None, p_birthday = None, p_link = None, p_tags = None,
        p_courses = None\<rparr> = (Inr body, d') \<and>
     map s_id (students d') = [1, 2, 3] \<and> map s_user (students d') = [1, 1, 2] \<and>
     map s_image (students d') = [Some ''uploads/student/0000.jpg'', None, None] \<and>
     map s_name (students d') = [''New name'', ''Student2'', ''Student3''] \<and>
     list_all2
       (\<lambda>s s'. s_id s' = s_id s \<and> s_user s' = s_user s \<and> s_image s' = s_image s \<and>
                (s_id s \<noteq> 1 \<longrightarrow> s' = s) \<and> s_email s' = s_email s \<and>
                s_address s' = s_address s \<and> s_birthday s' = s_birthday s \<and> s_link s' = s_link s)
       (students ex_db_image) (students d') \<and>
     student_tags d' = student_tags ex_db_image \<and> tags d' = tags ex_db_image \<and>
     student_courses d' = student_courses ex_db_image \<and> courses d' = courses ex_db_image"
proof -
  let ?p = "\<lparr>p_id = Some 7, p_user = Some 2, p_image = Some ''other.png'', p_name = Some ''New name'',
        p_email = None, p_address = None, p_birthday = None, p_link = None, p_tags = None,
        p_courses = None\<rparr>"
  let ?U = "student_update ex_db_image 1 no_params 1 True ?p"
  obtain body d' where e: "?U = (Inr body, d')"
  proof -
    have "\<not> isl (fst ?U)" by code_simp
    then show ?thesis using that by (metis prod.collapse sum.collapse(2))
  qed
  have "map s_id (students (snd ?U)) = [1, 2, 3]" by code_simp
  with e have 1: "map s_id (students d') = [1, 2, 3]" by simp
  have "map s_user (students (snd ?U)) = [1, 1, 2]" by code_simp
  with e have 2: "map s_user (students d') = [1, 1, 2]" by simp
  have "map s_image (students (snd ?U)) = [Some ''uploads/student/0000.jpg'', None, None]"
    by code_simp
  with e have 3: "map s_image (students d') = [Some ''uploads/student/0000.jpg'', None, None]" by simp
  have "map s_name (students (snd ?U)) = [''New name'', ''Student2'', ''Student3'']" by code_simp
  with e have 4: "map s_name (students d') = [''New name'', ''Student2'', ''Student3'']" by simp
  note t = C8_update_frame[OF wf_ex_db_image e]
  from t[THEN conjunct1] have 5: "list_all2
       (\<lambda>s s'. s_id s' = s_id s \<and> s_user s' = s_user s \<and> s_image s' = s_image s \<and>
                (s_id s \<noteq> 1 \<longrightarrow> s' = s) \<and> s_email s' = s_email s \<and>
                s_address s' = s_address s \<and> s_birthday s' = s_birthday s \<and> s_link s' = s_link s)
       (students ex_db_image) (students d')"
    by simp
  from t[THEN conjunct2, THEN conjunct1] have 6: "student_tags d' = student_tags ex_db_image \<and> tags d' = tags ex_db_image"
    by simp
  from t[THEN conjunct2, THEN conjunct2, THEN conjunct1]
  have 7: "student_courses d' = student_courses ex_db_image \<and> courses d' = courses ex_db_image"
    by simp
  from e 1 2 3 4 5 6 7 show ?thesis by (intro exI[of _ body] exI[of _ d']) simp
qed

section \<open>The integrity of the database is kept\<close>

lemma wf_empty_db: "wf_db empty_db"
  by (simp add: wf_db_def empty_db_def)

lemma table_ok_mono:
  "table_ok sids tb \<Longrightarrow> set sids \<subseteq> set sids' \<Longrightarrow> table_ok sids' tb"
  by (cases tb) (auto simp: table_ok_def list_all_iff)

lemma table_ok_cong:
  "table_ok sids tb \<Longrightarrow> set sids = set sids' \<Longrightarrow> table_ok sids' tb"
  using table_ok_mono[of sids tb sids'] by blast

lemma table_ok_cleared:
  "table_ok sids (rows, seq, joins) \<Longrightarrow> table_ok sids (rows, seq, m2m_clear sid joins)"
  by (auto simp: table_ok_def list_all_iff)

lemma wf_get_or_create_tags:
  assumes "wf_db d" and "s_id st \<in> set (map s_id (students d))"
    and "get_or_create_tags u ts st d = (r, d')"
  shows "wf_db d'"
proof -
  note f = get_or_create_tags_fields[OF assms(3)]
  from assms(1) have "table_ok (map s_id (students d)) (tags d, tag_seq d, student_tags d)"
    by (simp add: wf_db_tables)
  from resolve_table_ok[OF this assms(2), of u ts]
  have "table_ok (map s_id (students d)) (tags d', tag_seq d', student_tags d')"
    by (simp add: f(4))
  with assms(1) f(5-9) show ?thesis by (simp add: wf_db_tables)
qed

lemma wf_get_or_create_courses:
  assumes "wf_db d" and "s_id st \<in> set (map s_id (students d))"
    and "get_or_create_courses u ts st d = (r, d')"
  shows "wf_db d'"
proof -
  note f = get_or_create_courses_fields[OF assms(3)]
  from assms(1) have "table_ok (map s_id (students d)) (courses d, course_seq d, student_courses d)"
    by (simp add: wf_db_tables)
  from resolve_table_ok[OF this assms(2), of u ts]
  have "table_ok (map s_id (students d)) (courses d', course_seq d', student_courses d')"
    by (simp add: f(4))
  with assms(1) f(5-9) show ?thesis by (simp add: wf_db_tables)
qed

lemma wf_insert_student:
  assumes "wf_db d" and "s_id s = student_seq d + 1"
  shows "wf_db (d\<lparr>students := students d @ [s], student_seq := student_seq d + 1\<rparr>)"
proof -
  from assms(1) have b: "\<forall>x \<in> set (students d). s_id x \<le> student_seq d"
    by (simp add: wf_db_tables list_all_iff)
  then have "student_seq d + 1 \<notin> s_id ` set (students d)" by force
  moreover have "\<forall>x \<in> set (students d). s_id x \<le> student_seq d + 1" using b by force
  moreover from assms(1) have "table_ok (map s_id (students d @ [s])) (tags d, tag_seq d, student_tags d)"
    "table_ok (map s_id (students d @ [s])) (courses d, course_seq d, student_courses d)"
    by (auto simp: wf_db_tables intro: table_ok_mono)
  ultimately show ?thesis using assms by (simp add: wf_db_tables list_all_iff)
qed

lemma wf_StudentSerializer_create:
  assumes "wf_db d" and "StudentSerializer_create u vd d = (r, d')"
  shows "wf_db d'"
proof -
  let ?s = "\<lparr>s_id = student_seq d + 1, s_user = u,
                      s_name = default [] (v_name vd), s_email = default [] (v_email vd),
                      s_address = default [] (v_address vd), s_birthday = default [] (v_birthday vd),
                      s_link = default [] (v_link vd), s_image = None\<rparr>"
  let ?d1 = "d\<lparr>students := students d @ [?s], student_seq := student_seq d + 1\<rparr>"
  from assms(1) have w1: "wf_db ?d1" by (rule wf_insert_student) simp
  have m1: "s_id ?s \<in> set (map s_id (students ?d1))" by simp
  obtain rt d2 where t: "get_or_create_tags u (default [] (v_tags vd)) ?s ?d1 = (rt, d2)"
    by (cases "get_or_create_tags u (default [] (v_tags vd)) ?s ?d1")
  from w1 m1 t have w2: "wf_db d2" by (rule wf_get_or_create_tags)
  from get_or_create_tags_fields(5)[OF t] have m2: "s_id ?s \<in> set (map s_id (students d2))" by simp
  obtain rc d3 where c: "get_or_create_courses u (default [] (v_courses vd)) ?s d2 = (rc, d3)"
    by (cases "get_or_create_courses u (default [] (v_courses vd)) ?s d2")
  from w2 m2 c have w3: "wf_db d3" by (rule wf_get_or_create_courses)
  have "d' = d2 \<or> d' = d3"
    using assms(2) t c unfolding StudentSerializer_create_def Let_def
    by (cases rt; cases rc) auto
  with w2 w3 show ?thesis by blast
qed

lemma wf_clear_tags:
  "wf_db d \<Longrightarrow> wf_db (d\<lparr>student_tags := m2m_clear sid (student_tags d)\<rparr>)"
  by (simp add: wf_db_tables table_ok_cleared)

lemma wf_clear_courses:
  "wf_db d \<Longrightarrow> wf_db (d\<lparr>student_courses := m2m_clear sid (student_courses d)\<rparr>)"
  by (simp add: wf_db_tables table_ok_cleared)

lemma wf_replace_tags:
  assumes "wf_db d" and "s_id inst \<in> set (map s_id (students d))"
    and "replace_tags u inst vd d = (r, d')"
  shows "wf_db d'"
proof (cases "v_tags vd")
  case None
  with assms show ?thesis by (simp add: replace_tags_def)
next
  case (Some ts)
  let ?d0 = "d\<lparr>student_tags := m2m_clear (s_id inst) (student_tags d)\<rparr>"
  from Some assms(3) have g: "get_or_create_tags u ts inst ?d0 = (r, d')"
    by (simp add: replace_tags_def)
  from assms(1) have "wf_db ?d0" by (rule wf_clear_tags)
  moreover from assms(2) have "s_id inst \<in> set (map s_id (students ?d0))" by simp
  ultimately show ?thesis using g by (rule wf_get_or_create_tags)
qed

lemma wf_replace_courses:
  assumes "wf_db d" and "s_id inst \<in> set (map s_id (students d))"
    and "replace_courses u inst vd d = (r, d')"
  shows "wf_db d'"
proof (cases "v_courses vd")
  case None
  with assms show ?thesis by (simp add: replace_courses_def)
next
  case (Some ts)
  let ?d0 = "d\<lparr>student_courses := m2m_clear (s_id inst) (student_courses d)\<rparr>"
  from Some assms(3) have g: "get_or_create_courses u ts inst ?d0 = (r, d')"
    by (simp add: replace_courses_def)
  from assms(1) have "wf_db ?d0" by (rule wf_clear_courses)
  moreover from assms(2) have "s_id inst \<in> set (map s_id (students ?d0))" by simp
  ultimately show ?thesis using g by (rule wf_get_or_create_courses)
qed

lemma map_pk_replace:
  "map pk (map (\<lambda>r. if pk r = pk i then i else r) xs) = map pk xs"
  by (induction xs) auto

lemma map_pk_replace_comp:
  "map (pk \<circ> (\<lambda>r. if pk r = pk i then i else r)) xs = map pk xs"
  by (induction xs) auto

lemma list_all_pk_replace:
  "list_all (\<lambda>s. P (pk s)) (map (\<lambda>r. if pk r = pk i then i else r) xs) = list_all (\<lambda>s. P (pk s)) xs"
  by (induction xs) auto

lemma wf_save_student:
  assumes "wf_db d" and "s_id i \<in> set (map s_id (students d))"
  shows "wf_db (save_student i d)"
proof -
  let ?f = "\<lambda>r. if s_id r = s_id i then i else r"
  from assms(2) have e: "save_student i d = d\<lparr>students := map ?f (students d)\<rparr>"
    by (simp add: save_student_def)
  from assms(1) show ?thesis
    unfolding e wf_db_tables
    by (simp add: map_pk_replace_comp list_all_pk_replace[where P = "\<lambda>x. x \<le> student_seq d"])
qed

lemma wf_StudentSerializer_update:
  assumes "wf_db d" and "s_id inst \<in> set (map s_id (students d))"
    and "StudentSerializer_update u inst vd d = (r, d')"
  shows "wf_db d'"
  using assms(3)
proof (cases rule: StudentSerializer_update_cases)
  case (tags_fail e)
  from assms(1,2) tags_fail(1) show ?thesis by (rule wf_replace_tags)
next
  case (courses_fail d1 e)
  from assms(1,2) courses_fail(1) have "wf_db d1" by (rule wf_replace_tags)
  moreover from replace_tags_frame[OF courses_fail(1)] assms(2)
  have "s_id inst \<in> set (map s_id (students d1))" by simp
  ultimately show ?thesis using courses_fail(2) by (rule wf_replace_courses)
next
  case (ok d1 d2)
  from assms(1,2) ok(1) have "wf_db d1" by (rule wf_replace_tags)
  moreover from replace_tags_frame[OF ok(1)] assms(2)
  have m: "s_id inst \<in> set (map s_id (students d1))" by simp
  ultimately have "wf_db d2" using ok(2) by (rule wf_replace_courses)
  moreover from replace_courses_frame[OF ok(2)] m
  have "s_id (set_attrs vd inst) \<in> set (map s_id (students d2))" by simp
  ultimately show ?thesis unfolding ok(4) by (rule wf_save_student)
qed

lemma wf_delete_student:
  assumes "wf_db d"
  shows "wf_db (delete_student sid d)"
proof -
  have s: "set (map s_id (filter (\<lambda>r. s_id r \<noteq> sid) (students d))) =
           set (map s_id (students d)) - {sid}"
    by auto
  have t: "table_ok (map s_id (filter (\<lambda>r. s_id r \<noteq> sid) (students d))) (rows, seq, m2m_clear sid joins)"
    if "table_ok (map s_id (students d)) (rows, seq, joins)" for rows seq joins
    using that unfolding table_ok_def by (simp only: s prod.case) (auto simp: list_all_iff)
  from assms show ?thesis
    unfolding delete_student_def wf_db_tables
    by (simp add: t distinct_map_filter list_all_iff)
qed

lemma wf_attr_put_save:
  assumes "wf_db d" and "inst \<in> set (attr_rows k d)" and "l_id inst' = l_id inst"
  shows "wf_db (attr_put k (save_label inst' (attr_rows k d)) (attr_joins k d) d)"
proof -
  let ?f = "\<lambda>r. if l_id r = l_id inst' then inst' else r"
  have e: "save_label inst' rows = map ?f rows" if "l_id inst' \<in> set (map l_id rows)" for rows
    using that by (simp add: save_label_def)
  have t: "table_ok sids (map ?f rows, seq, joins)" if "table_ok sids (rows, seq, joins)"
    for sids rows seq joins
    using that unfolding table_ok_def
    by (simp only: prod.case map_pk_replace list_all_pk_replace[where P = "\<lambda>x. x \<le> seq"])
  from assms(2,3) have "l_id inst' \<in> set (map l_id (attr_rows k d))" by force
  then have "save_label inst' (attr_rows k d) = map ?f (attr_rows k d)" by (rule e)
  with assms(1) show ?thesis
    by (cases k) (simp_all add: attr_put_def attr_rows_def attr_joins_def wf_db_tables t)
qed

lemma wf_attr_put_delete:
  assumes "wf_db d"
  shows "wf_db (attr_put k (filter (\<lambda>r. l_id r \<noteq> x) (attr_rows k d))
                  (filter (\<lambda>(sid, lid). lid \<noteq> x) (attr_joins k d)) d)"
proof -
  have s: "set (map l_id (filter (\<lambda>r. l_id r \<noteq> x) rows)) = set (map l_id rows) - {x}"
    for rows :: "label list"
    by auto
  have t: "table_ok sids (filter (\<lambda>r. l_id r \<noteq> x) rows, seq, filter (\<lambda>(sid, lid). lid \<noteq> x) joins)"
    if "table_ok sids (rows, seq, joins)" for sids rows seq joins
    using that unfolding table_ok_def
    by (simp only: s prod.case) (auto simp: list_all_iff distinct_map_filter)
  from assms show ?thesis
    by (cases k) (simp_all add: attr_put_def attr_rows_def attr_joins_def wf_db_tables t)
qed

lemma student_instance_member:
  assumes "student_get_queryset d u qp = Inr rows" and "get_object s_id rows pk = Inr inst"
  shows "inst \<in> set (students d)"
proof -
  from get_object_Inr[OF assms(2)] have "inst \<in> set rows" by simp
  with assms(1) show ?thesis using student_get_queryset_user by blast
qed

lemma attr_instance_member:
  assumes "attr_queryset k d u qp = Inr rows" and "get_object l_id rows pk = Inr inst"
  shows "inst \<in> set (attr_rows k d)"
proof -
  from get_object_Inr[OF assms(2)] have "inst \<in> set rows" by simp
  with assms(1) show ?thesis
    unfolding attr_queryset_def using attr_get_queryset_props(3) by blast
qed

lemma wf_student_create:
  assumes "wf_db d"
  shows "wf_db (snd (student_create d u payload))"
proof (cases "student_to_internal_value False payload")
  case (Inl e)
  with assms show ?thesis by (simp add: student_create_def)
next
  case (Inr vd)
  obtain r d1 where c: "StudentSerializer_create u vd d = (r, d1)"
    by (cases "StudentSerializer_create u vd d")
  from assms c have "wf_db d1" by (rule wf_StudentSerializer_create)
  with Inr c show ?thesis by (cases r) (simp_all add: student_create_def)
qed

lemma wf_student_update:
  assumes "wf_db d"
  shows "wf_db (snd (student_update d u qp pk partial payload))"
proof -
  obtain r d' where e: "student_update d u qp pk partial payload = (r, d')"
    by (cases "student_update d u qp pk partial payload")
  from e have "wf_db d'"
  proof (cases rule: student_update_cases)
    case (early e)
    with assms show ?thesis by simp
  next
    case (reached rows inst vd r')
    from reached(1,2) have "inst \<in> set (students d)" by (rule student_instance_member)
    then have "s_id inst \<in> set (map s_id (students d))" by simp
    with assms show ?thesis using reached(4) by (rule wf_StudentSerializer_update)
  qed
  with e show ?thesis by simp
qed

lemma wf_student_destroy:
  assumes "wf_db d"
  shows "wf_db (snd (student_destroy d u qp pk))"
proof (cases "student_get_queryset d u qp")
  case (Inl e)
  with assms show ?thesis by (simp add: student_destroy_def)
next
  case (Inr rows)
  with assms show ?thesis
    by (cases "get_object s_id rows pk") (simp_all add: student_destroy_def wf_delete_student)
qed

lemma wf_upload_image:
  assumes "wf_db d"
  shows "wf_db (snd (upload_image d u qp pk file uuid))"
proof (cases "student_get_queryset d u qp")
  case (Inl e)
  with assms show ?thesis by (simp add: upload_image_def)
next
  case (Inr rows)
  note q = this
  show ?thesis
  proof (cases "get_object s_id rows pk")
    case (Inl e)
    with q assms show ?thesis by (simp add: upload_image_def)
  next
    case (Inr inst)
    from q Inr have "inst \<in> set (students d)" by (rule student_instance_member)
    then have "s_id (inst\<lparr>s_image := x\<rparr>) \<in> set (map s_id (students d))" for x by simp
    with assms have "wf_db (save_student (inst\<lparr>s_image := x\<rparr>) d)" for x
      by (rule wf_save_student)
    with q Inr assms show ?thesis
      by (cases "file") (simp_all add: upload_image_def Let_def)
  qed
qed

lemma wf_attr_update:
  assumes "wf_db d"
  shows "wf_db (snd (attr_update k d u qp pk partial payload))"
proof (cases "attr_queryset k d u qp")
  case (Inl e)
  with assms show ?thesis by (simp add: attr_update_def)
next
  case (Inr rows)
  note q = this
  show ?thesis
  proof (cases "get_object l_id rows pk")
    case (Inl e)
    with q assms show ?thesis by (simp add: attr_update_def)
  next
    case (Inr inst)
    from q Inr have m: "inst \<in> set (attr_rows k d)" by (rule attr_instance_member)
    have "wf_db (attr_put k (save_label inst' (attr_rows k d)) (attr_joins k d) d)"
      if "l_id inst' = l_id inst" for inst'
      using assms m that by (rule wf_attr_put_save)
    with q Inr assms show ?thesis
      by (cases "run_field partial True False (lp_title payload)")
         (simp_all add: attr_update_def Let_def)
  qed
qed

lemma wf_attr_destroy:
  assumes "wf_db d"
  shows "wf_db (snd (attr_destroy k d u qp pk))"
proof (cases "attr_queryset k d u qp")
  case (Inl e)
  with assms show ?thesis by (simp add: attr_destroy_def)
next
  case (Inr rows)
  with assms show ?thesis
    by (cases "get_object l_id rows pk") (simp_all add: attr_destroy_def wf_attr_put_delete)
qed

lemma wf_handle: "wf_db d \<Longrightarrow> wf_db (snd (handle rq d))"
proof (cases rq)
  case (Student_list u qp)
  assume "wf_db d"
  with Student_list show ?thesis
    by (cases "student_get_queryset d u qp") (simp_all add: student_list_def)
next
  case (Student_retrieve u qp pk)
  assume "wf_db d"
  with Student_retrieve show ?thesis
    by (auto simp: student_retrieve_def split: sum.splits)
next
  case (Student_create u payload)
  assume "wf_db d"
  with Student_create show ?thesis by (simp add: wf_student_create)
next
  case (Student_update u qp pk partial payload)
  assume "wf_db d"
  with Student_update show ?thesis by (simp add: wf_student_update)
next
  case (Student_destroy u qp pk)
  assume "wf_db d"
  with Student_destroy show ?thesis by (simp add: wf_student_destroy)
next
  case (Student_upload_image u qp pk upl uuid)
  assume "wf_db d"
  with Student_upload_image show ?thesis by (simp add: wf_upload_image)
next
  case (Attr_list k u qp)
  assume "wf_db d"
  with Attr_list show ?thesis
    by (auto simp: attr_list_def split: sum.splits)
next
  case (Attr_retrieve k u qp pk)
  assume "wf_db d"
  with Attr_retrieve show ?thesis by (simp add: attr_retrieve_not_allowed)
next
  case (Attr_update k u qp pk partial payload)
  assume "wf_db d"
  with Attr_update show ?thesis by (simp add: wf_attr_update)
next
  case (Attr_destroy k u qp pk)
  assume "wf_db d"
  with Attr_destroy show ?thesis by (simp add: wf_attr_destroy)
qed

text \<open>
  Every database the API reaches from the empty one, by whatever requests, has unique
  primary keys and sound join tables.
\<close>

theorem wf_run: "wf_db d \<Longrightarrow> wf_db (run rqs d)"
  by (induction rqs arbitrary: d) (simp_all add: wf_handle)

corollary wf_reachable: "wf_db (run rqs empty_db)"
  by (rule wf_run) (rule wf_empty_db)

end
